theory Spec2Isabelle
  imports Complex_Main "HOL-Library.Char_ord" "HOL-Library.List_Lexorder"
    "HOL-Library.Product_Lexorder" "HOL-Library.Multiset" "HOL-Library.Mapping"
begin

section \<open>Python values, errors and the constants of class PathSet\<close>

text \<open>
  The embedding follows \<^verbatim>\<open>src/fasttrips/PathSet.py\<close>. A pandas DataFrame is a list of rows
  (a record per table, one field per column the code reads); a float column is
  \<^typ>\<open>real option\<close>, \<open>None\<close> standing for NaN, and a datetime column is \<^typ>\<open>int option\<close>
  (nanoseconds, \<open>None\<close> for NaT). Sums, products and quotients are those of the reals:
  rounding is outside the model. The exponential of \<^verbatim>\<open>calculate_cost\<close> leaves the range of
  float64 at costs the function itself assigns, so the three columns computed from it are
  of the type \<open>float64\<close> below, where underflow to 0.0 and overflow to inf are part of the
  model. String columns compare as Python compares strings, character code by character
  code, a proper prefix first.
\<close>

datatype py_error =
    KeyError string
  | AttributeError
  | Exception string
  | AssertionError
  | ValueError string
  | NotImplementedError string

definition DIR_OUTBOUND :: int where "DIR_OUTBOUND = 1"
definition DIR_INBOUND :: int where "DIR_INBOUND = 2"

definition STATE_MODE_ACCESS :: string where "STATE_MODE_ACCESS = ''access''"
definition STATE_MODE_EGRESS :: string where "STATE_MODE_EGRESS = ''egress''"
definition STATE_MODE_TRANSFER :: string where "STATE_MODE_TRANSFER = ''transfer''"
definition STATE_MODE_TRIP :: string where "STATE_MODE_TRIP = ''transit''"

definition BUMP_EXPERIENCED_COST :: real where "BUMP_EXPERIENCED_COST = 999999"
definition HUGE_COST :: real where "HUGE_COST = 9999"

text \<open>
  The column names of \<^verbatim>\<open>Passenger\<close> that the constructor reads. Class \<^verbatim>\<open>Passenger\<close> is not
  part of the source at hand; only the fact that the names differ from each other matters.
\<close>

definition TRIP_LIST_COLUMN_TIME_TARGET :: string where
  "TRIP_LIST_COLUMN_TIME_TARGET = ''time_target''"
definition TRIP_LIST_COLUMN_ARRIVAL_TIME :: string where
  "TRIP_LIST_COLUMN_ARRIVAL_TIME = ''arrival_time''"
definition TRIP_LIST_COLUMN_ARRIVAL_TIME_MIN :: string where
  "TRIP_LIST_COLUMN_ARRIVAL_TIME_MIN = ''arrival_time_min''"
definition TRIP_LIST_COLUMN_DEPARTURE_TIME :: string where
  "TRIP_LIST_COLUMN_DEPARTURE_TIME = ''departure_time''"
definition TRIP_LIST_COLUMN_DEPARTURE_TIME_MIN :: string where
  "TRIP_LIST_COLUMN_DEPARTURE_TIME_MIN = ''departure_time_min''"

section \<open>The PathSet object\<close>

text \<open>
  A value of the dictionary a PathSet is built from: a string, a number, or a pandas
  Timestamp (nanoseconds).
\<close>

datatype pyval = Str string | Num real | Timestamp int

text \<open>
  \<^verbatim>\<open>self.pathdict\<close> is a dict from path number to path after \<^verbatim>\<open>__init__\<close> and the empty
  list after \<^verbatim>\<open>reset\<close>; \<open>'p\<close> is the type of a path entry (cost, probability, states).
\<close>

datatype 'p pathdict = PyDict "(int, 'p) mapping" | PyList "'p list"

definition len :: "'p pathdict \<Rightarrow> nat" where
  "len d = (case d of PyDict m \<Rightarrow> Mapping.size m | PyList xs \<Rightarrow> length xs)"

text \<open>
  The object: the entries of \<^verbatim>\<open>trip_list_dict\<close> copied by \<^verbatim>\<open>self.__dict__.update\<close>, and the
  four attributes the constructor sets.
\<close>

record 'p PathSet =
  trip_attrs :: "string \<rightharpoonup> pyval"
  direction :: int
  pref_time :: int
  pref_time_min :: pyval
  pathdict :: "'p pathdict"

definition dict_get :: "(string \<rightharpoonup> pyval) \<Rightarrow> string \<Rightarrow> py_error + pyval" where
  "dict_get d k = (case d k of None \<Rightarrow> Inl (KeyError k) | Some v \<Rightarrow> Inr v)"

text \<open>\<^verbatim>\<open>x.to_datetime().time()\<close>: the time of day of a Timestamp, in nanoseconds.\<close>

definition to_datetime_time :: "pyval \<Rightarrow> py_error + int" where
  "to_datetime_time v =
     (case v of Timestamp t \<Rightarrow> Inr (t mod 86400000000000) | _ \<Rightarrow> Inl AttributeError)"

definition init_with ::
  "(string \<rightharpoonup> pyval) \<Rightarrow> int \<Rightarrow> string \<Rightarrow> string \<Rightarrow> py_error + 'p PathSet" where
  "init_with trip_list_dict dir time_col time_min_col =
     (case dict_get trip_list_dict time_col of
        Inl e \<Rightarrow> Inl e
      | Inr ts \<Rightarrow>
         (case to_datetime_time ts of
            Inl e \<Rightarrow> Inl e
          | Inr t \<Rightarrow>
             (case dict_get trip_list_dict time_min_col of
                Inl e \<Rightarrow> Inl e
              | Inr m \<Rightarrow>
                  Inr \<lparr>trip_attrs = trip_list_dict, direction = dir, pref_time = t,
                       pref_time_min = m, pathdict = PyDict Mapping.empty\<rparr>)))"

definition PathSet_init :: "(string \<rightharpoonup> pyval) \<Rightarrow> py_error + 'p PathSet" where
  "PathSet_init trip_list_dict =
     (case dict_get trip_list_dict TRIP_LIST_COLUMN_TIME_TARGET of
        Inl e \<Rightarrow> Inl e
      | Inr target \<Rightarrow>
          if target = Str ''arrival'' then
            init_with trip_list_dict DIR_OUTBOUND
              TRIP_LIST_COLUMN_ARRIVAL_TIME TRIP_LIST_COLUMN_ARRIVAL_TIME_MIN
          else if target = Str ''departure'' then
            init_with trip_list_dict DIR_INBOUND
              TRIP_LIST_COLUMN_DEPARTURE_TIME TRIP_LIST_COLUMN_DEPARTURE_TIME_MIN
          else Inl (Exception ''Don't understand trip_list time_target''))"

definition path_found :: "'p PathSet \<Rightarrow> bool" where
  "path_found self = (len (pathdict self) > 0)"

definition num_paths :: "'p PathSet \<Rightarrow> nat" where
  "num_paths self = len (pathdict self)"

definition reset :: "'p PathSet \<Rightarrow> 'p PathSet" where
  "reset self = self\<lparr>pathdict := PyList []\<rparr>"

definition outbound :: "'p PathSet \<Rightarrow> bool" where
  "outbound self = (direction self = DIR_OUTBOUND)"

section \<open>Relational operations of pandas\<close>

text \<open>
  \<^verbatim>\<open>pandas.merge(left, right, how='left')\<close> and \<^verbatim>\<open>how='inner'\<close>: a joined row is the pair of
  its two source rows, the rows come in the order of the left table, and a left row with
  several matches is repeated. In a left merge a left row without a match is kept once,
  with every column of the right table missing.
\<close>

definition merge_left :: "('a \<Rightarrow> 'b \<Rightarrow> bool) \<Rightarrow> 'a list \<Rightarrow> 'b list \<Rightarrow> ('a \<times> 'b option) list" where
  "merge_left on left right =
     concat (map (\<lambda>l. case filter (on l) right of
                          [] \<Rightarrow> [(l, None)]
                        | ms \<Rightarrow> map (\<lambda>r. (l, Some r)) ms) left)"

definition merge_inner :: "('a \<Rightarrow> 'b \<Rightarrow> bool) \<Rightarrow> 'a list \<Rightarrow> 'b list \<Rightarrow> ('a \<times> 'b) list" where
  "merge_inner on left right =
     concat (map (\<lambda>l. map (\<lambda>r. (l, r)) (filter (on l) right)) left)"

text \<open>\<^verbatim>\<open>drop_duplicates()\<close> keeps the first of equal rows, in the order of the table.\<close>

fun drop_duplicates :: "'a list \<Rightarrow> 'a list" where
  "drop_duplicates [] = []"
| "drop_duplicates (x # xs) = x # drop_duplicates (removeAll x xs)"

section \<open>The weight table and its validation\<close>

text \<open>
  A row of \<^verbatim>\<open>PathSet.WEIGHTS_DF\<close> as read from the weight file: five text columns and the
  value of the weight, a number on every line.
\<close>

record weight_row =
  user_class :: string
  demand_mode_type :: string
  demand_mode :: string
  supply_mode :: string
  weight_name :: string
  weight_value :: real

text \<open>The weight table once \<^verbatim>\<open>routes.add_numeric_mode_id\<close> has added its column.\<close>

record num_weight_row = weight_row +
  supply_mode_num :: int

text \<open>A row of \<^verbatim>\<open>modes_df\<close>: a combination found in the demand file.\<close>

record modes_row =
  m_user_class :: string
  m_demand_mode_type :: string
  m_demand_mode :: string

text \<open>
  \<^verbatim>\<open>error_str\<close> is kept as the list of the reports appended to it; each report is a
  non-empty text, so \<^verbatim>\<open>len(error_str) > 0\<close> is the list being non-empty.
\<close>

datatype config_error =
    MissingDemandModes "modes_row list"
  | MissingImplicitModes "string list"
  | AtCapacitySet "weight_row list"

text \<open>The columns of the weight table, and the names they have in a file.\<close>

datatype weights_column =
    WEIGHTS_COLUMN_USER_CLASS
  | WEIGHTS_COLUMN_DEMAND_MODE_TYPE
  | WEIGHTS_COLUMN_DEMAND_MODE
  | WEIGHTS_COLUMN_SUPPLY_MODE
  | WEIGHTS_COLUMN_WEIGHT_NAME
  | WEIGHTS_COLUMN_WEIGHT_VALUE
  | WEIGHTS_COLUMN_SUPPLY_MODE_NUM

fun column_name :: "weights_column \<Rightarrow> string" where
  "column_name WEIGHTS_COLUMN_USER_CLASS = ''user_class''"
| "column_name WEIGHTS_COLUMN_DEMAND_MODE_TYPE = ''demand_mode_type''"
| "column_name WEIGHTS_COLUMN_DEMAND_MODE = ''demand_mode''"
| "column_name WEIGHTS_COLUMN_SUPPLY_MODE = ''supply_mode''"
| "column_name WEIGHTS_COLUMN_WEIGHT_NAME = ''weight_name''"
| "column_name WEIGHTS_COLUMN_WEIGHT_VALUE = ''weight_value''"
| "column_name WEIGHTS_COLUMN_SUPPLY_MODE_NUM = ''supply_mode_num''"

datatype cell = CStr string | CInt int | CFloat real

fun column_cell :: "weights_column \<Rightarrow> num_weight_row \<Rightarrow> cell" where
  "column_cell WEIGHTS_COLUMN_USER_CLASS r = CStr (user_class r)"
| "column_cell WEIGHTS_COLUMN_DEMAND_MODE_TYPE r = CStr (demand_mode_type r)"
| "column_cell WEIGHTS_COLUMN_DEMAND_MODE r = CStr (demand_mode r)"
| "column_cell WEIGHTS_COLUMN_SUPPLY_MODE r = CStr (supply_mode r)"
| "column_cell WEIGHTS_COLUMN_WEIGHT_NAME r = CStr (weight_name r)"
| "column_cell WEIGHTS_COLUMN_WEIGHT_VALUE r = CFloat (weight_value r)"
| "column_cell WEIGHTS_COLUMN_SUPPLY_MODE_NUM r = CInt (supply_mode_num r)"

text \<open>
  A delimited text file as \<^verbatim>\<open>DataFrame.to_csv\<close> lays it out: the separator, the header
  line when there is one, and the cells of each data line. How a number is printed is not
  modelled.
\<close>

record csv_file =
  csv_sep :: char
  csv_header :: "string list option"
  csv_rows :: "cell list list"

text \<open>
  \<^verbatim>\<open>df.to_csv(path, columns=..., sep=..., header=..., index=False)\<close>. The argument
  \<open>header\<close> is a parameter of pandas whose default is \<^verbatim>\<open>True\<close>.
\<close>

definition to_csv :: "weights_column list \<Rightarrow> char \<Rightarrow> bool \<Rightarrow> num_weight_row list \<Rightarrow> csv_file" where
  "to_csv columns sep header df =
     \<lparr>csv_sep = sep,
      csv_header = (if header then Some (map column_name columns) else None),
      csv_rows = map (\<lambda>r. map (\<lambda>c. column_cell c r) columns) df\<rparr>"

text \<open>The key of \<^verbatim>\<open>WEIGHTS_DF.sort_values(by=[...])\<close> in the capacity branch.\<close>

definition weights_sort_key ::
  "weight_row \<Rightarrow> string \<times> string \<times> string \<times> string \<times> string" where
  "weights_sort_key w =
     (user_class w, demand_mode_type w, demand_mode w, supply_mode w, weight_name w)"

text \<open>
  The rows of \<^verbatim>\<open>transit_weights_df\<close>: the four columns selected from the transit rows,
  without duplicates, then the two columns set to \<^verbatim>\<open>"at_capacity"\<close> and \<^verbatim>\<open>HUGE_COST\<close>.
\<close>

definition transit_weights_df :: "weight_row list \<Rightarrow> weight_row list" where
  "transit_weights_df W =
     map (\<lambda>(uc, dm, dmt, sm).
            \<lparr>user_class = uc, demand_mode_type = dmt, demand_mode = dm, supply_mode = sm,
             weight_name = ''at_capacity'', weight_value = HUGE_COST\<rparr>)
         (drop_duplicates
            (map (\<lambda>w. (user_class w, demand_mode w, demand_mode_type w, supply_mode w))
                 (filter (\<lambda>w. demand_mode_type w = STATE_MODE_TRIP) W)))"

text \<open>
  Lines 224 to 248: the reports added to \<^verbatim>\<open>error_str\<close> and the new value of
  \<^verbatim>\<open>PathSet.WEIGHTS_DF\<close>. A sort on several columns is stable in pandas, as \<open>sort_key\<close> is.
\<close>

definition capacity_weights :: "weight_row list \<Rightarrow> config_error list \<times> weight_row list" where
  "capacity_weights W =
     (let at_capacity = filter (\<lambda>w. weight_name w = ''at_capacity'') W in
      if length at_capacity > 0 then ([AtCapacitySet at_capacity], W)
      else ([], sort_key weights_sort_key (W @ transit_weights_df W)))"

text \<open>Lines 183 to 195: the demand combinations with no weight row.\<close>

definition missing_demand_modes :: "modes_row list \<Rightarrow> weight_row list \<Rightarrow> config_error list" where
  "missing_demand_modes modes_df W =
     (let weight_check =
            merge_left (\<lambda>m w. m_user_class m = user_class w
                             \<and> m_demand_mode_type m = demand_mode_type w
                             \<and> m_demand_mode m = demand_mode w) modes_df W;
          missing = filter (\<lambda>(m, w). w = None) weight_check
      in if length missing > 0 then [MissingDemandModes (map fst missing)] else [])"

text \<open>Lines 197 to 219: the transfer rows every user class needs.\<close>

definition missing_implicit_modes :: "modes_row list \<Rightarrow> weight_row list \<Rightarrow> config_error list" where
  "missing_implicit_modes modes_df W =
     (let user_classes = drop_duplicates (map m_user_class modes_df);
          weight_check =
            merge_left (\<lambda>uc w. uc = user_class w
                             \<and> ''transfer'' = demand_mode_type w
                             \<and> ''transfer'' = demand_mode w
                             \<and> ''transfer'' = supply_mode w) user_classes W;
          missing = filter (\<lambda>(uc, w). w = None) weight_check
      in if length missing > 0 then [MissingImplicitModes (map fst missing)] else [])"

text \<open>
  What a call leaves behind: \<^verbatim>\<open>sys.exit(2)\<close> with the reports and the value
  \<^verbatim>\<open>PathSet.WEIGHTS_DF\<close> has at that moment, or the final \<^verbatim>\<open>PathSet.WEIGHTS_DF\<close> and the
  file written for the path finder.
\<close>

datatype verify_result =
    SysExit int "config_error list" "weight_row list"
  | Completed "num_weight_row list" csv_file

text \<open>
  \<^verbatim>\<open>verify_weight_config(modes_df, output_dir, routes, capacity_constraint)\<close>, with the
  value of \<^verbatim>\<open>PathSet.WEIGHTS_DF\<close> as last argument. Class \<^verbatim>\<open>Route\<close> is not part of the source
  at hand, so \<^verbatim>\<open>routes.add_numeric_mode_id(WEIGHTS_DF, ..., warn=True)\<close> is the parameter
  \<open>add_numeric_mode_id\<close>.
\<close>

definition verify_weight_config ::
  "modes_row list \<Rightarrow> (weight_row list \<Rightarrow> num_weight_row list) \<Rightarrow> bool \<Rightarrow> weight_row list
     \<Rightarrow> verify_result" where
  "verify_weight_config modes_df add_numeric_mode_id capacity_constraint WEIGHTS_DF =
     (let error_str1 = missing_demand_modes modes_df WEIGHTS_DF
                       @ missing_implicit_modes modes_df WEIGHTS_DF;
          (error_str2, WEIGHTS_DF1) =
             (if capacity_constraint then capacity_weights WEIGHTS_DF else ([], WEIGHTS_DF));
          error_str = error_str1 @ error_str2
      in if length error_str > 0 then SysExit 2 error_str WEIGHTS_DF1
         else let WEIGHTS_DF2 = add_numeric_mode_id WEIGHTS_DF1
              in Completed WEIGHTS_DF2
                   (to_csv [WEIGHTS_COLUMN_USER_CLASS, WEIGHTS_COLUMN_DEMAND_MODE_TYPE,
                            WEIGHTS_COLUMN_DEMAND_MODE, WEIGHTS_COLUMN_SUPPLY_MODE_NUM,
                            WEIGHTS_COLUMN_WEIGHT_NAME, WEIGHTS_COLUMN_WEIGHT_VALUE]
                           (CHR '' '') True WEIGHTS_DF2))"

section \<open>The tables of calculate_cost\<close>

text \<open>
  A row of \<^verbatim>\<open>trip_list_df\<close>, with the columns \<^verbatim>\<open>calculate_cost\<close> selects. Times are
  nanoseconds; \<open>None\<close> is NaT. The text columns are set in every row.
\<close>

record trip_row =
  t_person_id :: string
  t_trip_list_id_num :: int
  t_user_class :: string
  t_purpose :: string
  t_access_mode :: string
  t_egress_mode :: string
  t_transit_mode :: string
  t_departure_time :: "int option"
  t_arrival_time :: "int option"
  t_time_target :: string

text \<open>
  A row of \<^verbatim>\<open>pathset_links_df\<close>. \<open>l_linkmode\<close> is \<^verbatim>\<open>Passenger.PF_COL_LINK_MODE\<close>, \<open>l_mode\<close>
  is \<^verbatim>\<open>Passenger.TRIP_LIST_COLUMN_MODE\<close> (the supply mode of the link), \<open>l_pf_A_time\<close>,
  \<open>l_pf_B_time\<close> and \<open>l_pf_linktime\<close> are \<^verbatim>\<open>PF_COL_PAX_A_TIME\<close>, \<^verbatim>\<open>PF_COL_PAX_B_TIME\<close> and
  \<^verbatim>\<open>PF_COL_LINK_TIME\<close>, \<open>l_missed_xfer\<close> and \<open>l_bump_iter\<close> are
  \<^verbatim>\<open>Assignment.SIM_COL_MISSED_XFER\<close> and \<^verbatim>\<open>Assignment.SIM_COL_PAX_BUMP_ITER\<close>, \<open>l_overcap\<close> and
  \<open>l_msa_overcap\<close> are \<^verbatim>\<open>Trip.SIM_COL_VEH_OVERCAP\<close> and \<^verbatim>\<open>Trip.SIM_COL_VEH_MSA_OVERCAP\<close>,
  \<open>l_bumpstop_boarded\<close> is \<^verbatim>\<open>Assignment.SIM_COL_PAX_BUMPSTOP_BOARDED\<close>. The last two
  columns may be absent from the table (see \<open>links_df\<close> below) and are then not read; a
  number or a time that is not set is NaN or NaT, here \<open>None\<close>.
\<close>

record link_row =
  l_person_id :: string
  l_trip_list_id_num :: int
  l_pathnum :: int
  l_linknum :: int
  l_linkmode :: string
  l_mode :: string
  l_A_id_num :: int
  l_B_id_num :: int
  l_pf_A_time :: "int option"
  l_pf_B_time :: "int option"
  l_pf_linktime :: "int option"
  l_board_time :: "int option"
  l_alight_time :: "int option"
  l_missed_xfer :: "int option"
  l_bump_iter :: "int option"
  l_overcap :: "real option"
  l_msa_overcap :: "real option"
  l_bumpstop_boarded :: "int option"

text \<open>The link table returned: the column \<^verbatim>\<open>Assignment.SIM_COL_PAX_COST\<close> is added.\<close>

record link_cost_row = link_row +
  l_sim_cost :: "real option"

text \<open>
  The link table: its rows, and whether it has the two columns the code looks up in
  \<^verbatim>\<open>cost_trip_df.columns.values\<close> before it reads them.
\<close>

record 'l links_df =
  veh_msa_overcap_col :: bool
  pax_bumpstop_boarded_col :: bool
  link_rows :: "'l list"

text \<open>
  A float64 that is not negative, as \<^verbatim>\<open>numpy.exp\<close> and the sums and quotients of its
  results are: a number, inf or NaN.
\<close>

datatype float64 = Float real | PInf | NaN

text \<open>
  A row of \<^verbatim>\<open>pathset_paths_df\<close>, and the row returned, with the four added columns:
  \<^verbatim>\<open>Assignment.SIM_COL_PAX_COST\<close>, \<^verbatim>\<open>logsum_component\<close>, \<^verbatim>\<open>logsum\<close> and
  \<^verbatim>\<open>Assignment.SIM_COL_PAX_PROBABILITY\<close>.
\<close>

record path_row =
  p_person_id :: string
  p_trip_list_id_num :: int
  p_pathnum :: int
  p_pf_cost :: real
  p_pf_probability :: real

record path_cost_row = path_row +
  p_sim_cost :: "real option"
  p_logsum_component :: float64
  p_logsum :: float64
  p_probability :: float64

text \<open>
  The two tables passed in. They come from the path finder, without the computed
  columns, or from an earlier call of \<^verbatim>\<open>calculate_cost\<close>, with them.
\<close>

datatype tables =
    Fresh "path_row list" "link_row links_df"
  | Costed "path_cost_row list" "link_cost_row links_df"

text \<open>
  \<^verbatim>\<open>walk_df\<close> and \<^verbatim>\<open>drive_df\<close>: zone, supply mode number, stop, and the values of the
  numeric columns by name. \<open>a_numeric_columns\<close> lists the names \<^verbatim>\<open>select_dtypes\<close> gives once
  the index is reset, the three join columns left out.
\<close>

record access_link_row =
  a_taz_num :: int
  a_supply_mode_num :: int
  a_stop_num :: int
  a_numeric :: "string \<rightharpoonup> real"

record access_df =
  a_numeric_columns :: "string list"
  a_rows :: "access_link_row list"

text \<open>\<^verbatim>\<open>transfers_df\<close>: the two stops and the values of the numeric columns by name.\<close>

record transfer_row =
  x_from_stop_num :: int
  x_to_stop_num :: int
  x_numeric :: "string \<rightharpoonup> real"

record transfers_df =
  x_numeric_columns :: "string list"
  x_rows :: "transfer_row list"

text \<open>
  What \<^verbatim>\<open>calculate_cost\<close> reads from other classes: \<^verbatim>\<open>PathSet.WEIGHTS_DF\<close>,
  \<^verbatim>\<open>Assignment.MSA_RESULTS\<close> and the mode number lists of \<^verbatim>\<open>TAZ\<close>.
\<close>

record globals =
  WEIGHTS_DF :: "num_weight_row list"
  MSA_RESULTS :: bool
  WALK_MODE_NUMS :: "int list"
  DRIVE_MODE_NUMS :: "int list"
  ACCESS_MODE_NUMS :: "int list"
  EGRESS_MODE_NUMS :: "int list"

text \<open>
  A row of \<^verbatim>\<open>cost_df\<close>: a link, the columns merged in from its trip, its demand mode, the
  bump iteration of the cost table, the weight row it is joined with, and \<^verbatim>\<open>var_value\<close>.
\<close>

record cost_row =
  c_link :: link_row
  c_user_class :: "string option"
  c_purpose :: "string option"
  c_demand_mode :: "string option"
  c_bump_iter :: "int option"
  c_weight :: num_weight_row
  var_value :: "real option"

record accegr_cost_row = cost_row +
  c_departure_time :: "int option"
  c_arrival_time :: "int option"
  c_time_target :: "string option"

record trip_cost_row = cost_row +
  at_capacity :: real

record transfer_cost_row = cost_row +
  c_transfer :: "transfer_row option"

record costed_row = cost_row +
  sim_cost :: "real option"

section \<open>The steps of calculate_cost\<close>

text \<open>
  Lines 476 to 484: the columns of an earlier call are dropped. The code looks for the
  cost column in the path table only and then drops from both tables, so the two tables
  are taken to be of the same kind.
\<close>

fun drop_cost_columns :: "tables \<Rightarrow> path_row list \<times> link_row links_df" where
  "drop_cost_columns (Fresh pathset_paths_df pathset_links_df) =
     (pathset_paths_df, pathset_links_df)"
| "drop_cost_columns (Costed pathset_paths_df pathset_links_df) =
     (map path_row.truncate pathset_paths_df,
      \<lparr>veh_msa_overcap_col = veh_msa_overcap_col pathset_links_df,
       pax_bumpstop_boarded_col = pax_bumpstop_boarded_col pathset_links_df,
       link_rows = map link_row.truncate (link_rows pathset_links_df)\<rparr>)"

text \<open>
  Lines 507 to 511: the demand mode of a link, from the trip row merged to it (\<open>None\<close>
  when the left merge found no trip). The four assignments select on four different values
  of the link mode; the last of them is tested first here.
\<close>

definition demand_mode_of :: "link_row \<Rightarrow> trip_row option \<Rightarrow> string option" where
  "demand_mode_of l t =
     (if l_linkmode l = STATE_MODE_TRANSFER then Some ''transfer''
      else if l_linkmode l = STATE_MODE_TRIP then map_option t_transit_mode t
      else if l_linkmode l = STATE_MODE_EGRESS then map_option t_egress_mode t
      else if l_linkmode l = STATE_MODE_ACCESS then map_option t_access_mode t
      else None)"

definition same_trip :: "link_row \<Rightarrow> trip_row \<Rightarrow> bool" where
  "same_trip l t = (l_person_id l = t_person_id t \<and> l_trip_list_id_num l = t_trip_list_id_num t)"

text \<open>
  Lines 491 to 548: the links merged with their trips, the demand mode checked, the bump
  iteration set, the inner join with the weights, and \<^verbatim>\<open>var_value\<close> unset.
\<close>

definition weight_applies ::
  "link_row \<times> trip_row option \<Rightarrow> num_weight_row \<Rightarrow> bool" where
  "weight_applies lt w =
     (map_option t_user_class (snd lt) = Some (user_class w)
      \<and> l_linkmode (fst lt) = demand_mode_type w
      \<and> demand_mode_of (fst lt) (snd lt) = Some (demand_mode w)
      \<and> l_mode (fst lt) = supply_mode w)"

definition new_cost_row :: "int \<Rightarrow> (link_row \<times> trip_row option) \<times> num_weight_row \<Rightarrow> cost_row" where
  "new_cost_row simulation_iteration ltw =
     (case ltw of ((l, t), w) \<Rightarrow>
        \<lparr>c_link = l,
         c_user_class = map_option t_user_class t,
         c_purpose = map_option t_purpose t,
         c_demand_mode = demand_mode_of l t,
         c_bump_iter = (if simulation_iteration = 0 then Some (- 1) else l_bump_iter l),
         c_weight = w,
         var_value = None\<rparr>)"

definition link_weight_rows ::
  "globals \<Rightarrow> int \<Rightarrow> link_row list \<Rightarrow> trip_row list \<Rightarrow> py_error + cost_row list" where
  "link_weight_rows g simulation_iteration pathset_links_df trip_list_df =
     (let pathset_links_cost_df = merge_left same_trip pathset_links_df trip_list_df;
          missing_demand_mode =
            length (filter (\<lambda>(l, t). demand_mode_of l t = None) pathset_links_cost_df)
      in if missing_demand_mode \<noteq> 0 then Inl AssertionError
         else Inr (map (new_cost_row simulation_iteration)
                       (merge_inner weight_applies pathset_links_cost_df (WEIGHTS_DF g))))"

text \<open>\<^verbatim>\<open>df.loc[cond, "var_value"] = rhs\<close>: what it does to one row, and to the table.\<close>

definition loc_row ::
  "('a cost_row_scheme \<Rightarrow> bool) \<Rightarrow> ('a cost_row_scheme \<Rightarrow> real option)
     \<Rightarrow> 'a cost_row_scheme \<Rightarrow> 'a cost_row_scheme" where
  "loc_row cond rhs r = (if cond r then r\<lparr>var_value := rhs r\<rparr> else r)"

definition loc_var_value ::
  "('a cost_row_scheme \<Rightarrow> bool) \<Rightarrow> ('a cost_row_scheme \<Rightarrow> real option)
     \<Rightarrow> 'a cost_row_scheme list \<Rightarrow> 'a cost_row_scheme list" where
  "loc_var_value cond rhs df = map (loc_row cond rhs) df"

text \<open>
  A timedelta divided by \<^verbatim>\<open>numpy.timedelta64(1,'m')\<close>, and the difference of two times
  divided by it; NaT gives NaN.
\<close>

definition timedelta_minutes :: "int option \<Rightarrow> real option" where
  "timedelta_minutes d = map_option (\<lambda>x. real_of_int x / 60000000000) d"

definition minutes :: "int option \<Rightarrow> int option \<Rightarrow> real option" where
  "minutes a b =
     timedelta_minutes (case (a, b) of (Some x, Some y) \<Rightarrow> Some (x - y) | _ \<Rightarrow> None)"

subsection \<open>Access and egress links\<close>

text \<open>Lines 573 to 578: the two ends of a row of the access table.\<close>

definition A_B_id_num :: "globals \<Rightarrow> access_link_row \<Rightarrow> int \<times> int" where
  "A_B_id_num g a =
     (let ab = (- 1, - 1);
          ab = (if a_supply_mode_num a \<in> set (ACCESS_MODE_NUMS g)
                then (a_taz_num a, a_stop_num a) else ab);
          ab = (if a_supply_mode_num a \<in> set (EGRESS_MODE_NUMS g)
                then (a_stop_num a, a_taz_num a) else ab)
      in ab)"

text \<open>
  Lines 592 to 602: for each numeric column, the rows whose weight has that name and a
  supply mode of the list take the value merged in (NaN when no row of the access table
  matched).
\<close>

definition use_columns ::
  "string list \<Rightarrow> int list \<Rightarrow> cost_row \<times> access_link_row option \<Rightarrow> cost_row" where
  "use_columns colnames mode_list ca =
     fold (\<lambda>colname c.
             if weight_name (c_weight c) = colname
                \<and> supply_mode_num (c_weight c) \<in> set mode_list
             then c\<lparr>var_value := (case snd ca of None \<Rightarrow> None | Some a \<Rightarrow> a_numeric a colname)\<rparr>
             else c)
          colnames (fst ca)"

definition merge_access ::
  "globals \<Rightarrow> access_df \<Rightarrow> int list \<Rightarrow> cost_row list \<Rightarrow> py_error + cost_row list" where
  "merge_access g link_df mode_list cost_accegr_df =
     (if length (a_rows link_df) = 0 then Inr cost_accegr_df
      else if length (filter (\<lambda>a. fst (A_B_id_num g a) < 0) (a_rows link_df)) \<noteq> 0
      then Inl AssertionError
      else Inr (map (use_columns (a_numeric_columns link_df) mode_list)
                  (merge_left (\<lambda>c a. l_A_id_num (c_link c) = fst (A_B_id_num g a)
                                     \<and> supply_mode_num (c_weight c) = a_supply_mode_num a
                                     \<and> l_B_id_num (c_link c) = snd (A_B_id_num g a))
                     cost_accegr_df (a_rows link_df))))"

text \<open>Lines 553 to 602: the loop over walk, bike and drive; bike is skipped.\<close>

fun accegr_loop ::
  "globals \<Rightarrow> access_df \<Rightarrow> access_df \<Rightarrow> string list \<Rightarrow> cost_row list
     \<Rightarrow> py_error + cost_row list" where
  "accegr_loop g walk_df drive_df [] cost_accegr_df = Inr cost_accegr_df"
| "accegr_loop g walk_df drive_df (accegr_type # rest) cost_accegr_df =
     (if accegr_type = ''bike'' then accegr_loop g walk_df drive_df rest cost_accegr_df
      else
        (case (if accegr_type = ''walk''
               then merge_access g walk_df (WALK_MODE_NUMS g) cost_accegr_df
               else merge_access g drive_df (DRIVE_MODE_NUMS g) cost_accegr_df) of
           Inl e \<Rightarrow> Inl e
         | Inr df \<Rightarrow> accegr_loop g walk_df drive_df rest df))"

text \<open>Lines 605 to 613: departure, arrival and time target of the trip are merged in.\<close>

definition with_trip_times :: "cost_row \<times> trip_row option \<Rightarrow> accegr_cost_row" where
  "with_trip_times ct =
     cost_row.extend (fst ct)
       (accegr_cost_row.fields
          (case snd ct of None \<Rightarrow> None | Some t \<Rightarrow> t_departure_time t)
          (case snd ct of None \<Rightarrow> None | Some t \<Rightarrow> t_arrival_time t)
          (map_option t_time_target (snd ct)))"

text \<open>Lines 615 to 628: the four assignments of the preferred delay.\<close>

definition preferred_delay :: "accegr_cost_row list \<Rightarrow> accegr_cost_row list" where
  "preferred_delay cost_accegr_df =
     (let df = loc_var_value
                 (\<lambda>r. weight_name (c_weight r) = ''preferred_delay_min''
                     \<and> l_linkmode (c_link r) = STATE_MODE_ACCESS
                     \<and> c_time_target r = Some ''arrival'')
                 (\<lambda>r. Some 0) cost_accegr_df;
          df = loc_var_value
                 (\<lambda>r. weight_name (c_weight r) = ''preferred_delay_min''
                     \<and> l_linkmode (c_link r) = STATE_MODE_EGRESS
                     \<and> c_time_target r = Some ''arrival'')
                 (\<lambda>r. minutes (c_arrival_time r) (l_pf_B_time (c_link r))) df;
          df = loc_var_value
                 (\<lambda>r. weight_name (c_weight r) = ''preferred_delay_min''
                     \<and> l_linkmode (c_link r) = STATE_MODE_ACCESS
                     \<and> c_time_target r = Some ''departure'')
                 (\<lambda>r. minutes (l_pf_A_time (c_link r)) (c_departure_time r)) df;
          df = loc_var_value
                 (\<lambda>r. weight_name (c_weight r) = ''preferred_delay_min''
                     \<and> l_linkmode (c_link r) = STATE_MODE_EGRESS
                     \<and> c_time_target r = Some ''departure'')
                 (\<lambda>r. Some 0) df
      in df)"

definition same_trip_cost :: "cost_row \<Rightarrow> trip_row \<Rightarrow> bool" where
  "same_trip_cost c t = same_trip (c_link c) t"

text \<open>Lines 551 to 628: \<^verbatim>\<open>cost_accegr_df\<close> with its values.\<close>

definition accegr_costs ::
  "globals \<Rightarrow> access_df \<Rightarrow> access_df \<Rightarrow> trip_row list \<Rightarrow> cost_row list
     \<Rightarrow> py_error + accegr_cost_row list" where
  "accegr_costs g walk_df drive_df trip_list_df cost_accegr_df =
     (case accegr_loop g walk_df drive_df [''walk'', ''bike'', ''drive''] cost_accegr_df of
        Inl e \<Rightarrow> Inl e
      | Inr df \<Rightarrow>
          Inr (preferred_delay (map with_trip_times (merge_left same_trip_cost df trip_list_df))))"

subsection \<open>Transit links\<close>

text \<open>Lines 645 and 646: the column holding the overcap of the vehicle.\<close>

definition overcap_col :: "globals \<Rightarrow> 'l links_df \<Rightarrow> 'a cost_row_scheme \<Rightarrow> real option" where
  "overcap_col g pathset_links_df r =
     (if MSA_RESULTS g \<and> veh_msa_overcap_col pathset_links_df
      then l_msa_overcap (c_link r) else l_overcap (c_link r))"

definition ge0 :: "real option \<Rightarrow> bool" where
  "ge0 x = (case x of None \<Rightarrow> False | Some v \<Rightarrow> v \<ge> 0)"

definition lt0 :: "real option \<Rightarrow> bool" where
  "lt0 x = (case x of None \<Rightarrow> False | Some v \<Rightarrow> v < 0)"

text \<open>Lines 649 to 653: the column \<^verbatim>\<open>at_capacity\<close>.\<close>

definition set_at_capacity :: "globals \<Rightarrow> 'l links_df \<Rightarrow> cost_row \<Rightarrow> trip_cost_row" where
  "set_at_capacity g pathset_links_df c =
     (let r = cost_row.extend c (trip_cost_row.fields 0) in
      if pax_bumpstop_boarded_col pathset_links_df
      then (if ge0 (overcap_col g pathset_links_df r) \<and> l_bumpstop_boarded (c_link r) \<noteq> Some 1
            then r\<lparr>at_capacity := 1\<rparr> else r)
      else (if ge0 (overcap_col g pathset_links_df r)
            then r\<lparr>at_capacity := 1\<rparr> else r))"

text \<open>Lines 641 to 658: \<^verbatim>\<open>cost_trip_df\<close> with its values.\<close>

definition trip_costs :: "globals \<Rightarrow> 'l links_df \<Rightarrow> cost_row list \<Rightarrow> trip_cost_row list" where
  "trip_costs g pathset_links_df cost_trip_df =
     (let df = loc_var_value (\<lambda>r. weight_name (c_weight r) = ''in_vehicle_time_min'')
                 (\<lambda>r. minutes (l_alight_time (c_link r)) (l_board_time (c_link r))) cost_trip_df;
          df = loc_var_value (\<lambda>r. weight_name (c_weight r) = ''wait_time_min'')
                 (\<lambda>r. minutes (l_board_time (c_link r)) (l_pf_A_time (c_link r))) df;
          df = map (set_at_capacity g pathset_links_df) df;
          df = loc_var_value (\<lambda>r. weight_name (c_weight r) = ''at_capacity'')
                 (\<lambda>r. Some (at_capacity r)) df;
          df = loc_var_value (\<lambda>r. weight_name (c_weight r) = ''overcap'')
                 (overcap_col g pathset_links_df) df;
          df = loc_var_value (\<lambda>r. weight_name (c_weight r) = ''overcap'' \<and> lt0 (var_value r))
                 (\<lambda>r. Some 0) df
      in df)"

subsection \<open>Transfer links\<close>

definition with_transfer :: "cost_row \<times> transfer_row option \<Rightarrow> transfer_cost_row" where
  "with_transfer cx = cost_row.extend (fst cx) (transfer_cost_row.fields (snd cx))"

text \<open>The value a column of \<^verbatim>\<open>transfers_df\<close> has in a merged row.\<close>

definition transfer_column :: "string \<Rightarrow> transfer_cost_row \<Rightarrow> real option" where
  "transfer_column colname r = (case c_transfer r of None \<Rightarrow> None | Some x \<Rightarrow> x_numeric x colname)"

text \<open>Lines 672 to 689: \<^verbatim>\<open>cost_transfer_df\<close> with its values.\<close>

definition transfer_costs :: "transfers_df \<Rightarrow> cost_row list \<Rightarrow> transfer_cost_row list" where
  "transfer_costs transfers_df cost_transfer_df =
     (let df = map with_transfer
                 (merge_left (\<lambda>c x. l_A_id_num (c_link c) = x_from_stop_num x
                                    \<and> l_B_id_num (c_link c) = x_to_stop_num x)
                    cost_transfer_df (x_rows transfers_df));
          df = loc_var_value (\<lambda>r. weight_name (c_weight r) = ''walk_time_min'')
                 (\<lambda>r. timedelta_minutes (l_pf_linktime (c_link r))) df;
          df = fold (\<lambda>colname. loc_var_value (\<lambda>r. weight_name (c_weight r) = colname)
                                   (transfer_column colname))
                 (x_numeric_columns transfers_df) df;
          df = loc_var_value (\<lambda>r. weight_name (c_weight r) \<noteq> ''transfer_penalty''
                                 \<and> l_A_id_num (c_link r) = l_B_id_num (c_link r))
                 (\<lambda>r. Some 0) df;
          df = loc_var_value (\<lambda>r. weight_name (c_weight r) = ''transfer_penalty''
                                 \<and> var_value r = None)
                 (\<lambda>r. Some 1) df
      in df)"

subsection \<open>The three tables of variable values\<close>

text \<open>
  Lines 476 to 689 of \<^verbatim>\<open>calculate_cost\<close>: \<^verbatim>\<open>cost_accegr_df\<close>, \<^verbatim>\<open>cost_trip_df\<close> and
  \<^verbatim>\<open>cost_transfer_df\<close> as they are when the missing values are counted.
\<close>

definition cost_tables ::
  "globals \<Rightarrow> int \<Rightarrow> tables \<Rightarrow> trip_row list \<Rightarrow> transfers_df \<Rightarrow> access_df \<Rightarrow> access_df
     \<Rightarrow> py_error + accegr_cost_row list \<times> trip_cost_row list \<times> transfer_cost_row list" where
  "cost_tables g simulation_iteration tabs trip_list_df transfers_df walk_df drive_df =
     (case drop_cost_columns tabs of (pathset_paths_df, pathset_links_df) \<Rightarrow>
        (case link_weight_rows g simulation_iteration (link_rows pathset_links_df) trip_list_df of
           Inl e \<Rightarrow> Inl e
         | Inr cost_df \<Rightarrow>
            (let cost_accegr_df =
                   filter (\<lambda>c. l_linkmode (c_link c) = STATE_MODE_ACCESS
                              \<or> l_linkmode (c_link c) = STATE_MODE_EGRESS) cost_df;
                 cost_trip_df = filter (\<lambda>c. l_linkmode (c_link c) = STATE_MODE_TRIP) cost_df;
                 cost_transfer_df =
                   filter (\<lambda>c. l_linkmode (c_link c) = STATE_MODE_TRANSFER) cost_df
             in case accegr_costs g walk_df drive_df trip_list_df cost_accegr_df of
                  Inl e \<Rightarrow> Inl e
                | Inr cost_accegr_df \<Rightarrow>
                    Inr (cost_accegr_df,
                         trip_costs g pathset_links_df cost_trip_df,
                         transfer_costs transfers_df cost_transfer_df))))"

subsection \<open>Costs of links and paths\<close>

text \<open>The number of rows whose \<^verbatim>\<open>var_value\<close> is null.\<close>

definition missing_costs :: "'a cost_row_scheme list \<Rightarrow> nat" where
  "missing_costs df = length (filter (\<lambda>r. var_value r = None) df)"

text \<open>The columns a link is grouped and merged by, and those of a path.\<close>

definition link_key :: "'a link_row_scheme \<Rightarrow> int \<times> int \<times> int" where
  "link_key l = (l_trip_list_id_num l, l_pathnum l, l_linknum l)"

definition path_key :: "'a path_row_scheme \<Rightarrow> int \<times> int" where
  "path_key p = (p_trip_list_id_num p, p_pathnum p)"

text \<open>\<^verbatim>\<open>df.loc[cond, Assignment.SIM_COL_PAX_COST] = rhs\<close>, row by row.\<close>

definition loc_sim_cost ::
  "(costed_row \<Rightarrow> bool) \<Rightarrow> (costed_row \<Rightarrow> real option) \<Rightarrow> costed_row list \<Rightarrow> costed_row list" where
  "loc_sim_cost cond rhs df = map (\<lambda>r. if cond r then r\<lparr>sim_cost := rhs r\<rparr> else r) df"

text \<open>Line 729: the cost of a row is its value times its weight.\<close>

definition with_sim_cost :: "cost_row \<Rightarrow> costed_row" where
  "with_sim_cost c =
     cost_row.extend c
       (costed_row.fields (map_option (\<lambda>v. v * weight_value (c_weight c)) (var_value c)))"

definition bumped :: "int option \<Rightarrow> bool" where
  "bumped b = (case b of None \<Rightarrow> False | Some i \<Rightarrow> i \<ge> 0)"

text \<open>Lines 729 to 739: \<^verbatim>\<open>cost_df\<close> with its costs, the two penalties, sorted.\<close>

definition cost_rows :: "cost_row list \<Rightarrow> costed_row list" where
  "cost_rows cost_df =
     (let df = map with_sim_cost cost_df;
          df = loc_sim_cost (\<lambda>r. l_missed_xfer (c_link r) = Some 1) (\<lambda>r. Some HUGE_COST) df;
          df = loc_sim_cost (\<lambda>r. bumped (c_bump_iter r)) (\<lambda>r. Some HUGE_COST) df;
          df = sort_key (\<lambda>r. link_key (c_link r)) df
      in df)"

text \<open>
  \<^verbatim>\<open>groupby(keys).aggregate('sum').reset_index()\<close>: one row for each key, the keys in
  ascending order, the sum taken over the values that are not NaN. A group with no such
  value sums to NaN (pandas before 0.22; 0.0 since, which changes no cost or probability
  below).
\<close>

definition dropna :: "real option list \<Rightarrow> real list" where
  "dropna xs = concat (map (\<lambda>x. case x of None \<Rightarrow> [] | Some v \<Rightarrow> [v]) xs)"

definition sum_skipna :: "real option list \<Rightarrow> real option" where
  "sum_skipna xs = (if dropna xs = [] then None else Some (sum_list (dropna xs)))"

definition groupby_sum ::
  "('r \<Rightarrow> 'k::linorder) \<Rightarrow> ('r \<Rightarrow> real option) \<Rightarrow> 'r list \<Rightarrow> ('k \<times> real option) list" where
  "groupby_sum key val df =
     map (\<lambda>k. (k, sum_skipna (map val (filter (\<lambda>r. key r = k) df))))
         (sort (remdups (map key df)))"

text \<open>The value of the summed column in a row of a left merge with a table of sums.\<close>

definition merged_sum :: "('k \<times> real option) option \<Rightarrow> real option" where
  "merged_sum m = (case m of None \<Rightarrow> None | Some ks \<Rightarrow> snd ks)"

text \<open>Lines 743 to 757: the costs summed by link and merged to the link table.\<close>

definition cost_link_df_of :: "costed_row list \<Rightarrow> ((int \<times> int \<times> int) \<times> real option) list" where
  "cost_link_df_of cost_df = groupby_sum (\<lambda>r. link_key (c_link r)) sim_cost cost_df"

definition links_with_cost ::
  "link_row list \<Rightarrow> ((int \<times> int \<times> int) \<times> real option) list \<Rightarrow> link_cost_row list" where
  "links_with_cost pathset_links_df cost_link_df =
     map (\<lambda>lm. link_row.extend (fst lm) (link_cost_row.fields (merged_sum (snd lm))))
         (merge_left (\<lambda>l ks. link_key l = fst ks) pathset_links_df cost_link_df)"

text \<open>Lines 761 to 769: the link costs summed by path and merged to the path table.\<close>

definition cost_path_df_of ::
  "((int \<times> int \<times> int) \<times> real option) list \<Rightarrow> ((int \<times> int) \<times> real option) list" where
  "cost_path_df_of cost_link_df =
     groupby_sum (\<lambda>ks. (fst (fst ks), fst (snd (fst ks)))) snd cost_link_df"

definition paths_with_cost ::
  "path_row list \<Rightarrow> ((int \<times> int) \<times> real option) list \<Rightarrow> (path_row \<times> real option) list" where
  "paths_with_cost pathset_paths_df cost_path_df =
     map (\<lambda>pm. (fst pm, merged_sum (snd pm)))
         (merge_left (\<lambda>p ks. path_key p = fst ks) pathset_paths_df cost_path_df)"

subsection \<open>Logsum and probabilities\<close>

text \<open>
  \<^verbatim>\<open>numpy.exp\<close> on a float64. The least positive float64 is \<open>2^-1074\<close> and the floats end
  below \<open>2^1024\<close>: an exponential of at most \<open>2^-1075\<close> is returned as 0.0 (underflow, for
  arguments below about -745.13) and one of at least \<open>2^1024\<close> as inf (overflow, for
  arguments above about 709.78). Between the two the result is taken to be the exponential
  itself.
\<close>

definition numpy_exp :: "real \<Rightarrow> float64" where
  "numpy_exp x =
     (if exp x \<le> 1 / 2 ^ 1075 then Float 0
      else if 2 ^ 1024 \<le> exp x then PInf
      else Float (exp x))"

text \<open>
  Line 772: \<^verbatim>\<open>numpy.exp(-1.0*STOCH_DISPERSION*cost)\<close>; the exponential of NaN is NaN.
\<close>

definition logsum_component_of :: "real \<Rightarrow> real option \<Rightarrow> float64" where
  "logsum_component_of STOCH_DISPERSION cost =
     (case cost of None \<Rightarrow> NaN | Some c \<Rightarrow> numpy_exp (- 1 * STOCH_DISPERSION * c))"

text \<open>
  The sum of a group of such values, as \<^verbatim>\<open>aggregate('sum')\<close> takes it: over the values that
  are not NaN, and NaN when there is none; inf when one of them is inf or the sum reaches
  \<open>2^1024\<close>.
\<close>

definition float64_value :: "float64 \<Rightarrow> real" where
  "float64_value x = (case x of Float v \<Rightarrow> v | _ \<Rightarrow> 0)"

definition sum_float64 :: "float64 list \<Rightarrow> float64" where
  "sum_float64 xs =
     (let vs = filter (\<lambda>x. x \<noteq> NaN) xs
      in if vs = [] then NaN
         else if PInf \<in> set vs then PInf
         else if 2 ^ 1024 \<le> sum_list (map float64_value vs) then PInf
         else Float (sum_list (map float64_value vs)))"

definition groupby_sum_float64 ::
  "('r \<Rightarrow> 'k::linorder) \<Rightarrow> ('r \<Rightarrow> float64) \<Rightarrow> 'r list \<Rightarrow> ('k \<times> float64) list" where
  "groupby_sum_float64 key val df =
     map (\<lambda>k. (k, sum_float64 (map val (filter (\<lambda>r. key r = k) df))))
         (sort (remdups (map key df)))"

definition merged_float64 :: "('k \<times> float64) option \<Rightarrow> float64" where
  "merged_float64 m = (case m of None \<Rightarrow> NaN | Some ks \<Rightarrow> snd ks)"

text \<open>
  Line 780: the quotient of two columns, as numpy divides float64 values that are not
  negative: 0.0/0.0 and inf/inf are NaN, a positive number by 0.0 is inf, a number by inf
  is 0.0, and a quotient with a NaN is NaN.
\<close>

fun divide_columns :: "float64 \<Rightarrow> float64 \<Rightarrow> float64" where
  "divide_columns (Float x) (Float y) =
     (if y = 0 then (if x = 0 then NaN else PInf) else Float (x / y))"
| "divide_columns (Float x) PInf = Float 0"
| "divide_columns PInf (Float y) = PInf"
| "divide_columns PInf PInf = NaN"
| "divide_columns NaN b = NaN"
| "divide_columns a NaN = NaN"

text \<open>Lines 772 to 780: the path table with the component, the logsum and the probability.\<close>

definition path_probabilities :: "real \<Rightarrow> (path_row \<times> real option) list \<Rightarrow> path_cost_row list" where
  "path_probabilities STOCH_DISPERSION pathset_paths_df =
     (let df = map (\<lambda>pc. (fst pc, snd pc, logsum_component_of STOCH_DISPERSION (snd pc)))
                   pathset_paths_df;
          pathset_logsum_df =
            groupby_sum_float64 (\<lambda>r. p_trip_list_id_num (fst r)) (\<lambda>r. snd (snd r)) df
      in map (\<lambda>rm. path_row.extend (fst (fst rm))
                      (path_cost_row.fields
                         (fst (snd (fst rm)))
                         (snd (snd (fst rm)))
                         (merged_float64 (snd rm))
                         (divide_columns (snd (snd (fst rm))) (merged_float64 (snd rm)))))
             (merge_left (\<lambda>r ks. p_trip_list_id_num (fst r) = fst ks) df pathset_logsum_df))"

subsection \<open>calculate_cost\<close>

text \<open>Lines 706 to 739: the three tables put together, with the cost of each row.\<close>

definition cost_df_of ::
  "accegr_cost_row list \<times> trip_cost_row list \<times> transfer_cost_row list \<Rightarrow> costed_row list" where
  "cost_df_of tbls =
     (case tbls of (cost_accegr_df, cost_trip_df, cost_transfer_df) \<Rightarrow>
        cost_rows (map cost_row.truncate cost_accegr_df
                   @ map cost_row.truncate cost_trip_df
                   @ map cost_row.truncate cost_transfer_df))"

text \<open>
  \<^verbatim>\<open>calculate_cost(iteration, simulation_iteration, STOCH_DISPERSION, pathset_paths_df,
  pathset_links_df, trip_list_df, transfers_df, walk_df, drive_df)\<close>; the two tables are the
  argument \<open>tabs\<close>. The comparison with the costs of the path finder is behind
  \<^verbatim>\<open>if False\<close> and left out, so \<open>iteration\<close> is not read.
\<close>

definition calculate_cost ::
  "globals \<Rightarrow> int \<Rightarrow> int \<Rightarrow> real \<Rightarrow> tables \<Rightarrow> trip_row list \<Rightarrow> transfers_df
     \<Rightarrow> access_df \<Rightarrow> access_df \<Rightarrow> py_error + path_cost_row list \<times> link_cost_row links_df" where
  "calculate_cost g iteration simulation_iteration STOCH_DISPERSION tabs trip_list_df
       transfers_df walk_df drive_df =
     (case drop_cost_columns tabs of (pathset_paths_df, pathset_links_df) \<Rightarrow>
        (case cost_tables g simulation_iteration tabs trip_list_df transfers_df walk_df drive_df of
           Inl e \<Rightarrow> Inl e
         | Inr tbls \<Rightarrow>
            (case tbls of (cost_accegr_df, cost_trip_df, cost_transfer_df) \<Rightarrow>
               if missing_costs cost_accegr_df + missing_costs cost_trip_df
                    + missing_costs cost_transfer_df > 0
               then Inl (NotImplementedError ''Missing var_values; See log'')
               else
                 (let cost_df = cost_df_of tbls;
                      cost_link_df = cost_link_df_of cost_df;
                      cost_path_df = cost_path_df_of cost_link_df
                  in Inr (path_probabilities STOCH_DISPERSION
                            (paths_with_cost pathset_paths_df cost_path_df),
                          \<lparr>veh_msa_overcap_col = veh_msa_overcap_col pathset_links_df,
                           pax_bumpstop_boarded_col = pax_bumpstop_boarded_col pathset_links_df,
                           link_rows = links_with_cost (link_rows pathset_links_df)
                                         cost_link_df\<rparr>)))))"

section \<open>Auxiliary notions and example data\<close>

text \<open>
  The triples (user class, demand mode, supply mode) of the transit rows of a weight table.
\<close>

definition transit_triples :: "weight_row list \<Rightarrow> (string \<times> string \<times> string) set" where
  "transit_triples W = {(user_class w, demand_mode w, supply_mode w) | w. w \<in> set W \<and> demand_mode_type w = STATE_MODE_TRIP}"

text \<open>The key by which a weight file would be sorted on the numeric supply mode.\<close>

definition weights_file_sort_key :: "num_weight_row \<Rightarrow> string \<times> string \<times> string \<times> int \<times> string" where
  "weights_file_sort_key w =
     (user_class w, demand_mode_type w, demand_mode w, supply_mode_num w, weight_name w)"

text \<open>A trip to build a PathSet from: arrival at 01:00 of the second day.\<close>

definition ex_trip :: "string \<rightharpoonup> pyval" where
  "ex_trip = [''time_target'' \<mapsto> Str ''arrival'', ''arrival_time'' \<mapsto> Timestamp 90000000000000,
              ''arrival_time_min'' \<mapsto> Num 60, ''person_id'' \<mapsto> Str ''p1'']"

text \<open>
  A weight table with two transit rows, the rows the capacity branch adds for it, and a
  numbering of the supply modes in which rail is 1 and every other mode 2.
\<close>

definition ex_routes :: "weight_row list \<Rightarrow> num_weight_row list" where
  "ex_routes df = map (\<lambda>w. \<lparr>user_class = user_class w, demand_mode_type = demand_mode_type w,
       demand_mode = demand_mode w, supply_mode = supply_mode w, weight_name = weight_name w,
       weight_value = weight_value w,
       supply_mode_num = (if supply_mode w = ''rail'' then 1 else 2)\<rparr>) df"

definition ex_rail_ivt :: weight_row where
  "ex_rail_ivt = \<lparr>user_class = ''all'', demand_mode_type = ''transit'', demand_mode = ''transit'',
     supply_mode = ''rail'', weight_name = ''in_vehicle_time_min'', weight_value = 1\<rparr>"

definition ex_bus_ivt :: weight_row where
  "ex_bus_ivt = \<lparr>user_class = ''all'', demand_mode_type = ''transit'', demand_mode = ''transit'',
     supply_mode = ''bus'', weight_name = ''in_vehicle_time_min'', weight_value = 1\<rparr>"

definition ex_rail_cap :: weight_row where
  "ex_rail_cap = \<lparr>user_class = ''all'', demand_mode_type = ''transit'', demand_mode = ''transit'',
     supply_mode = ''rail'', weight_name = ''at_capacity'', weight_value = 9999\<rparr>"

definition ex_bus_cap :: weight_row where
  "ex_bus_cap = \<lparr>user_class = ''all'', demand_mode_type = ''transit'', demand_mode = ''transit'',
     supply_mode = ''bus'', weight_name = ''at_capacity'', weight_value = 9999\<rparr>"

section \<open>Notions used in the statements, and example tables\<close>

text \<open>
  A traveler is recorded as a lucky boarder when the link table has the column
  \<^verbatim>\<open>Assignment.SIM_COL_PAX_BUMPSTOP_BOARDED\<close> and its value is 1.
\<close>

definition lucky_boarder :: "'l links_df \<Rightarrow> 'a cost_row_scheme \<Rightarrow> bool" where
  "lucky_boarder pathset_links_df r =
     (pax_bumpstop_boarded_col pathset_links_df \<and> l_bumpstop_boarded (c_link r) = Some 1)"

text \<open>
  A row of a cost table comes from a link of the link table, with the bump iteration the
  cost table gives that link: -1 throughout when \<^verbatim>\<open>simulation_iteration\<close> is 0, the
  column of the link table otherwise.
\<close>

definition traced :: "int \<Rightarrow> link_row list \<Rightarrow> 'a cost_row_scheme \<Rightarrow> bool" where
  "traced simulation_iteration links r =
     (c_link r \<in> set links
      \<and> c_bump_iter r = (if simulation_iteration = 0 then Some (- 1) else l_bump_iter (c_link r)))"

text \<open>
  Example data. One trip with an arrival target of 09:00, times in nanoseconds since
  midnight; a bus link boarded at 08:00 after a wait from 07:55 and left at 08:20, with a
  choice of path number and of the missed-transfer flag; the weights of in-vehicle time (1
  per minute) and of waiting (2 per minute) for the bus; empty access and transfer tables.
\<close>

definition ex_globals :: "num_weight_row list \<Rightarrow> globals" where
  "ex_globals W = \<lparr>WEIGHTS_DF = W, MSA_RESULTS = False, WALK_MODE_NUMS = [101, 102],
     DRIVE_MODE_NUMS = [103, 104], ACCESS_MODE_NUMS = [101, 103], EGRESS_MODE_NUMS = [102, 104]\<rparr>"

definition ex_w_ivt :: num_weight_row where
  "ex_w_ivt = \<lparr>user_class = ''all'', demand_mode_type = ''transit'', demand_mode = ''transit'',
     supply_mode = ''bus'', weight_name = ''in_vehicle_time_min'', weight_value = 1,
     supply_mode_num = 2\<rparr>"

definition ex_w_wait :: num_weight_row where
  "ex_w_wait = \<lparr>user_class = ''all'', demand_mode_type = ''transit'', demand_mode = ''transit'',
     supply_mode = ''bus'', weight_name = ''wait_time_min'', weight_value = 2,
     supply_mode_num = 2\<rparr>"

definition ex_trip_row :: trip_row where
  "ex_trip_row = \<lparr>t_person_id = ''p1'', t_trip_list_id_num = 1, t_user_class = ''all'',
     t_purpose = ''work'', t_access_mode = ''walk'', t_egress_mode = ''walk'',
     t_transit_mode = ''transit'', t_departure_time = Some 25200000000000,
     t_arrival_time = Some 32400000000000, t_time_target = ''arrival''\<rparr>"

definition ex_bus_link :: "int \<Rightarrow> int option \<Rightarrow> link_row" where
  "ex_bus_link path missed = \<lparr>l_person_id = ''p1'', l_trip_list_id_num = 1, l_pathnum = path,
     l_linknum = 1, l_linkmode = ''transit'', l_mode = ''bus'', l_A_id_num = 10, l_B_id_num = 20,
     l_pf_A_time = Some 28500000000000, l_pf_B_time = Some 30000000000000,
     l_pf_linktime = Some 1500000000000, l_board_time = Some 28800000000000,
     l_alight_time = Some 30000000000000, l_missed_xfer = missed, l_bump_iter = None,
     l_overcap = Some (- 5), l_msa_overcap = None, l_bumpstop_boarded = None\<rparr>"

definition ex_links :: "'l list \<Rightarrow> 'l links_df" where
  "ex_links rows = \<lparr>veh_msa_overcap_col = False, pax_bumpstop_boarded_col = False,
     link_rows = rows\<rparr>"

definition ex_path :: "int \<Rightarrow> path_row" where
  "ex_path path = \<lparr>p_person_id = ''p1'', p_trip_list_id_num = 1, p_pathnum = path,
     p_pf_cost = 0, p_pf_probability = 1\<rparr>"

definition no_access :: access_df where
  "no_access = \<lparr>a_numeric_columns = [], a_rows = []\<rparr>"

definition no_transfers :: transfers_df where
  "no_transfers = \<lparr>x_numeric_columns = [], x_rows = []\<rparr>"

text \<open>The rows the examples expect in the cost tables and in the tables returned.\<close>

definition ex_cost_row :: "link_row \<Rightarrow> num_weight_row \<Rightarrow> real option \<Rightarrow> cost_row" where
  "ex_cost_row l w v = \<lparr>c_link = l, c_user_class = Some ''all'', c_purpose = Some ''work'',
     c_demand_mode = Some (demand_mode w), c_bump_iter = Some (- 1), c_weight = w, var_value = v\<rparr>"

definition ex_trip_cost_row :: "link_row \<Rightarrow> num_weight_row \<Rightarrow> real option \<Rightarrow> trip_cost_row" where
  "ex_trip_cost_row l w v = cost_row.extend (ex_cost_row l w v) (trip_cost_row.fields 0)"

definition ex_costed_row :: "link_row \<Rightarrow> num_weight_row \<Rightarrow> real option \<Rightarrow> real option \<Rightarrow> costed_row" where
  "ex_costed_row l w v c = cost_row.extend (ex_cost_row l w v) (costed_row.fields c)"

definition ex_link_out :: "link_row \<Rightarrow> real option \<Rightarrow> link_cost_row" where
  "ex_link_out l c = link_row.extend l (link_cost_row.fields c)"

definition ex_path_out :: "path_row \<Rightarrow> real option \<Rightarrow> float64 \<Rightarrow> float64 \<Rightarrow> float64
    \<Rightarrow> path_cost_row" where
  "ex_path_out p c lc ls pr = path_row.extend p (path_cost_row.fields c lc ls pr)"

text \<open>
  An egress link reached at 08:50, with a weight on the preferred delay; a transfer from
  stop 20 to stop 20 taking one minute, with a transfer penalty and a weight on the walk
  time.
\<close>

definition ex_egress_link :: link_row where
  "ex_egress_link = \<lparr>l_person_id = ''p1'', l_trip_list_id_num = 1, l_pathnum = 0,
     l_linknum = 2, l_linkmode = ''egress'', l_mode = ''walk_egress'', l_A_id_num = 20,
     l_B_id_num = 100, l_pf_A_time = Some 31200000000000, l_pf_B_time = Some 31800000000000,
     l_pf_linktime = Some 600000000000, l_board_time = None, l_alight_time = None,
     l_missed_xfer = Some 0, l_bump_iter = None, l_overcap = None, l_msa_overcap = None,
     l_bumpstop_boarded = None\<rparr>"

definition ex_w_delay :: num_weight_row where
  "ex_w_delay = \<lparr>user_class = ''all'', demand_mode_type = ''egress'', demand_mode = ''walk'',
     supply_mode = ''walk_egress'', weight_name = ''preferred_delay_min'', weight_value = 1,
     supply_mode_num = 102\<rparr>"

definition ex_accegr_row :: "real option \<Rightarrow> accegr_cost_row" where
  "ex_accegr_row v = cost_row.extend (ex_cost_row ex_egress_link ex_w_delay v)
     (accegr_cost_row.fields (Some 25200000000000) (Some 32400000000000) (Some ''arrival''))"

definition ex_transfer_link :: link_row where
  "ex_transfer_link = \<lparr>l_person_id = ''p1'', l_trip_list_id_num = 1, l_pathnum = 0,
     l_linknum = 3, l_linkmode = ''transfer'', l_mode = ''transfer'', l_A_id_num = 20,
     l_B_id_num = 20, l_pf_A_time = Some 30000000000000, l_pf_B_time = Some 30060000000000,
     l_pf_linktime = Some 60000000000, l_board_time = None, l_alight_time = None,
     l_missed_xfer = Some 0, l_bump_iter = None, l_overcap = None, l_msa_overcap = None,
     l_bumpstop_boarded = None\<rparr>"

definition ex_w_penalty :: num_weight_row where
  "ex_w_penalty = \<lparr>user_class = ''all'', demand_mode_type = ''transfer'',
     demand_mode = ''transfer'', supply_mode = ''transfer'', weight_name = ''transfer_penalty'',
     weight_value = 5, supply_mode_num = 1\<rparr>"

definition ex_w_walk :: num_weight_row where
  "ex_w_walk = \<lparr>user_class = ''all'', demand_mode_type = ''transfer'',
     demand_mode = ''transfer'', supply_mode = ''transfer'', weight_name = ''walk_time_min'',
     weight_value = 3, supply_mode_num = 1\<rparr>"

definition ex_transfer_row :: "num_weight_row \<Rightarrow> real option \<Rightarrow> transfer_cost_row" where
  "ex_transfer_row w v = cost_row.extend (ex_cost_row ex_transfer_link w v)
     (transfer_cost_row.fields None)"


text \<open>A second trip, whose only path is one rail link; the weights know no rail.\<close>

definition ex_rail_link :: link_row where
  "ex_rail_link = \<lparr>l_person_id = ''p2'', l_trip_list_id_num = 2, l_pathnum = 0,
     l_linknum = 1, l_linkmode = ''transit'', l_mode = ''rail'', l_A_id_num = 30, l_B_id_num = 40,
     l_pf_A_time = Some 28500000000000, l_pf_B_time = Some 30000000000000,
     l_pf_linktime = Some 1500000000000, l_board_time = Some 28800000000000,
     l_alight_time = Some 30000000000000, l_missed_xfer = Some 0, l_bump_iter = None,
     l_overcap = Some (- 5), l_msa_overcap = None, l_bumpstop_boarded = None\<rparr>"

definition ex_trip_row2 :: trip_row where
  "ex_trip_row2 = \<lparr>t_person_id = ''p2'', t_trip_list_id_num = 2, t_user_class = ''all'',
     t_purpose = ''work'', t_access_mode = ''walk'', t_egress_mode = ''walk'',
     t_transit_mode = ''transit'', t_departure_time = Some 25200000000000,
     t_arrival_time = Some 32400000000000, t_time_target = ''arrival''\<rparr>"

definition ex_path2 :: path_row where
  "ex_path2 = \<lparr>p_person_id = ''p2'', p_trip_list_id_num = 2, p_pathnum = 0,
     p_pf_cost = 0, p_pf_probability = 1\<rparr>"

text \<open>Weights on \<^verbatim>\<open>at_capacity\<close> and \<^verbatim>\<open>overcap\<close> for the bus.\<close>

definition ex_w_cap :: num_weight_row where
  "ex_w_cap = \<lparr>user_class = ''all'', demand_mode_type = ''transit'', demand_mode = ''transit'',
     supply_mode = ''bus'', weight_name = ''at_capacity'', weight_value = 9999,
     supply_mode_num = 2\<rparr>"

definition ex_w_over :: num_weight_row where
  "ex_w_over = \<lparr>user_class = ''all'', demand_mode_type = ''transit'', demand_mode = ''transit'',
     supply_mode = ''bus'', weight_name = ''overcap'', weight_value = 1,
     supply_mode_num = 2\<rparr>"

section \<open>The PathSet example and the weight validation\<close>

lemma ex_init:
  "PathSet_init ex_trip
     = Inr \<lparr>trip_attrs = ex_trip, direction = 1, pref_time = 3600000000000,
            pref_time_min = Num 60, pathdict = PyDict Mapping.empty\<rparr>"
  by (simp add: PathSet_init_def init_with_def dict_get_def ex_trip_def to_datetime_time_def
      TRIP_LIST_COLUMN_TIME_TARGET_def TRIP_LIST_COLUMN_ARRIVAL_TIME_def
      TRIP_LIST_COLUMN_ARRIVAL_TIME_MIN_def DIR_OUTBOUND_def)

lemma drop_duplicates_set: "set (drop_duplicates xs) = set xs"
  by (induction xs rule: drop_duplicates.induct) auto

lemma drop_duplicates_distinct: "distinct (drop_duplicates xs)"
  by (induction xs rule: drop_duplicates.induct) (auto simp: drop_duplicates_set)

lemma distinct_filter_eq_length:
  "distinct xs \<Longrightarrow> length (filter (\<lambda>x. x = a) xs) = (if a \<in> set xs then 1 else 0)"
  by (induction xs) auto

lemma length_filter_sort_key:
  "length (filter P (sort_key k xs)) = length (filter P xs)"
proof -
  have "mset (filter P (sort_key k xs)) = mset (filter P xs)"
    by simp
  then show ?thesis
    by (metis size_mset)
qed

lemma transit_weights_df_rows:
  "r \<in> set (transit_weights_df W) \<Longrightarrow>
     weight_name r = ''at_capacity'' \<and> weight_value r = 9999 \<and> demand_mode_type r = ''transit''"
  by (auto simp: transit_weights_df_def drop_duplicates_set HUGE_COST_def STATE_MODE_TRIP_def)

lemma transit_weights_df_count:
  "length (filter (\<lambda>r. (user_class r, demand_mode r, supply_mode r) = t) (transit_weights_df W))
     = (if t \<in> transit_triples W then 1 else 0)"
proof -
  obtain uc dm sm where t: "t = (uc, dm, sm)" by (cases t)
  define mk where "mk = (\<lambda>(uc, dm, dmt, sm).
            \<lparr>user_class = uc, demand_mode_type = dmt, demand_mode = dm, supply_mode = sm,
             weight_name = ''at_capacity'', weight_value = HUGE_COST\<rparr>)"
  define ds where "ds = drop_duplicates
            (map (\<lambda>w. (user_class w, demand_mode w, demand_mode_type w, supply_mode w))
                 (filter (\<lambda>w. demand_mode_type w = STATE_MODE_TRIP) W))"
  have df: "transit_weights_df W = map mk ds"
    by (simp add: transit_weights_df_def mk_def ds_def)
  have sel: "(user_class (mk d), demand_mode (mk d), supply_mode (mk d)) = t
               \<longleftrightarrow> d = (uc, dm, STATE_MODE_TRIP, sm)" if "d \<in> set ds" for d
  proof -
    obtain a b c e where d: "d = (a, b, c, e)" by (cases d)
    from that have "c = STATE_MODE_TRIP"
      unfolding ds_def drop_duplicates_set d by auto
    then show ?thesis
      by (simp add: d t mk_def)
  qed
  have "filter (\<lambda>r. (user_class r, demand_mode r, supply_mode r) = t) (map mk ds)
          = map mk (filter (\<lambda>d. (user_class (mk d), demand_mode (mk d), supply_mode (mk d)) = t) ds)"
    by (simp add: filter_map comp_def)
  also have "filter (\<lambda>d. (user_class (mk d), demand_mode (mk d), supply_mode (mk d)) = t) ds
          = filter (\<lambda>d. d = (uc, dm, STATE_MODE_TRIP, sm)) ds"
    by (rule filter_cong [OF refl]) (rule sel)
  finally have "length (filter (\<lambda>r. (user_class r, demand_mode r, supply_mode r) = t) (map mk ds))
     = length (filter (\<lambda>d. d = (uc, dm, STATE_MODE_TRIP, sm)) ds)"
    by simp
  also have "\<dots> = (if (uc, dm, STATE_MODE_TRIP, sm) \<in> set ds then 1 else 0)"
    by (rule distinct_filter_eq_length) (simp add: ds_def drop_duplicates_distinct)
  also have "(uc, dm, STATE_MODE_TRIP, sm) \<in> set ds \<longleftrightarrow> t \<in> transit_triples W"
    unfolding ds_def drop_duplicates_set transit_triples_def t STATE_MODE_TRIP_def [symmetric]
    by auto
  finally show ?thesis
    by (simp add: df)
qed

lemma capacity_weights_preset:
  "\<exists>w \<in> set W. weight_name w = ''at_capacity'' \<Longrightarrow>
     capacity_weights W = ([AtCapacitySet (filter (\<lambda>w. weight_name w = ''at_capacity'') W)], W)"
  by (auto simp: capacity_weights_def Let_def filter_empty_conv)

lemma capacity_weights_fresh:
  "\<not> (\<exists>w \<in> set W. weight_name w = ''at_capacity'') \<Longrightarrow>
     capacity_weights W = ([], sort_key weights_sort_key (W @ transit_weights_df W))"
  by (auto simp: capacity_weights_def Let_def filter_empty_conv)

lemma ex_transit: "transit_weights_df [ex_rail_ivt, ex_bus_ivt] = [ex_rail_cap, ex_bus_cap]"
  by (simp add: transit_weights_df_def ex_rail_ivt_def ex_bus_ivt_def ex_rail_cap_def ex_bus_cap_def
      STATE_MODE_TRIP_def HUGE_COST_def)

lemma ex_keys:
  "weights_sort_key ex_bus_cap < weights_sort_key ex_bus_ivt"
  "weights_sort_key ex_bus_ivt < weights_sort_key ex_rail_cap"
  "weights_sort_key ex_rail_cap < weights_sort_key ex_rail_ivt"
  by (simp_all add: weights_sort_key_def ex_rail_ivt_def ex_bus_ivt_def ex_rail_cap_def ex_bus_cap_def)

lemma ex_sort: "sort_key weights_sort_key [ex_rail_ivt, ex_bus_ivt, ex_rail_cap, ex_bus_cap]
   = [ex_bus_cap, ex_bus_ivt, ex_rail_cap, ex_rail_ivt]"
  using ex_keys by (auto simp: insort_key.simps)

lemma ex_capacity: "capacity_weights [ex_rail_ivt, ex_bus_ivt] = ([], [ex_bus_cap, ex_bus_ivt, ex_rail_cap, ex_rail_ivt])"
proof -
  have "\<not> (\<exists>w \<in> set [ex_rail_ivt, ex_bus_ivt]. weight_name w = ''at_capacity'')"
    by (simp add: ex_rail_ivt_def ex_bus_ivt_def)
  then have "capacity_weights [ex_rail_ivt, ex_bus_ivt]
      = ([], sort_key weights_sort_key ([ex_rail_ivt, ex_bus_ivt] @ transit_weights_df [ex_rail_ivt, ex_bus_ivt]))"
    by (rule capacity_weights_fresh)
  then show ?thesis
    by (simp only: ex_transit append.simps ex_sort)
qed

lemma ex_no_modes: "missing_demand_modes [] W = []" "missing_implicit_modes [] W = []"
  by (simp_all add: missing_demand_modes_def missing_implicit_modes_def merge_left_def)

lemma ex_verify:
  "verify_weight_config [] ex_routes True [ex_rail_ivt, ex_bus_ivt]
     = Completed (ex_routes [ex_bus_cap, ex_bus_ivt, ex_rail_cap, ex_rail_ivt])
        (to_csv [WEIGHTS_COLUMN_USER_CLASS, WEIGHTS_COLUMN_DEMAND_MODE_TYPE,
                            WEIGHTS_COLUMN_DEMAND_MODE, WEIGHTS_COLUMN_SUPPLY_MODE_NUM,
                            WEIGHTS_COLUMN_WEIGHT_NAME, WEIGHTS_COLUMN_WEIGHT_VALUE]
                           (CHR '' '') True (ex_routes [ex_bus_cap, ex_bus_ivt, ex_rail_cap, ex_rail_ivt]))"
  by (simp add: verify_weight_config_def ex_no_modes ex_capacity Let_def)

section \<open>Left merge with a table of sums\<close>

lemma filter_eq_distinct:
  "distinct ks \<Longrightarrow> filter (\<lambda>k. a = k) ks = (if a \<in> set ks then [a] else [])"
  by (induction ks) auto

lemma sum_skipna_Nil: "sum_skipna [] = None"
  by (simp add: sum_skipna_def dropna_def)

lemma groupby_sum_lookup:
  "filter (\<lambda>ks. a = fst ks) (groupby_sum key val df)
     = (if a \<in> key ` set df
        then [(a, sum_skipna (map val (filter (\<lambda>r. key r = a) df)))] else [])"
proof -
  have "filter (\<lambda>ks. a = fst ks) (groupby_sum key val df)
      = map (\<lambda>k. (k, sum_skipna (map val (filter (\<lambda>r. key r = k) df))))
            (filter (\<lambda>k. a = k) (sort (remdups (map key df))))"
    by (simp add: groupby_sum_def filter_map comp_def)
  also have "filter (\<lambda>k. a = k) (sort (remdups (map key df)))
      = (if a \<in> set (sort (remdups (map key df))) then [a] else [])"
    by (rule filter_eq_distinct) simp
  finally show ?thesis
    by simp
qed

lemma merge_left_groupby_sum:
  "map (\<lambda>lm. (fst lm, merged_sum (snd lm)))
       (merge_left (\<lambda>l ks. f l = fst ks) left (groupby_sum key val df))
     = map (\<lambda>l. (l, sum_skipna (map val (filter (\<lambda>r. key r = f l) df)))) left"
proof -
  have none: "sum_skipna (map val (filter (\<lambda>r. key r = a) df)) = None" if "a \<notin> key ` set df" for a
  proof -
    from that have "filter (\<lambda>r. key r = a) df = []"
      by (auto simp: filter_empty_conv)
    then show ?thesis
      by (simp add: sum_skipna_Nil)
  qed
  show ?thesis
    unfolding merge_left_def map_concat map_map comp_def groupby_sum_lookup
    by (induction left) (auto simp: merged_sum_def none)
qed

lemma links_with_cost_eq:
  "links_with_cost links (cost_link_df_of cost_df)
     = map (\<lambda>l. link_row.extend l (link_cost_row.fields
              (sum_skipna (map sim_cost (filter (\<lambda>r. link_key (c_link r) = link_key l) cost_df)))))
           links"
proof -
  have "links_with_cost links (cost_link_df_of cost_df)
      = map (\<lambda>lc. link_row.extend (fst lc) (link_cost_row.fields (snd lc)))
          (map (\<lambda>lm. (fst lm, merged_sum (snd lm)))
             (merge_left (\<lambda>l ks. link_key l = fst ks) links
                (groupby_sum (\<lambda>r. link_key (c_link r)) sim_cost cost_df)))"
    by (simp add: links_with_cost_def cost_link_df_of_def comp_def)
  then show ?thesis
    unfolding merge_left_groupby_sum by (simp add: comp_def)
qed

lemma paths_with_cost_eq:
  "paths_with_cost paths (groupby_sum key val df)
     = map (\<lambda>p. (p, sum_skipna (map val (filter (\<lambda>r. key r = path_key p) df)))) paths"
  unfolding paths_with_cost_def by (rule merge_left_groupby_sum)

lemma sum_float64_Nil: "sum_float64 [] = NaN"
  by (simp add: sum_float64_def)

lemma groupby_sum_float64_lookup:
  "filter (\<lambda>ks. a = fst ks) (groupby_sum_float64 key val df)
     = (if a \<in> key ` set df
        then [(a, sum_float64 (map val (filter (\<lambda>r. key r = a) df)))] else [])"
proof -
  have "filter (\<lambda>ks. a = fst ks) (groupby_sum_float64 key val df)
      = map (\<lambda>k. (k, sum_float64 (map val (filter (\<lambda>r. key r = k) df))))
            (filter (\<lambda>k. a = k) (sort (remdups (map key df))))"
    by (simp add: groupby_sum_float64_def filter_map comp_def)
  also have "filter (\<lambda>k. a = k) (sort (remdups (map key df)))
      = (if a \<in> set (sort (remdups (map key df))) then [a] else [])"
    by (rule filter_eq_distinct) simp
  finally show ?thesis
    by simp
qed

lemma merge_left_groupby_sum_float64:
  "map (\<lambda>lm. (fst lm, merged_float64 (snd lm)))
       (merge_left (\<lambda>l ks. f l = fst ks) left (groupby_sum_float64 key val df))
     = map (\<lambda>l. (l, sum_float64 (map val (filter (\<lambda>r. key r = f l) df)))) left"
proof -
  have none: "sum_float64 (map val (filter (\<lambda>r. key r = a) df)) = NaN" if "a \<notin> key ` set df" for a
  proof -
    from that have "filter (\<lambda>r. key r = a) df = []"
      by (auto simp: filter_empty_conv)
    then show ?thesis
      by (simp add: sum_float64_Nil)
  qed
  show ?thesis
    unfolding merge_left_def map_concat map_map comp_def groupby_sum_float64_lookup
    by (induction left) (auto simp: merged_float64_def none)
qed

lemma path_probabilities_eq:
  "path_probabilities D df
     = map (\<lambda>pc. path_row.extend (fst pc)
              (path_cost_row.fields (snd pc) (logsum_component_of D (snd pc))
                 (sum_float64 (map (\<lambda>qc. logsum_component_of D (snd qc))
                    (filter (\<lambda>qc. p_trip_list_id_num (fst qc) = p_trip_list_id_num (fst pc)) df)))
                 (divide_columns (logsum_component_of D (snd pc))
                   (sum_float64 (map (\<lambda>qc. logsum_component_of D (snd qc))
                    (filter (\<lambda>qc. p_trip_list_id_num (fst qc) = p_trip_list_id_num (fst pc)) df))))))
           df"
proof -
  let ?df = "map (\<lambda>pc. (fst pc, snd pc, logsum_component_of D (snd pc))) df"
  let ?key = "\<lambda>r :: path_row \<times> real option \<times> float64. p_trip_list_id_num (fst r)"
  let ?val = "\<lambda>r :: path_row \<times> real option \<times> float64. snd (snd r)"
  have "path_probabilities D df
      = map (\<lambda>rs. path_row.extend (fst (fst rs))
                      (path_cost_row.fields (fst (snd (fst rs))) (snd (snd (fst rs))) (snd rs)
                         (divide_columns (snd (snd (fst rs))) (snd rs))))
          (map (\<lambda>lm. (fst lm, merged_float64 (snd lm)))
             (merge_left (\<lambda>r ks. ?key r = fst ks) ?df (groupby_sum_float64 ?key ?val ?df)))"
    by (simp add: path_probabilities_def Let_def comp_def)
  also have "\<dots> = map (\<lambda>rs. path_row.extend (fst (fst rs))
                      (path_cost_row.fields (fst (snd (fst rs))) (snd (snd (fst rs))) (snd rs)
                         (divide_columns (snd (snd (fst rs))) (snd rs))))
          (map (\<lambda>l. (l, sum_float64 (map ?val (filter (\<lambda>r. ?key r = ?key l) ?df)))) ?df)"
    unfolding merge_left_groupby_sum_float64 ..
  finally show ?thesis
    by (simp add: comp_def filter_map)
qed

section \<open>The tables calculate_cost returns\<close>

lemma calculate_cost_paths:
  assumes "calculate_cost g it sim D tabs trips xf w d = Inr (P', L')"
  shows "\<exists>cost_df.
           P' = path_probabilities D
                  (paths_with_cost (fst (drop_cost_columns tabs))
                     (cost_path_df_of (cost_link_df_of cost_df)))
         \<and> link_rows L' = links_with_cost (link_rows (snd (drop_cost_columns tabs)))
                            (cost_link_df_of cost_df)
         \<and> veh_msa_overcap_col L' = veh_msa_overcap_col (snd (drop_cost_columns tabs))
         \<and> pax_bumpstop_boarded_col L' = pax_bumpstop_boarded_col (snd (drop_cost_columns tabs))"
  using assms
  by (auto simp: calculate_cost_def Let_def split: prod.splits sum.splits if_splits)

lemma link_row_truncate_extend: "link_row.truncate (link_row.extend (l :: link_row) m) = l"
  by (cases l) (simp add: link_row.defs)

lemma path_row_truncate_extend: "path_row.truncate (path_row.extend (p :: path_row) m) = p"
  by (cases p) (simp add: path_row.defs)

lemma truncate_links_with_cost:
  "map link_row.truncate (links_with_cost links (cost_link_df_of cost_df)) = links"
  unfolding links_with_cost_eq
  by (simp add: comp_def link_row_truncate_extend)

lemma truncate_path_probabilities:
  "map path_row.truncate (path_probabilities D (paths_with_cost paths (cost_path_df_of cl))) = paths"
  unfolding cost_path_df_of_def paths_with_cost_eq path_probabilities_eq
  by (simp add: comp_def path_row_truncate_extend)

lemma drop_cost_columns_result:
  assumes "calculate_cost g it sim D tabs trips xf w d = Inr (P', L')"
  shows "drop_cost_columns (Costed P' L') = drop_cost_columns tabs"
proof -
  from calculate_cost_paths [OF assms] obtain cost_df where
    P: "P' = path_probabilities D
                  (paths_with_cost (fst (drop_cost_columns tabs))
                     (cost_path_df_of (cost_link_df_of cost_df)))"
    and L: "link_rows L' = links_with_cost (link_rows (snd (drop_cost_columns tabs)))
                            (cost_link_df_of cost_df)"
    and c1: "veh_msa_overcap_col L' = veh_msa_overcap_col (snd (drop_cost_columns tabs))"
    and c2: "pax_bumpstop_boarded_col L' = pax_bumpstop_boarded_col (snd (drop_cost_columns tabs))"
    by blast
  have "map path_row.truncate P' = fst (drop_cost_columns tabs)"
    unfolding P by (rule truncate_path_probabilities)
  moreover have "map link_row.truncate (link_rows L') = link_rows (snd (drop_cost_columns tabs))"
    unfolding L by (rule truncate_links_with_cost)
  ultimately show ?thesis
    using c1 c2 by (cases "drop_cost_columns tabs") simp
qed

lemma calculate_cost_cong:
  "drop_cost_columns t1 = drop_cost_columns t2 \<Longrightarrow>
     calculate_cost g it sim D t1 trips xf w d = calculate_cost g it sim D t2 trips xf w d"
  by (simp add: calculate_cost_def cost_tables_def)

lemma path_probabilities_row:
  assumes "p \<in> set (path_probabilities D df)"
  shows "p_logsum_component p = logsum_component_of D (p_sim_cost p)
       \<and> p_logsum p = sum_float64 (map p_logsum_component
            (filter (\<lambda>q. p_trip_list_id_num q = p_trip_list_id_num p) (path_probabilities D df)))
       \<and> p_probability p = divide_columns (p_logsum_component p) (p_logsum p)"
proof -
  from assms obtain pc where "pc \<in> set df" and p:
    "p = path_row.extend (fst pc)
              (path_cost_row.fields (snd pc) (logsum_component_of D (snd pc))
                 (sum_float64 (map (\<lambda>qc. logsum_component_of D (snd qc))
                    (filter (\<lambda>qc. p_trip_list_id_num (fst qc) = p_trip_list_id_num (fst pc)) df)))
                 (divide_columns (logsum_component_of D (snd pc))
                   (sum_float64 (map (\<lambda>qc. logsum_component_of D (snd qc))
                    (filter (\<lambda>qc. p_trip_list_id_num (fst qc) = p_trip_list_id_num (fst pc)) df)))))"
    unfolding path_probabilities_eq by auto
  have "map p_logsum_component
            (filter (\<lambda>q. p_trip_list_id_num q = p_trip_list_id_num p) (path_probabilities D df))
      = map (\<lambda>qc. logsum_component_of D (snd qc))
                    (filter (\<lambda>qc. p_trip_list_id_num (fst qc) = p_trip_list_id_num (fst pc)) df)"
    unfolding path_probabilities_eq filter_map map_map comp_def
    by (simp add: p path_row.defs path_cost_row.defs)
  then show ?thesis
    by (simp add: p path_row.defs path_cost_row.defs)
qed

lemma sum_skipna_one: "sum_skipna [Some a] = Some a"
  by (simp add: sum_skipna_def dropna_def)

lemma sum_skipna_two: "sum_skipna [Some a, Some b] = Some (a + b)"
  by (simp add: sum_skipna_def dropna_def)

lemma calculate_cost_probabilities:
  assumes "calculate_cost g it sim D tabs trips xf w d = Inr (P', L')"
  shows "\<exists>df. P' = path_probabilities D df"
  using calculate_cost_paths [OF assms] by blast


lemma numpy_exp_Float:
  assumes "numpy_exp x = Float v"
  shows "0 \<le> v" and "v \<noteq> 0 \<Longrightarrow> v = exp x"
  using assms by (auto simp: numpy_exp_def split: if_splits)


lemma sum_float64_one_Float:
  assumes "sum_float64 [x] = Float s"
  shows "x = Float s"
  using assms
  by (cases x) (simp_all add: sum_float64_def float64_value_def split: if_splits)


lemma logsum_component_of_Float:
  assumes "logsum_component_of D cost = Float v" and "v \<noteq> 0"
  shows "\<exists>c. cost = Some c \<and> v = exp (- (D * c))"
proof (cases cost)
  case None
  with assms(1) show ?thesis
    by (simp add: logsum_component_of_def)
next
  case (Some c)
  with assms(1) have "numpy_exp (- 1 * D * c) = Float v"
    by (simp add: logsum_component_of_def)
  from numpy_exp_Float(2) [OF this assms(2)] Some show ?thesis
    by simp
qed

section \<open>The three tables of variable values\<close>

lemma link_weight_rows_unset:
  assumes "link_weight_rows g sim links trips = Inr df" and "c \<in> set df"
  shows "var_value c = None"
  using assms
  by (auto simp: link_weight_rows_def Let_def new_cost_row_def split: if_splits prod.splits)

lemma cost_tables_Inr:
  assumes "cost_tables g sim tabs trips xf w d = Inr (accegr, trip, xfer)"
  obtains cost_df where
    "link_weight_rows g sim (link_rows (snd (drop_cost_columns tabs))) trips = Inr cost_df"
    "accegr_costs g w d trips
       (filter (\<lambda>c. l_linkmode (c_link c) = STATE_MODE_ACCESS
                   \<or> l_linkmode (c_link c) = STATE_MODE_EGRESS) cost_df) = Inr accegr"
    "trip = trip_costs g (snd (drop_cost_columns tabs))
              (filter (\<lambda>c. l_linkmode (c_link c) = STATE_MODE_TRIP) cost_df)"
    "xfer = transfer_costs xf
              (filter (\<lambda>c. l_linkmode (c_link c) = STATE_MODE_TRANSFER) cost_df)"
  using assms
  by (auto simp: cost_tables_def Let_def split: prod.splits sum.splits)

lemma cost_tables_transfer:
  assumes "cost_tables g sim tabs trips xf w d = Inr (accegr, trip, xfer)"
  shows "\<exists>df. xfer = transfer_costs xf df
            \<and> (\<forall>c \<in> set df. var_value c = None \<and> l_linkmode (c_link c) = STATE_MODE_TRANSFER)"
proof -
  from assms obtain cost_df where
    lw: "link_weight_rows g sim (link_rows (snd (drop_cost_columns tabs))) trips = Inr cost_df"
    and x: "xfer = transfer_costs xf
              (filter (\<lambda>c. l_linkmode (c_link c) = STATE_MODE_TRANSFER) cost_df)"
    by (rule cost_tables_Inr)
  have "\<forall>c \<in> set (filter (\<lambda>c. l_linkmode (c_link c) = STATE_MODE_TRANSFER) cost_df).
          var_value c = None \<and> l_linkmode (c_link c) = STATE_MODE_TRANSFER"
    using link_weight_rows_unset [OF lw] by simp
  with x show ?thesis by blast
qed

lemma cost_tables_trip:
  assumes "cost_tables g sim tabs trips xf w d = Inr (accegr, trip, xfer)"
  shows "\<exists>df. trip = trip_costs g (snd (drop_cost_columns tabs)) df
            \<and> (\<forall>c \<in> set df. l_linkmode (c_link c) = STATE_MODE_TRIP)"
proof -
  from assms obtain cost_df where
    x: "trip = trip_costs g (snd (drop_cost_columns tabs))
              (filter (\<lambda>c. l_linkmode (c_link c) = STATE_MODE_TRIP) cost_df)"
    by (rule cost_tables_Inr)
  have "\<forall>c \<in> set (filter (\<lambda>c. l_linkmode (c_link c) = STATE_MODE_TRIP) cost_df).
          l_linkmode (c_link c) = STATE_MODE_TRIP"
    by simp
  with x show ?thesis by blast
qed

lemma cost_tables_accegr:
  assumes "cost_tables g sim tabs trips xf w d = Inr (accegr, trip, xfer)"
  shows "\<exists>df. accegr = preferred_delay (map with_trip_times (merge_left same_trip_cost df trips))"
proof -
  from assms obtain cost_df where
    "accegr_costs g w d trips
       (filter (\<lambda>c. l_linkmode (c_link c) = STATE_MODE_ACCESS
                   \<or> l_linkmode (c_link c) = STATE_MODE_EGRESS) cost_df) = Inr accegr"
    by (rule cost_tables_Inr)
  then show ?thesis
    by (auto simp: accegr_costs_def split: sum.splits)
qed

lemma merge_left_mem:
  assumes "(l, m) \<in> set (merge_left on left right)"
  shows "l \<in> set left \<and> (case m of None \<Rightarrow> True | Some r \<Rightarrow> r \<in> set right \<and> on l r)"
proof -
  from assms obtain l0 where l0: "l0 \<in> set left"
    and mem: "(l, m) \<in> set (case filter (on l0) right of
                          [] \<Rightarrow> [(l0, None)]
                        | ms \<Rightarrow> map (\<lambda>r. (l0, Some r)) ms)"
    by (auto simp: merge_left_def)
  show ?thesis
  proof (cases "filter (on l0) right")
    case Nil
    with mem l0 show ?thesis by simp
  next
    case (Cons x xs)
    with mem obtain r where "r \<in> set (filter (on l0) right)" and "l = l0" and "m = Some r"
      by auto
    with l0 show ?thesis by simp
  qed
qed

section \<open>Rows of the transit, access and transfer tables\<close>

lemma loc_row_fields:
  "c_link (loc_row cond rhs r) = c_link r"
  "c_weight (loc_row cond rhs r) = c_weight r"
  "c_bump_iter (loc_row cond rhs r) = c_bump_iter r"
  "var_value (loc_row cond rhs r) = (if cond r then rhs r else var_value r)"
  by (simp_all add: loc_row_def)

lemma loc_row_accegr_fields:
  "c_time_target (loc_row cond rhs r) = c_time_target r"
  "c_arrival_time (loc_row cond rhs r) = c_arrival_time r"
  "c_departure_time (loc_row cond rhs r) = c_departure_time r"
  by (simp_all add: loc_row_def)

lemma loc_row_trip_fields:
  "at_capacity (loc_row cond rhs r) = at_capacity r"
  by (simp add: loc_row_def)

lemma loc_row_transfer_fields:
  "c_transfer (loc_row cond rhs r) = c_transfer r"
  by (simp add: loc_row_def)

lemma set_at_capacity_fields:
  "c_link (set_at_capacity g links c) = c_link c"
  "c_weight (set_at_capacity g links c) = c_weight c"
  "c_bump_iter (set_at_capacity g links c) = c_bump_iter c"
  "var_value (set_at_capacity g links c) = var_value c"
  "at_capacity (set_at_capacity g links c)
     = (if ge0 (overcap_col g links c) \<and> \<not> lucky_boarder links c then 1 else 0)"
  by (simp_all add: set_at_capacity_def Let_def cost_row.defs trip_cost_row.defs
      overcap_col_def lucky_boarder_def)

lemma overcap_col_inner:
  "overcap_col g links (loc_row cond rhs r) = overcap_col g links r"
  "overcap_col g links (set_at_capacity g' links' c) = overcap_col g links c"
  by (simp_all add: overcap_col_def loc_row_fields set_at_capacity_fields)

lemma lucky_boarder_inner:
  "lucky_boarder links (loc_row cond rhs r) = lucky_boarder links r"
  by (simp add: lucky_boarder_def loc_row_fields)

lemma overcap_col_cong:
  "c_link r = c_link c \<Longrightarrow> overcap_col g links r = overcap_col g links c"
  by (simp add: overcap_col_def)

lemma lucky_boarder_cong:
  "c_link r = c_link c \<Longrightarrow> lucky_boarder links r = lucky_boarder links c"
  by (simp add: lucky_boarder_def)

lemma trip_costs_row:
  assumes "r \<in> set (trip_costs g links df)"
  shows "(\<exists>c \<in> set df. c_link r = c_link c \<and> c_weight r = c_weight c
             \<and> c_bump_iter r = c_bump_iter c)
       \<and> (weight_name (c_weight r) = ''in_vehicle_time_min'' \<longrightarrow>
            var_value r = minutes (l_alight_time (c_link r)) (l_board_time (c_link r)))
       \<and> (weight_name (c_weight r) = ''wait_time_min'' \<longrightarrow>
            var_value r = minutes (l_board_time (c_link r)) (l_pf_A_time (c_link r)))
       \<and> (weight_name (c_weight r) = ''at_capacity'' \<longrightarrow>
            var_value r = Some (if ge0 (overcap_col g links r) \<and> \<not> lucky_boarder links r
                                then 1 else 0))
       \<and> (weight_name (c_weight r) = ''overcap'' \<longrightarrow>
            var_value r = map_option (max 0) (overcap_col g links r))"
proof -
  from assms obtain c where c: "c \<in> set df" and r:
    "r = loc_row (\<lambda>r. weight_name (c_weight r) = ''overcap'' \<and> lt0 (var_value r)) (\<lambda>r. Some 0)
          (loc_row (\<lambda>r. weight_name (c_weight r) = ''overcap'') (overcap_col g links)
            (loc_row (\<lambda>r. weight_name (c_weight r) = ''at_capacity'') (\<lambda>r. Some (at_capacity r))
              (set_at_capacity g links
                (loc_row (\<lambda>r. weight_name (c_weight r) = ''wait_time_min'')
                   (\<lambda>r. minutes (l_board_time (c_link r)) (l_pf_A_time (c_link r)))
                  (loc_row (\<lambda>r. weight_name (c_weight r) = ''in_vehicle_time_min'')
                     (\<lambda>r. minutes (l_alight_time (c_link r)) (l_board_time (c_link r))) c)))))"
    by (auto simp: trip_costs_def Let_def loc_var_value_def)
  have link: "c_link r = c_link c" and weight: "c_weight r = c_weight c"
    and bump: "c_bump_iter r = c_bump_iter c"
    by (simp_all add: r loc_row_fields set_at_capacity_fields)
  note oc = overcap_col_cong [OF link, of g links] lucky_boarder_cong [OF link, of links]
  have ivt: "var_value r = minutes (l_alight_time (c_link r)) (l_board_time (c_link r))"
    if "weight_name (c_weight c) = ''in_vehicle_time_min''"
    unfolding link using that by (simp add: r loc_row_fields set_at_capacity_fields)
  have wait: "var_value r = minutes (l_board_time (c_link r)) (l_pf_A_time (c_link r))"
    if "weight_name (c_weight c) = ''wait_time_min''"
    unfolding link using that by (simp add: r loc_row_fields set_at_capacity_fields)
  have cap: "var_value r = Some (if ge0 (overcap_col g links r) \<and> \<not> lucky_boarder links r
                                then 1 else 0)"
    if "weight_name (c_weight c) = ''at_capacity''"
    unfolding oc using that
    by (simp add: r loc_row_fields set_at_capacity_fields overcap_col_inner lucky_boarder_inner)
  have over: "var_value r = map_option (max 0) (overcap_col g links r)"
    if "weight_name (c_weight c) = ''overcap''"
    unfolding oc using that
    by (cases "overcap_col g links c")
       (simp_all add: r loc_row_fields set_at_capacity_fields overcap_col_inner lt0_def max_def)
  from c link weight bump ivt wait cap over show ?thesis
    unfolding weight by blast
qed

lemma modes_distinct:
  "STATE_MODE_ACCESS \<noteq> STATE_MODE_EGRESS" "STATE_MODE_EGRESS \<noteq> STATE_MODE_ACCESS"
  by (simp_all add: STATE_MODE_ACCESS_def STATE_MODE_EGRESS_def)

lemma preferred_delay_row:
  assumes "r \<in> set (preferred_delay df)"
    and name: "weight_name (c_weight r) = ''preferred_delay_min''"
  shows "(c_time_target r = Some ''arrival'' \<and> l_linkmode (c_link r) = STATE_MODE_EGRESS \<longrightarrow>
            var_value r = minutes (c_arrival_time r) (l_pf_B_time (c_link r)))
       \<and> (c_time_target r = Some ''arrival'' \<and> l_linkmode (c_link r) = STATE_MODE_ACCESS \<longrightarrow>
            var_value r = Some 0)
       \<and> (c_time_target r = Some ''departure'' \<and> l_linkmode (c_link r) = STATE_MODE_ACCESS \<longrightarrow>
            var_value r = minutes (l_pf_A_time (c_link r)) (c_departure_time r))
       \<and> (c_time_target r = Some ''departure'' \<and> l_linkmode (c_link r) = STATE_MODE_EGRESS \<longrightarrow>
            var_value r = Some 0)
       \<and> (\<exists>c \<in> set df. c_link r = c_link c \<and> c_weight r = c_weight c
              \<and> c_bump_iter r = c_bump_iter c
              \<and> c_time_target r = c_time_target c \<and> c_arrival_time r = c_arrival_time c
              \<and> c_departure_time r = c_departure_time c)"
proof -
  from assms(1) obtain c where c: "c \<in> set df" and r:
    "r = loc_row (\<lambda>r. weight_name (c_weight r) = ''preferred_delay_min''
                     \<and> l_linkmode (c_link r) = STATE_MODE_EGRESS
                     \<and> c_time_target r = Some ''departure'') (\<lambda>r. Some 0)
          (loc_row (\<lambda>r. weight_name (c_weight r) = ''preferred_delay_min''
                     \<and> l_linkmode (c_link r) = STATE_MODE_ACCESS
                     \<and> c_time_target r = Some ''departure'')
                 (\<lambda>r. minutes (l_pf_A_time (c_link r)) (c_departure_time r))
            (loc_row (\<lambda>r. weight_name (c_weight r) = ''preferred_delay_min''
                     \<and> l_linkmode (c_link r) = STATE_MODE_EGRESS
                     \<and> c_time_target r = Some ''arrival'')
                 (\<lambda>r. minutes (c_arrival_time r) (l_pf_B_time (c_link r)))
              (loc_row (\<lambda>r. weight_name (c_weight r) = ''preferred_delay_min''
                     \<and> l_linkmode (c_link r) = STATE_MODE_ACCESS
                     \<and> c_time_target r = Some ''arrival'') (\<lambda>r. Some 0) c)))"
    by (auto simp: preferred_delay_def Let_def loc_var_value_def)
  have same: "c_link r = c_link c" "c_weight r = c_weight c" "c_bump_iter r = c_bump_iter c"
     "c_time_target r = c_time_target c"
     "c_arrival_time r = c_arrival_time c" "c_departure_time r = c_departure_time c"
    by (simp_all add: r loc_row_fields loc_row_accegr_fields)
  have wn: "weight_name (c_weight c) = ''preferred_delay_min''"
    using name same by simp
  have a: "var_value r = minutes (c_arrival_time c) (l_pf_B_time (c_link c))"
    if "c_time_target c = Some ''arrival''" "l_linkmode (c_link c) = STATE_MODE_EGRESS"
    using that wn modes_distinct by (simp add: r loc_row_fields loc_row_accegr_fields)
  have b: "var_value r = Some 0"
    if "c_time_target c = Some ''arrival''" "l_linkmode (c_link c) = STATE_MODE_ACCESS"
    using that wn modes_distinct by (simp add: r loc_row_fields loc_row_accegr_fields)
  have cc: "var_value r = minutes (l_pf_A_time (c_link c)) (c_departure_time c)"
    if "c_time_target c = Some ''departure''" "l_linkmode (c_link c) = STATE_MODE_ACCESS"
    using that wn modes_distinct by (simp add: r loc_row_fields loc_row_accegr_fields)
  have d: "var_value r = Some 0"
    if "c_time_target c = Some ''departure''" "l_linkmode (c_link c) = STATE_MODE_EGRESS"
    using that wn modes_distinct by (simp add: r loc_row_fields loc_row_accegr_fields)
  from a b cc d c show ?thesis
    unfolding same by blast
qed

lemma with_trip_times_fields:
  "c_link (with_trip_times ct) = c_link (fst ct)"
  "c_weight (with_trip_times ct) = c_weight (fst ct)"
  "c_bump_iter (with_trip_times ct) = c_bump_iter (fst ct)"
  "c_time_target (with_trip_times ct) = map_option t_time_target (snd ct)"
  "c_arrival_time (with_trip_times ct) = (case snd ct of None \<Rightarrow> None | Some t \<Rightarrow> t_arrival_time t)"
  "c_departure_time (with_trip_times ct) = (case snd ct of None \<Rightarrow> None | Some t \<Rightarrow> t_departure_time t)"
  by (simp_all add: with_trip_times_def cost_row.defs accegr_cost_row.defs)

lemma transfer_column_update:
  "transfer_column n (r\<lparr>var_value := v\<rparr>) = transfer_column n r"
  by (simp add: transfer_column_def)

lemma fold_transfer_columns:
  "fold (\<lambda>colname. loc_var_value (\<lambda>r. weight_name (c_weight r) = colname)
                       (transfer_column colname)) cols df
     = map (loc_row (\<lambda>r. weight_name (c_weight r) \<in> set cols)
                    (\<lambda>r. transfer_column (weight_name (c_weight r)) r)) df"
proof (induction cols arbitrary: df)
  case Nil
  show ?case by (simp add: loc_row_def)
next
  case (Cons a cols)
  show ?case
    unfolding fold_Cons comp_def Cons.IH
    by (simp add: loc_var_value_def loc_row_def transfer_column_update)
qed

lemma with_transfer_fields:
  "c_link (with_transfer cx) = c_link (fst cx)"
  "c_weight (with_transfer cx) = c_weight (fst cx)"
  "c_bump_iter (with_transfer cx) = c_bump_iter (fst cx)"
  "var_value (with_transfer cx) = var_value (fst cx)"
  "c_transfer (with_transfer cx) = snd cx"
  by (simp_all add: with_transfer_def cost_row.defs transfer_cost_row.defs)

lemma transfer_column_inner:
  "transfer_column n (loc_row cond rhs r) = transfer_column n r"
  by (simp add: transfer_column_def loc_row_transfer_fields)

lemma transfer_costs_row:
  assumes mem: "r \<in> set (transfer_costs xf df)"
  shows "\<exists>c \<in> set df. c_link r = c_link c \<and> c_weight r = c_weight c
          \<and> c_bump_iter r = c_bump_iter c
          \<and> (var_value c = None \<longrightarrow> l_A_id_num (c_link r) = l_B_id_num (c_link r) \<longrightarrow>
               (weight_name (c_weight r) \<noteq> ''transfer_penalty'' \<longrightarrow> var_value r = Some 0)
             \<and> (weight_name (c_weight r) = ''transfer_penalty'' \<longrightarrow>
                  var_value r
                    = (case (if ''transfer_penalty'' \<in> set (x_numeric_columns xf)
                             then transfer_column ''transfer_penalty'' r else None) of
                         None \<Rightarrow> Some 1
                       | Some v \<Rightarrow> Some v)))"
proof -
  from mem obtain cx where cx: "cx \<in> set (merge_left (\<lambda>c x. l_A_id_num (c_link c) = x_from_stop_num x
                               \<and> l_B_id_num (c_link c) = x_to_stop_num x) df (x_rows xf))"
    and r: "r = loc_row (\<lambda>r. weight_name (c_weight r) = ''transfer_penalty'' \<and> var_value r = None)
                  (\<lambda>r. Some 1)
               (loc_row (\<lambda>r. weight_name (c_weight r) \<noteq> ''transfer_penalty''
                              \<and> l_A_id_num (c_link r) = l_B_id_num (c_link r)) (\<lambda>r. Some 0)
                 (loc_row (\<lambda>r. weight_name (c_weight r) \<in> set (x_numeric_columns xf))
                          (\<lambda>r. transfer_column (weight_name (c_weight r)) r)
                   (loc_row (\<lambda>r. weight_name (c_weight r) = ''walk_time_min'')
                            (\<lambda>r. timedelta_minutes (l_pf_linktime (c_link r)))
                      (with_transfer cx))))"
    unfolding transfer_costs_def Let_def fold_transfer_columns loc_var_value_def
    by auto
  obtain c m where cm: "cx = (c, m)" by (cases cx)
  from merge_left_mem [OF cx [unfolded cm]] have c: "c \<in> set df" by simp
  have link: "c_link r = c_link c" and weight: "c_weight r = c_weight c"
    and bump: "c_bump_iter r = c_bump_iter c"
    by (simp_all add: r cm loc_row_fields with_transfer_fields)
  have tc: "transfer_column n r = transfer_column n (with_transfer cx)" for n
    by (simp add: r transfer_column_inner)
  have other: "var_value r = Some 0"
    if "weight_name (c_weight c) \<noteq> ''transfer_penalty''"
      "l_A_id_num (c_link c) = l_B_id_num (c_link c)"
    using that by (simp add: r cm loc_row_fields with_transfer_fields)
  have pen: "var_value r
              = (case (if ''transfer_penalty'' \<in> set (x_numeric_columns xf)
                       then transfer_column ''transfer_penalty'' r else None) of
                   None \<Rightarrow> Some 1
                 | Some v \<Rightarrow> Some v)"
    if "weight_name (c_weight c) = ''transfer_penalty''" "var_value c = None"
    unfolding tc using that
    by (auto simp: r cm loc_row_fields with_transfer_fields transfer_column_inner
        split: option.splits)
  from c link weight bump other pen show ?thesis
    by auto
qed

section \<open>Every cost row comes from a link\<close>

lemma traced_cong:
  "c_link r = c_link c \<Longrightarrow> c_bump_iter r = c_bump_iter c \<Longrightarrow> traced sim links c
     \<Longrightarrow> traced sim links r"
  by (simp add: traced_def)

lemma merge_inner_mem:
  "(l, r) \<in> set (merge_inner on left right) \<Longrightarrow> l \<in> set left \<and> r \<in> set right \<and> on l r"
  by (auto simp: merge_inner_def)

lemma merge_left_fst:
  assumes "ca \<in> set (merge_left on left right)"
  shows "fst ca \<in> set left"
proof -
  obtain c a where ca: "ca = (c, a)" by (cases ca)
  from merge_left_mem [OF assms [unfolded ca]] show ?thesis
    by (simp add: ca)
qed

lemma link_weight_rows_traced:
  assumes "link_weight_rows g sim links trips = Inr df" and "c \<in> set df"
  shows "traced sim links c"
proof -
  from assms obtain l t w where
    "((l, t), w) \<in> set (merge_inner weight_applies (merge_left same_trip links trips) (WEIGHTS_DF g))"
    and c: "c = new_cost_row sim ((l, t), w)"
    by (auto simp: link_weight_rows_def Let_def split: if_splits)
  then have "(l, t) \<in> set (merge_left same_trip links trips)"
    by (auto dest: merge_inner_mem)
  then have "fst (l, t) \<in> set links"
    by (rule merge_left_fst)
  then have "l \<in> set links"
    by simp
  then show ?thesis
    by (simp add: c traced_def new_cost_row_def)
qed

lemma use_columns_fields:
  "c_link (use_columns cols ms ca) = c_link (fst ca)"
  "c_bump_iter (use_columns cols ms ca) = c_bump_iter (fst ca)"
proof -
  have f: "c_link (fold (\<lambda>colname c.
             if weight_name (c_weight c) = colname
                \<and> supply_mode_num (c_weight c) \<in> set ms
             then c\<lparr>var_value := (case snd ca of None \<Rightarrow> None | Some a \<Rightarrow> a_numeric a colname)\<rparr>
             else c) cols c0) = c_link c0
     \<and> c_bump_iter (fold (\<lambda>colname c.
             if weight_name (c_weight c) = colname
                \<and> supply_mode_num (c_weight c) \<in> set ms
             then c\<lparr>var_value := (case snd ca of None \<Rightarrow> None | Some a \<Rightarrow> a_numeric a colname)\<rparr>
             else c) cols c0) = c_bump_iter c0" for c0
    by (induction cols arbitrary: c0) simp_all
  show "c_link (use_columns cols ms ca) = c_link (fst ca)"
    and "c_bump_iter (use_columns cols ms ca) = c_bump_iter (fst ca)"
    using f [of "fst ca"] by (simp_all add: use_columns_def)
qed

lemma merge_access_traced:
  assumes "merge_access g link_df ms df = Inr df'"
    and "\<forall>c \<in> set df. traced sim links c"
  shows "\<forall>c \<in> set df'. traced sim links c"
proof
  fix r assume r: "r \<in> set df'"
  show "traced sim links r"
  proof (cases "length (a_rows link_df) = 0")
    case True
    with assms r show ?thesis by (simp add: merge_access_def)
  next
    case False
    with assms(1) r obtain ca where
      ca: "ca \<in> set (merge_left (\<lambda>c a. l_A_id_num (c_link c) = fst (A_B_id_num g a)
                                     \<and> supply_mode_num (c_weight c) = a_supply_mode_num a
                                     \<and> l_B_id_num (c_link c) = snd (A_B_id_num g a))
                     df (a_rows link_df))"
      and "r = use_columns (a_numeric_columns link_df) ms ca"
      by (auto simp: merge_access_def split: if_splits)
    then have same: "c_link r = c_link (fst ca)" "c_bump_iter r = c_bump_iter (fst ca)"
      by (simp_all add: use_columns_fields)
    from ca have "fst ca \<in> set df"
      by (rule merge_left_fst)
    with assms(2) have "traced sim links (fst ca)" by simp
    with same show ?thesis by (rule traced_cong)
  qed
qed

lemma accegr_loop_traced:
  assumes "accegr_loop g walk_df drive_df types df = Inr df'"
    and "\<forall>c \<in> set df. traced sim links c"
  shows "\<forall>c \<in> set df'. traced sim links c"
  using assms
proof (induction types arbitrary: df)
  case Nil
  then show ?case by simp
next
  case (Cons accegr_type rest)
  show ?case
  proof (cases "accegr_type = ''bike''")
    case True
    with Cons.prems have "accegr_loop g walk_df drive_df rest df = Inr df'" by simp
    from Cons.IH [OF this Cons.prems(2)] show ?thesis .
  next
    case False
    with Cons.prems(1) obtain df1 where
      step: "(if accegr_type = ''walk''
               then merge_access g walk_df (WALK_MODE_NUMS g) df
               else merge_access g drive_df (DRIVE_MODE_NUMS g) df) = Inr df1"
      and rest: "accegr_loop g walk_df drive_df rest df1 = Inr df'"
      by (auto split: sum.splits)
    have "\<forall>c \<in> set df1. traced sim links c"
    proof (cases "accegr_type = ''walk''")
      case True
      with step have "merge_access g walk_df (WALK_MODE_NUMS g) df = Inr df1" by simp
      from merge_access_traced [OF this Cons.prems(2)] show ?thesis .
    next
      case False
      with step have "merge_access g drive_df (DRIVE_MODE_NUMS g) df = Inr df1" by simp
      from merge_access_traced [OF this Cons.prems(2)] show ?thesis .
    qed
    from Cons.IH [OF rest this] show ?thesis .
  qed
qed

lemma preferred_delay_link:
  assumes "r \<in> set (preferred_delay df)"
  shows "\<exists>c \<in> set df. c_link r = c_link c \<and> c_bump_iter r = c_bump_iter c"
  using assms
  by (auto simp: preferred_delay_def Let_def loc_var_value_def loc_row_fields)

lemma accegr_costs_traced:
  assumes "accegr_costs g walk_df drive_df trips df = Inr acc"
    and "\<forall>c \<in> set df. traced sim links c"
    and "r \<in> set acc"
  shows "traced sim links r"
proof -
  from assms(1) obtain df1 where
    loop: "accegr_loop g walk_df drive_df [''walk'', ''bike'', ''drive''] df = Inr df1"
    and acc: "acc = preferred_delay (map with_trip_times (merge_left same_trip_cost df1 trips))"
    by (auto simp: accegr_costs_def split: sum.splits)
  from preferred_delay_link [OF assms(3) [unfolded acc]] obtain ct where
    ct: "ct \<in> set (merge_left same_trip_cost df1 trips)"
    and same: "c_link r = c_link (fst ct)" "c_bump_iter r = c_bump_iter (fst ct)"
    by (auto simp: with_trip_times_fields)
  from ct have "fst ct \<in> set df1"
    by (rule merge_left_fst)
  with accegr_loop_traced [OF loop assms(2)] have "traced sim links (fst ct)" by simp
  with same show ?thesis by (rule traced_cong)
qed

lemma cost_tables_traced:
  assumes "cost_tables g sim tabs trips xf w d = Inr (accegr, trip, xfer)"
  shows "(\<forall>r \<in> set accegr. traced sim (link_rows (snd (drop_cost_columns tabs))) r)
       \<and> (\<forall>r \<in> set trip. traced sim (link_rows (snd (drop_cost_columns tabs))) r)
       \<and> (\<forall>r \<in> set xfer. traced sim (link_rows (snd (drop_cost_columns tabs))) r)"
proof -
  let ?links = "link_rows (snd (drop_cost_columns tabs))"
  from assms obtain cost_df where
    lw: "link_weight_rows g sim ?links trips = Inr cost_df"
    and a: "accegr_costs g w d trips
       (filter (\<lambda>c. l_linkmode (c_link c) = STATE_MODE_ACCESS
                   \<or> l_linkmode (c_link c) = STATE_MODE_EGRESS) cost_df) = Inr accegr"
    and t: "trip = trip_costs g (snd (drop_cost_columns tabs))
              (filter (\<lambda>c. l_linkmode (c_link c) = STATE_MODE_TRIP) cost_df)"
    and x: "xfer = transfer_costs xf
              (filter (\<lambda>c. l_linkmode (c_link c) = STATE_MODE_TRANSFER) cost_df)"
    by (rule cost_tables_Inr)
  have all: "\<forall>c \<in> set cost_df. traced sim ?links c"
    using link_weight_rows_traced [OF lw] by blast
  have acc: "\<forall>r \<in> set accegr. traced sim ?links r"
    using accegr_costs_traced [OF a] all by simp
  have trp: "\<forall>r \<in> set trip. traced sim ?links r"
  proof
    fix r assume "r \<in> set trip"
    from trip_costs_row [OF this [unfolded t]] obtain c where
      "c \<in> set cost_df" "c_link r = c_link c" "c_bump_iter r = c_bump_iter c"
      by auto
    with all show "traced sim ?links r"
      by (auto intro: traced_cong)
  qed
  have xfr: "\<forall>r \<in> set xfer. traced sim ?links r"
  proof
    fix r assume "r \<in> set xfer"
    from transfer_costs_row [OF this [unfolded x]] obtain c where
      "c \<in> set cost_df" "c_link r = c_link c" "c_bump_iter r = c_bump_iter c"
      by auto
    with all show "traced sim ?links r"
      by (auto intro: traced_cong)
  qed
  from acc trp xfr show ?thesis by simp
qed

section \<open>Costs of the rows and of the links\<close>

lemma with_sim_cost_fields:
  "c_link (with_sim_cost c) = c_link c"
  "c_bump_iter (with_sim_cost c) = c_bump_iter c"
  "sim_cost (with_sim_cost c) = map_option (\<lambda>v. v * weight_value (c_weight c)) (var_value c)"
  by (simp_all add: with_sim_cost_def cost_row.defs costed_row.defs)

lemma truncate_fields:
  "c_link (cost_row.truncate r) = c_link r"
  "c_bump_iter (cost_row.truncate r) = c_bump_iter r"
  by (simp_all add: cost_row.defs)

lemma cost_rows_row:
  assumes "r \<in> set (cost_rows df)"
  shows "\<exists>c \<in> set df. c_link r = c_link c \<and> c_bump_iter r = c_bump_iter c
           \<and> sim_cost r
               = (if bumped (c_bump_iter c) \<or> l_missed_xfer (c_link c) = Some 1
                  then Some HUGE_COST
                  else map_option (\<lambda>v. v * weight_value (c_weight c)) (var_value c))"
proof -
  from assms obtain c where c: "c \<in> set df" and r:
    "r = (\<lambda>r. if bumped (c_bump_iter r) then r\<lparr>sim_cost := Some HUGE_COST\<rparr> else r)
           ((\<lambda>r. if l_missed_xfer (c_link r) = Some 1 then r\<lparr>sim_cost := Some HUGE_COST\<rparr> else r)
              (with_sim_cost c))"
    by (auto simp: cost_rows_def Let_def loc_sim_cost_def)
  have "c_link r = c_link c" "c_bump_iter r = c_bump_iter c"
    "sim_cost r = (if bumped (c_bump_iter c) \<or> l_missed_xfer (c_link c) = Some 1
                  then Some HUGE_COST
                  else map_option (\<lambda>v. v * weight_value (c_weight c)) (var_value c))"
    by (simp_all add: r with_sim_cost_fields)
  with c show ?thesis by blast
qed

lemma cost_df_of_row:
  assumes tables: "cost_tables g sim tabs trips xf w d = Inr tbls"
    and row: "r \<in> set (cost_df_of tbls)"
  shows "traced sim (link_rows (snd (drop_cost_columns tabs))) r
       \<and> (bumped (c_bump_iter r) \<or> l_missed_xfer (c_link r) = Some 1 \<longrightarrow>
            sim_cost r = Some HUGE_COST)"
proof -
  let ?links = "link_rows (snd (drop_cost_columns tabs))"
  obtain accegr trip xfer where tbls: "tbls = (accegr, trip, xfer)"
    by (cases tbls)
  note tr = cost_tables_traced [OF tables [unfolded tbls]]
  from cost_rows_row [OF row [unfolded tbls cost_df_of_def prod.case]] obtain c where
    c: "c \<in> set (map cost_row.truncate accegr @ map cost_row.truncate trip
                  @ map cost_row.truncate xfer)"
    and same: "c_link r = c_link c" "c_bump_iter r = c_bump_iter c"
    and cost: "sim_cost r
               = (if bumped (c_bump_iter c) \<or> l_missed_xfer (c_link c) = Some 1
                  then Some HUGE_COST
                  else map_option (\<lambda>v. v * weight_value (c_weight c)) (var_value c))"
    by blast
  from c tr have "traced sim ?links c"
    by (auto simp: traced_def truncate_fields)
  with same have "traced sim ?links r" by (rule traced_cong)
  moreover have "sim_cost r = Some HUGE_COST"
    if "bumped (c_bump_iter r) \<or> l_missed_xfer (c_link r) = Some 1"
    using that cost unfolding same by simp
  ultimately show ?thesis by simp
qed

lemma sum_skipna_const:
  assumes "\<forall>x \<in> set xs. f x = Some h"
  shows "sum_skipna (map f xs) = (if length xs = 0 then None else Some (real (length xs) * h))"
proof -
  from assms have "dropna (map f xs) = replicate (length xs) h"
    by (induction xs) (simp_all add: dropna_def)
  then show ?thesis
    by (simp add: sum_skipna_def sum_list_replicate)
qed

lemma link_cost_row_fields:
  "link_key (link_row.extend l m) = link_key l"
  "l_missed_xfer (link_row.extend l m) = l_missed_xfer l"
  "l_bump_iter (link_row.extend l m) = l_bump_iter l"
  "l_sim_cost (link_row.extend l (link_cost_row.fields x)) = x"
  by (simp_all add: link_key_def link_row.defs link_cost_row.defs)

lemma calculate_cost_links:
  assumes "calculate_cost g it sim D tabs trips xf w d = Inr (P', L')"
  shows "\<exists>tbls. cost_tables g sim tabs trips xf w d = Inr tbls
         \<and> link_rows L' = links_with_cost (link_rows (snd (drop_cost_columns tabs)))
                            (cost_link_df_of (cost_df_of tbls))"
  using assms
  by (auto simp: calculate_cost_def Let_def split: prod.splits sum.splits if_splits)

section \<open>Evaluation of the examples\<close>

lemma ex_same_trip: "same_trip (ex_bus_link p m) ex_trip_row"
  by (simp add: same_trip_def ex_bus_link_def ex_trip_row_def)

lemma ex_merge_trip:
  "merge_left same_trip [ex_bus_link p m] [ex_trip_row] = [(ex_bus_link p m, Some ex_trip_row)]"
  by (simp add: merge_left_def ex_same_trip)

lemma ex_demand_mode: "demand_mode_of (ex_bus_link p m) (Some ex_trip_row) = Some ''transit''"
  by (simp add: demand_mode_of_def ex_bus_link_def ex_trip_row_def STATE_MODE_TRANSFER_def
      STATE_MODE_TRIP_def)

lemma ex_applies:
  "weight_applies (ex_bus_link p m, Some ex_trip_row) ex_w_ivt"
  "weight_applies (ex_bus_link p m, Some ex_trip_row) ex_w_wait"
  by (simp_all add: weight_applies_def ex_demand_mode)
     (simp_all add: ex_bus_link_def ex_trip_row_def ex_w_ivt_def ex_w_wait_def)

lemma ex_link_weight_rows:
  "link_weight_rows (ex_globals [ex_w_ivt, ex_w_wait]) 0 [ex_bus_link p m] [ex_trip_row]
     = Inr [ex_cost_row (ex_bus_link p m) ex_w_ivt None, ex_cost_row (ex_bus_link p m) ex_w_wait None]"
  by (simp add: link_weight_rows_def ex_merge_trip ex_demand_mode merge_inner_def ex_applies
      ex_globals_def new_cost_row_def ex_cost_row_def)
     (simp add: ex_trip_row_def ex_w_ivt_def ex_w_wait_def)

lemma ex_linkmode:
  "l_linkmode (c_link (ex_cost_row (ex_bus_link p m) w v)) = STATE_MODE_TRIP"
  "l_linkmode (c_link (ex_cost_row (ex_bus_link p m) w v)) \<noteq> STATE_MODE_ACCESS"
  "l_linkmode (c_link (ex_cost_row (ex_bus_link p m) w v)) \<noteq> STATE_MODE_EGRESS"
  "l_linkmode (c_link (ex_cost_row (ex_bus_link p m) w v)) \<noteq> STATE_MODE_TRANSFER"
  by (simp_all add: ex_cost_row_def ex_bus_link_def STATE_MODE_TRIP_def STATE_MODE_ACCESS_def
      STATE_MODE_EGRESS_def STATE_MODE_TRANSFER_def)

lemma state_modes_distinct:
  "STATE_MODE_TRIP \<noteq> STATE_MODE_ACCESS" "STATE_MODE_TRIP \<noteq> STATE_MODE_EGRESS"
  "STATE_MODE_TRIP \<noteq> STATE_MODE_TRANSFER" "STATE_MODE_TRANSFER \<noteq> STATE_MODE_ACCESS"
  "STATE_MODE_TRANSFER \<noteq> STATE_MODE_EGRESS" "STATE_MODE_TRANSFER \<noteq> STATE_MODE_TRIP"
  "STATE_MODE_ACCESS \<noteq> STATE_MODE_TRIP" "STATE_MODE_ACCESS \<noteq> STATE_MODE_TRANSFER"
  "STATE_MODE_EGRESS \<noteq> STATE_MODE_TRIP" "STATE_MODE_EGRESS \<noteq> STATE_MODE_TRANSFER"
  by (simp_all add: STATE_MODE_TRIP_def STATE_MODE_ACCESS_def
      STATE_MODE_EGRESS_def STATE_MODE_TRANSFER_def)

lemma ex_accegr_none:
  "accegr_costs g no_access no_access trips [] = Inr []"
  by (simp add: accegr_costs_def merge_access_def no_access_def merge_left_def
      preferred_delay_def loc_var_value_def)

lemma ex_transfer_none: "transfer_costs no_transfers [] = []"
  by (simp add: transfer_costs_def no_transfers_def merge_left_def loc_var_value_def)

lemma ex_trip_ivt:
  "trip_costs (ex_globals W) (ex_links ls) [ex_cost_row (ex_bus_link p m) ex_w_ivt None]
     = [ex_trip_cost_row (ex_bus_link p m) ex_w_ivt (Some 20)]"
  by (simp add: trip_costs_def loc_var_value_def loc_row_def set_at_capacity_def Let_def
      ex_cost_row_def ex_trip_cost_row_def ex_w_ivt_def cost_row.defs trip_cost_row.defs
      overcap_col_def ex_globals_def ex_links_def ge0_def lt0_def minutes_def
      timedelta_minutes_def ex_bus_link_def)

lemma ex_trip_wait:
  "trip_costs (ex_globals W) (ex_links ls) [ex_cost_row (ex_bus_link p m) ex_w_wait None]
     = [ex_trip_cost_row (ex_bus_link p m) ex_w_wait (Some 5)]"
  by (simp add: trip_costs_def loc_var_value_def loc_row_def set_at_capacity_def Let_def
      ex_cost_row_def ex_trip_cost_row_def ex_w_wait_def cost_row.defs trip_cost_row.defs
      overcap_col_def ex_globals_def ex_links_def ge0_def lt0_def minutes_def
      timedelta_minutes_def ex_bus_link_def)

lemma trip_costs_append:
  "trip_costs g links (xs @ ys) = trip_costs g links xs @ trip_costs g links ys"
  by (simp add: trip_costs_def loc_var_value_def Let_def)

lemma ex_trip_costs:
  "trip_costs (ex_globals W) (ex_links ls)
     [ex_cost_row (ex_bus_link p m) ex_w_ivt None, ex_cost_row (ex_bus_link p m) ex_w_wait None]
     = [ex_trip_cost_row (ex_bus_link p m) ex_w_ivt (Some 20),
        ex_trip_cost_row (ex_bus_link p m) ex_w_wait (Some 5)]"
  using trip_costs_append [of "ex_globals W" "ex_links ls"
      "[ex_cost_row (ex_bus_link p m) ex_w_ivt None]"
      "[ex_cost_row (ex_bus_link p m) ex_w_wait None]"]
  by (simp add: ex_trip_ivt ex_trip_wait)

lemma ex_cost_tables:
  "cost_tables (ex_globals [ex_w_ivt, ex_w_wait]) 0
      (Fresh paths (ex_links [ex_bus_link p m])) [ex_trip_row] no_transfers no_access no_access
     = Inr ([], [ex_trip_cost_row (ex_bus_link p m) ex_w_ivt (Some 20),
                 ex_trip_cost_row (ex_bus_link p m) ex_w_wait (Some 5)], [])"
proof -
  have rows: "link_rows (ex_links [ex_bus_link p m]) = [ex_bus_link p m]"
    by (simp add: ex_links_def)
  show ?thesis
    unfolding cost_tables_def drop_cost_columns.simps prod.case rows ex_link_weight_rows
      sum.case Let_def
    by (simp add: ex_linkmode state_modes_distinct ex_accegr_none ex_transfer_none ex_trip_costs)
qed

lemma cost_row_truncate_extend: "cost_row.truncate (cost_row.extend (c :: cost_row) m) = c"
  by (cases c) (simp add: cost_row.defs)

lemma ex_truncate: "cost_row.truncate (ex_trip_cost_row l w v) = ex_cost_row l w v"
  by (simp add: ex_trip_cost_row_def cost_row_truncate_extend)

lemma ex_with_sim_cost:
  "with_sim_cost (ex_cost_row l ex_w_ivt (Some 20)) = ex_costed_row l ex_w_ivt (Some 20) (Some 20)"
  "with_sim_cost (ex_cost_row l ex_w_wait (Some 5)) = ex_costed_row l ex_w_wait (Some 5) (Some 10)"
  by (simp_all add: with_sim_cost_def ex_costed_row_def ex_cost_row_def ex_w_ivt_def ex_w_wait_def)

lemma ex_costed_fields:
  "c_link (ex_costed_row l w v c) = l"
  "c_bump_iter (ex_costed_row l w v c) = Some (- 1)"
  "sim_cost (ex_costed_row l w v c) = c"
  "(ex_costed_row l w v c)\<lparr>sim_cost := c'\<rparr> = ex_costed_row l w v c'"
  by (simp_all add: ex_costed_row_def ex_cost_row_def cost_row.defs costed_row.defs)

lemma ex_link_fields:
  "l_missed_xfer (ex_bus_link p m) = m"
  "link_key (ex_bus_link p m) = (1, p, 1)"
  by (simp_all add: ex_bus_link_def link_key_def)

lemma ex_cost_df_flagged:
  "cost_df_of ([], [ex_trip_cost_row (ex_bus_link p (Some 1)) ex_w_ivt (Some 20),
                    ex_trip_cost_row (ex_bus_link p (Some 1)) ex_w_wait (Some 5)], [])
     = [ex_costed_row (ex_bus_link p (Some 1)) ex_w_ivt (Some 20) (Some 9999),
        ex_costed_row (ex_bus_link p (Some 1)) ex_w_wait (Some 5) (Some 9999)]"
  by (simp add: cost_df_of_def cost_rows_def ex_truncate ex_with_sim_cost loc_sim_cost_def
      ex_costed_fields ex_link_fields bumped_def HUGE_COST_def)

lemma ex_cost_df_plain:
  "cost_df_of ([], [ex_trip_cost_row (ex_bus_link p None) ex_w_ivt (Some 20),
                    ex_trip_cost_row (ex_bus_link p None) ex_w_wait (Some 5)], [])
     = [ex_costed_row (ex_bus_link p None) ex_w_ivt (Some 20) (Some 20),
        ex_costed_row (ex_bus_link p None) ex_w_wait (Some 5) (Some 10)]"
  by (simp add: cost_df_of_def cost_rows_def ex_truncate ex_with_sim_cost loc_sim_cost_def
      ex_costed_fields ex_link_fields bumped_def HUGE_COST_def)

lemma ex_missing:
  "missing_costs [ex_trip_cost_row l w (Some v), ex_trip_cost_row l w' (Some v')] = 0"
  "missing_costs [] = 0"
  by (simp_all add: missing_costs_def ex_trip_cost_row_def ex_cost_row_def cost_row.defs)

lemma ex_cost_link_df:
  "cost_link_df_of [ex_costed_row (ex_bus_link p m) w v (Some a),
                    ex_costed_row (ex_bus_link p m) w' v' (Some b)]
     = [((1, p, 1), Some (a + b))]"
  by (simp add: cost_link_df_of_def groupby_sum_def ex_costed_fields ex_link_fields
      sum_skipna_def dropna_def)

lemma ex_cost_path_df:
  "cost_path_df_of [((1, p, 1), Some c)] = [((1, p), Some c)]"
  by (simp add: cost_path_df_of_def groupby_sum_def sum_skipna_def dropna_def)

lemma ex_links_with_cost:
  "links_with_cost [ex_bus_link p m] [((1, p, 1), c)] = [ex_link_out (ex_bus_link p m) c]"
  by (simp add: links_with_cost_def merge_left_def ex_link_fields merged_sum_def ex_link_out_def)

lemma ex_paths_with_cost:
  "paths_with_cost [ex_path p] [((1, p), c)] = [(ex_path p, c)]"
  by (simp add: paths_with_cost_def merge_left_def path_key_def ex_path_def merged_sum_def)

lemma exp_ge_two_power: "2 ^ n \<le> exp (real n)"
proof -
  have "(2::real) \<le> exp 1"
    using exp_ge_add_one_self [of 1] by simp
  then have "(2::real) ^ n \<le> exp 1 ^ n"
    by (rule power_mono) simp
  also have "exp 1 ^ n = exp (real n)"
    using exp_of_nat_mult [of n "1::real"] by simp
  finally show ?thesis .
qed

lemma exp_le_three_power: "exp (real n) \<le> 3 ^ n"
proof -
  have "exp (real n) = exp 1 ^ n"
    using exp_of_nat_mult [of n "1::real"] by simp
  also have "\<dots> \<le> 3 ^ n"
    by (rule power_mono) (simp_all add: exp_le)
  finally show ?thesis .
qed

lemma numpy_exp_underflow:
  assumes "x \<le> - 1075"
  shows "numpy_exp x = Float 0"
proof -
  have p: "(2::real) ^ 1075 \<le> exp 1075"
    using exp_ge_two_power [of 1075] unfolding of_nat_numeral .
  have pos: "0 < exp (1075::real) * 2 ^ 1075"
    by (intro mult_pos_pos exp_gt_zero zero_less_power) simp
  have "exp x \<le> exp (- 1075)"
    using assms by (simp only: exp_le_cancel_iff)
  also have "exp (- 1075) = 1 / exp (1075::real)"
    by (simp only: exp_minus inverse_eq_divide)
  also have "\<dots> \<le> 1 / 2 ^ 1075"
    by (rule divide_left_mono [OF p _ pos]) simp
  finally have "exp x \<le> 1 / 2 ^ 1075" .
  then show ?thesis
    unfolding numpy_exp_def by (simp only: if_True)
qed

lemma numpy_exp_in_range:
  assumes "- 500 \<le> x" and "x \<le> 0"
  shows "numpy_exp x = Float (exp x)"
proof -
  have "exp (500::real) \<le> 3 ^ 500"
    using exp_le_three_power [of 500] unfolding of_nat_numeral .
  also have "(3::real) ^ 500 < 2 ^ 1075"
    by simp
  finally have p: "exp (500::real) < 2 ^ 1075" .
  have pos: "0 < 2 ^ 1075 * exp (500::real)"
    by (intro mult_pos_pos exp_gt_zero zero_less_power) simp
  have "1 / 2 ^ 1075 < 1 / exp (500::real)"
    by (rule divide_strict_left_mono [OF p _ pos]) simp
  also have "1 / exp (500::real) = exp (- 500)"
    by (simp only: exp_minus inverse_eq_divide)
  also have "exp (- 500) \<le> exp x"
    using assms(1) by (simp only: exp_le_cancel_iff)
  finally have under: "\<not> exp x \<le> 1 / 2 ^ 1075"
    by (simp only: not_le)
  have "exp x \<le> 1"
    using assms(2) by simp
  also have "(1::real) < 2 ^ 1024"
    by (rule one_less_power) simp_all
  finally have over: "\<not> 2 ^ 1024 \<le> exp x"
    by (simp only: not_le)
  show ?thesis
    unfolding numpy_exp_def by (simp only: under over if_False)
qed

lemma ex_exp:
  "numpy_exp (- 30) = Float (exp (- 30))"
  "numpy_exp (- 19998) = Float 0"
  "numpy_exp (- 20028) = Float 0"
  by (rule numpy_exp_in_range numpy_exp_underflow; simp)+

lemma sum_float64_NaN: "sum_float64 [NaN] = NaN"
  by (simp add: sum_float64_def)

lemma sum_float64_one:
  assumes "0 \<le> a" and "a \<le> 1"
  shows "sum_float64 [Float a] = Float a"
proof -
  have "(1::real) < 2 ^ 1024"
    by (rule one_less_power) simp_all
  with assms(2) have "a < 2 ^ 1024"
    by (rule le_less_trans)
  then have "\<not> 2 ^ 1024 \<le> a"
    by (simp only: not_le)
  then show ?thesis
    unfolding sum_float64_def by (simp add: float64_value_def)
qed

lemma sum_float64_two:
  assumes "0 \<le> a" and "a \<le> 1" and "0 \<le> b" and "b \<le> 1"
  shows "sum_float64 [Float a, Float b] = Float (a + b)"
proof -
  have "a + b \<le> 2"
    using assms by simp
  also have "(2::real) < 2 ^ 1024"
    by simp
  finally have "\<not> 2 ^ 1024 \<le> a + b"
    by (simp only: not_le)
  then show ?thesis
    unfolding sum_float64_def by (simp add: float64_value_def)
qed

lemma ex_path_probabilities:
  "path_probabilities 1 [(ex_path p, Some 19998)]
     = [ex_path_out (ex_path p) (Some 19998) (Float 0) (Float 0) NaN]"
  by (simp add: path_probabilities_eq logsum_component_of_def ex_exp sum_float64_one
      ex_path_out_def)

lemma ex_calculate_cost:
  "calculate_cost (ex_globals [ex_w_ivt, ex_w_wait]) 1 0 1
      (Fresh [ex_path 0] (ex_links [ex_bus_link 0 (Some 1)])) [ex_trip_row]
      no_transfers no_access no_access
     = Inr ([ex_path_out (ex_path 0) (Some 19998) (Float 0) (Float 0) NaN],
            ex_links [ex_link_out (ex_bus_link 0 (Some 1)) (Some 19998)])"
proof -
  have rows: "link_rows (ex_links [ex_bus_link 0 (Some 1)]) = [ex_bus_link 0 (Some 1)]"
    by (simp add: ex_links_def)
  have cols: "veh_msa_overcap_col (ex_links [ex_bus_link 0 (Some 1)]) = False"
    "pax_bumpstop_boarded_col (ex_links [ex_bus_link 0 (Some 1)]) = False"
    by (simp_all add: ex_links_def)
  show ?thesis
    unfolding calculate_cost_def drop_cost_columns.simps prod.case ex_cost_tables sum.case
      ex_missing Let_def ex_cost_df_flagged ex_cost_link_df ex_cost_path_df rows cols
      ex_links_with_cost ex_paths_with_cost
    by (simp add: ex_path_probabilities ex_links_def)
qed

lemma ex_trip_none: "trip_costs g links [] = []"
  by (simp add: trip_costs_def loc_var_value_def)

lemma ex_merge_trip2:
  "merge_left same_trip [ex_bus_link 0 None, ex_bus_link 1 (Some 1)] [ex_trip_row]
     = [(ex_bus_link 0 None, Some ex_trip_row), (ex_bus_link 1 (Some 1), Some ex_trip_row)]"
  by (simp add: merge_left_def ex_same_trip)

lemma ex_link_weight_rows2:
  "link_weight_rows (ex_globals [ex_w_ivt, ex_w_wait]) 0
      [ex_bus_link 0 None, ex_bus_link 1 (Some 1)] [ex_trip_row]
     = Inr [ex_cost_row (ex_bus_link 0 None) ex_w_ivt None,
            ex_cost_row (ex_bus_link 0 None) ex_w_wait None,
            ex_cost_row (ex_bus_link 1 (Some 1)) ex_w_ivt None,
            ex_cost_row (ex_bus_link 1 (Some 1)) ex_w_wait None]"
  by (simp add: link_weight_rows_def ex_merge_trip2 ex_demand_mode merge_inner_def ex_applies
      ex_globals_def new_cost_row_def ex_cost_row_def)
     (simp add: ex_trip_row_def ex_w_ivt_def ex_w_wait_def)

lemma ex_trip_costs2:
  "trip_costs (ex_globals W) (ex_links ls)
     [ex_cost_row (ex_bus_link 0 None) ex_w_ivt None,
      ex_cost_row (ex_bus_link 0 None) ex_w_wait None,
      ex_cost_row (ex_bus_link 1 (Some 1)) ex_w_ivt None,
      ex_cost_row (ex_bus_link 1 (Some 1)) ex_w_wait None]
     = [ex_trip_cost_row (ex_bus_link 0 None) ex_w_ivt (Some 20),
        ex_trip_cost_row (ex_bus_link 0 None) ex_w_wait (Some 5),
        ex_trip_cost_row (ex_bus_link 1 (Some 1)) ex_w_ivt (Some 20),
        ex_trip_cost_row (ex_bus_link 1 (Some 1)) ex_w_wait (Some 5)]"
  using trip_costs_append [of "ex_globals W" "ex_links ls"
      "[ex_cost_row (ex_bus_link 0 None) ex_w_ivt None,
        ex_cost_row (ex_bus_link 0 None) ex_w_wait None]"
      "[ex_cost_row (ex_bus_link 1 (Some 1)) ex_w_ivt None,
        ex_cost_row (ex_bus_link 1 (Some 1)) ex_w_wait None]"]
  by (simp add: ex_trip_costs)

lemma ex_cost_tables2:
  "cost_tables (ex_globals [ex_w_ivt, ex_w_wait]) 0
      (Fresh paths (ex_links [ex_bus_link 0 None, ex_bus_link 1 (Some 1)])) [ex_trip_row]
      no_transfers no_access no_access
     = Inr ([], [ex_trip_cost_row (ex_bus_link 0 None) ex_w_ivt (Some 20),
        ex_trip_cost_row (ex_bus_link 0 None) ex_w_wait (Some 5),
        ex_trip_cost_row (ex_bus_link 1 (Some 1)) ex_w_ivt (Some 20),
        ex_trip_cost_row (ex_bus_link 1 (Some 1)) ex_w_wait (Some 5)], [])"
proof -
  have rows: "link_rows (ex_links [ex_bus_link 0 None, ex_bus_link 1 (Some 1)])
                = [ex_bus_link 0 None, ex_bus_link 1 (Some 1)]"
    by (simp add: ex_links_def)
  show ?thesis
    unfolding cost_tables_def drop_cost_columns.simps prod.case rows ex_link_weight_rows2
      sum.case Let_def
    by (simp add: ex_linkmode state_modes_distinct ex_accegr_none ex_transfer_none ex_trip_costs2)
qed

lemma ex_cost_df2:
  "cost_df_of ([], [ex_trip_cost_row (ex_bus_link 0 None) ex_w_ivt (Some 20),
        ex_trip_cost_row (ex_bus_link 0 None) ex_w_wait (Some 5),
        ex_trip_cost_row (ex_bus_link 1 (Some 1)) ex_w_ivt (Some 20),
        ex_trip_cost_row (ex_bus_link 1 (Some 1)) ex_w_wait (Some 5)], [])
     = [ex_costed_row (ex_bus_link 0 None) ex_w_ivt (Some 20) (Some 20),
        ex_costed_row (ex_bus_link 0 None) ex_w_wait (Some 5) (Some 10),
        ex_costed_row (ex_bus_link 1 (Some 1)) ex_w_ivt (Some 20) (Some 9999),
        ex_costed_row (ex_bus_link 1 (Some 1)) ex_w_wait (Some 5) (Some 9999)]"
  by (simp add: cost_df_of_def cost_rows_def ex_truncate ex_with_sim_cost loc_sim_cost_def
      ex_costed_fields ex_link_fields bumped_def HUGE_COST_def)

lemma ex_cost_link_df2:
  "cost_link_df_of [ex_costed_row (ex_bus_link 0 None) ex_w_ivt (Some 20) (Some 20),
        ex_costed_row (ex_bus_link 0 None) ex_w_wait (Some 5) (Some 10),
        ex_costed_row (ex_bus_link 1 (Some 1)) ex_w_ivt (Some 20) (Some 9999),
        ex_costed_row (ex_bus_link 1 (Some 1)) ex_w_wait (Some 5) (Some 9999)]
     = [((1, 0, 1), Some 30), ((1, 1, 1), Some 19998)]"
  by (simp add: cost_link_df_of_def groupby_sum_def ex_costed_fields ex_link_fields
      sum_skipna_def dropna_def)

lemma ex_cost_path_df2:
  "cost_path_df_of [((1, 0, 1), Some 30), ((1, 1, 1), Some 19998)]
     = [((1, 0), Some 30), ((1, 1), Some 19998)]"
  by (simp add: cost_path_df_of_def groupby_sum_def sum_skipna_def dropna_def)

lemma ex_links_with_cost2:
  "links_with_cost [ex_bus_link 0 None, ex_bus_link 1 (Some 1)]
      [((1, 0, 1), Some 30), ((1, 1, 1), Some 19998)]
     = [ex_link_out (ex_bus_link 0 None) (Some 30),
        ex_link_out (ex_bus_link 1 (Some 1)) (Some 19998)]"
  by (simp add: links_with_cost_def merge_left_def ex_link_fields merged_sum_def ex_link_out_def)

lemma ex_paths_with_cost2:
  "paths_with_cost [ex_path 0, ex_path 1] [((1, 0), Some 30), ((1, 1), Some 19998)]
     = [(ex_path 0, Some 30), (ex_path 1, Some 19998)]"
  by (simp add: paths_with_cost_def merge_left_def path_key_def ex_path_def merged_sum_def)

lemma ex_path_probabilities2:
  "path_probabilities 1 [(ex_path 0, Some 30), (ex_path 1, Some 19998)]
     = [ex_path_out (ex_path 0) (Some 30) (Float (exp (- 30))) (Float (exp (- 30))) (Float 1),
        ex_path_out (ex_path 1) (Some 19998) (Float 0) (Float (exp (- 30))) (Float 0)]"
  by (simp add: path_probabilities_eq logsum_component_of_def ex_exp sum_float64_two
      ex_path_out_def ex_path_def)

lemma ex_calculate_cost2:
  "calculate_cost (ex_globals [ex_w_ivt, ex_w_wait]) 1 0 1
      (Fresh [ex_path 0, ex_path 1] (ex_links [ex_bus_link 0 None, ex_bus_link 1 (Some 1)]))
      [ex_trip_row] no_transfers no_access no_access
     = Inr ([ex_path_out (ex_path 0) (Some 30) (Float (exp (- 30))) (Float (exp (- 30)))
               (Float 1),
             ex_path_out (ex_path 1) (Some 19998) (Float 0) (Float (exp (- 30))) (Float 0)],
            ex_links [ex_link_out (ex_bus_link 0 None) (Some 30),
                      ex_link_out (ex_bus_link 1 (Some 1)) (Some 19998)])"
proof -
  have rows: "link_rows (ex_links [ex_bus_link 0 None, ex_bus_link 1 (Some 1)])
                = [ex_bus_link 0 None, ex_bus_link 1 (Some 1)]"
    by (simp add: ex_links_def)
  have cols: "veh_msa_overcap_col (ex_links [ex_bus_link 0 None, ex_bus_link 1 (Some 1)]) = False"
    "pax_bumpstop_boarded_col (ex_links [ex_bus_link 0 None, ex_bus_link 1 (Some 1)]) = False"
    by (simp_all add: ex_links_def)
  have miss: "missing_costs [ex_trip_cost_row (ex_bus_link 0 None) ex_w_ivt (Some 20),
        ex_trip_cost_row (ex_bus_link 0 None) ex_w_wait (Some 5),
        ex_trip_cost_row (ex_bus_link 1 (Some 1)) ex_w_ivt (Some 20),
        ex_trip_cost_row (ex_bus_link 1 (Some 1)) ex_w_wait (Some 5)] = 0"
    by (simp add: missing_costs_def ex_trip_cost_row_def ex_cost_row_def cost_row.defs)
  show ?thesis
    unfolding calculate_cost_def drop_cost_columns.simps prod.case ex_cost_tables2 sum.case
      ex_missing miss Let_def ex_cost_df2 ex_cost_link_df2 ex_cost_path_df2 rows cols
      ex_links_with_cost2 ex_paths_with_cost2 ex_path_probabilities2
    by (simp add: ex_links_def)
qed

lemma ex_merge_trip_egress:
  "merge_left same_trip [ex_egress_link] [ex_trip_row] = [(ex_egress_link, Some ex_trip_row)]"
  by (simp add: merge_left_def same_trip_def ex_egress_link_def ex_trip_row_def)

lemma ex_demand_mode_egress: "demand_mode_of ex_egress_link (Some ex_trip_row) = Some ''walk''"
  by (simp add: demand_mode_of_def ex_egress_link_def ex_trip_row_def STATE_MODE_TRANSFER_def
      STATE_MODE_TRIP_def STATE_MODE_EGRESS_def)

lemma ex_applies_egress: "weight_applies (ex_egress_link, Some ex_trip_row) ex_w_delay"
  by (simp add: weight_applies_def ex_demand_mode_egress)
     (simp add: ex_egress_link_def ex_trip_row_def ex_w_delay_def)

lemma ex_link_weight_rows_egress:
  "link_weight_rows (ex_globals [ex_w_delay]) 0 [ex_egress_link] [ex_trip_row]
     = Inr [ex_cost_row ex_egress_link ex_w_delay None]"
  by (simp add: link_weight_rows_def ex_merge_trip_egress ex_demand_mode_egress merge_inner_def
      ex_applies_egress ex_globals_def new_cost_row_def ex_cost_row_def)
     (simp add: ex_trip_row_def ex_w_delay_def)

lemma ex_linkmode_egress:
  "l_linkmode (c_link (ex_cost_row ex_egress_link w v)) = STATE_MODE_EGRESS"
  by (simp add: ex_cost_row_def ex_egress_link_def STATE_MODE_EGRESS_def)

lemma ex_accegr_costs:
  "accegr_costs g no_access no_access [ex_trip_row] [ex_cost_row ex_egress_link ex_w_delay None]
     = Inr [ex_accegr_row (Some 10)]"
proof -
  have loop: "accegr_loop g no_access no_access [''walk'', ''bike'', ''drive'']
                [ex_cost_row ex_egress_link ex_w_delay None]
              = Inr [ex_cost_row ex_egress_link ex_w_delay None]"
    by (simp add: merge_access_def no_access_def)
  have merge: "merge_left same_trip_cost [ex_cost_row ex_egress_link ex_w_delay None] [ex_trip_row]
              = [(ex_cost_row ex_egress_link ex_w_delay None, Some ex_trip_row)]"
    by (simp add: merge_left_def same_trip_cost_def same_trip_def ex_cost_row_def
        ex_egress_link_def ex_trip_row_def)
  have times: "with_trip_times (ex_cost_row ex_egress_link ex_w_delay None, Some ex_trip_row)
              = ex_accegr_row None"
    by (simp add: with_trip_times_def ex_accegr_row_def ex_trip_row_def)
  have delay: "preferred_delay [ex_accegr_row None] = [ex_accegr_row (Some 10)]"
    by (simp add: preferred_delay_def loc_var_value_def loc_row_def ex_accegr_row_def
        ex_cost_row_def ex_w_delay_def ex_egress_link_def cost_row.defs accegr_cost_row.defs
        STATE_MODE_ACCESS_def STATE_MODE_EGRESS_def minutes_def timedelta_minutes_def)
  show ?thesis
    unfolding accegr_costs_def loop sum.case merge
    by (simp add: times delay)
qed

lemma ex_cost_tables_egress:
  "cost_tables (ex_globals [ex_w_delay]) 0
      (Fresh paths (ex_links [ex_egress_link])) [ex_trip_row] no_transfers no_access no_access
     = Inr ([ex_accegr_row (Some 10)], [], [])"
proof -
  have rows: "link_rows (ex_links [ex_egress_link]) = [ex_egress_link]"
    by (simp add: ex_links_def)
  show ?thesis
    unfolding cost_tables_def drop_cost_columns.simps prod.case rows ex_link_weight_rows_egress
      sum.case Let_def
    by (simp add: ex_linkmode_egress modes_distinct state_modes_distinct ex_accegr_costs
        ex_transfer_none ex_trip_none)
qed

lemma ex_merge_trip_transfer:
  "merge_left same_trip [ex_transfer_link] [ex_trip_row] = [(ex_transfer_link, Some ex_trip_row)]"
  by (simp add: merge_left_def same_trip_def ex_transfer_link_def ex_trip_row_def)

lemma ex_demand_mode_transfer:
  "demand_mode_of ex_transfer_link (Some ex_trip_row) = Some ''transfer''"
  by (simp add: demand_mode_of_def ex_transfer_link_def STATE_MODE_TRANSFER_def)

lemma ex_applies_transfer:
  "weight_applies (ex_transfer_link, Some ex_trip_row) ex_w_penalty"
  "weight_applies (ex_transfer_link, Some ex_trip_row) ex_w_walk"
  by (simp_all add: weight_applies_def ex_demand_mode_transfer)
     (simp_all add: ex_transfer_link_def ex_trip_row_def ex_w_penalty_def ex_w_walk_def)

lemma ex_link_weight_rows_transfer:
  "link_weight_rows (ex_globals [ex_w_penalty, ex_w_walk]) 0 [ex_transfer_link] [ex_trip_row]
     = Inr [ex_cost_row ex_transfer_link ex_w_penalty None,
            ex_cost_row ex_transfer_link ex_w_walk None]"
  by (simp add: link_weight_rows_def ex_merge_trip_transfer ex_demand_mode_transfer
      merge_inner_def ex_applies_transfer ex_globals_def new_cost_row_def ex_cost_row_def)
     (simp add: ex_trip_row_def ex_w_penalty_def ex_w_walk_def)

lemma ex_linkmode_transfer:
  "l_linkmode (c_link (ex_cost_row ex_transfer_link w v)) = STATE_MODE_TRANSFER"
  by (simp add: ex_cost_row_def ex_transfer_link_def STATE_MODE_TRANSFER_def)

lemma ex_transfer_costs:
  "transfer_costs no_transfers [ex_cost_row ex_transfer_link ex_w_penalty None,
                                ex_cost_row ex_transfer_link ex_w_walk None]
     = [ex_transfer_row ex_w_penalty (Some 1), ex_transfer_row ex_w_walk (Some 0)]"
  by (simp add: transfer_costs_def no_transfers_def merge_left_def loc_var_value_def loc_row_def
      with_transfer_def ex_transfer_row_def ex_cost_row_def ex_w_penalty_def ex_w_walk_def
      ex_transfer_link_def cost_row.defs transfer_cost_row.defs timedelta_minutes_def)

lemma ex_cost_tables_transfer:
  "cost_tables (ex_globals [ex_w_penalty, ex_w_walk]) 0
      (Fresh paths (ex_links [ex_transfer_link])) [ex_trip_row] no_transfers no_access no_access
     = Inr ([], [], [ex_transfer_row ex_w_penalty (Some 1), ex_transfer_row ex_w_walk (Some 0)])"
proof -
  have rows: "link_rows (ex_links [ex_transfer_link]) = [ex_transfer_link]"
    by (simp add: ex_links_def)
  show ?thesis
    unfolding cost_tables_def drop_cost_columns.simps prod.case rows ex_link_weight_rows_transfer
      sum.case Let_def
    by (simp add: ex_linkmode_transfer state_modes_distinct ex_accegr_none ex_transfer_costs
        ex_trip_none)
qed




















lemma ex_merge_trip3:
  "merge_left same_trip [ex_bus_link 0 None, ex_rail_link] [ex_trip_row, ex_trip_row2]
     = [(ex_bus_link 0 None, Some ex_trip_row), (ex_rail_link, Some ex_trip_row2)]"
  by (simp add: merge_left_def same_trip_def ex_bus_link_def ex_rail_link_def ex_trip_row_def
      ex_trip_row2_def)

lemma ex_demand_mode_rail: "demand_mode_of ex_rail_link (Some ex_trip_row2) = Some ''transit''"
  by (simp add: demand_mode_of_def ex_rail_link_def ex_trip_row2_def STATE_MODE_TRANSFER_def
      STATE_MODE_TRIP_def)

lemma ex_not_applies_rail:
  "\<not> weight_applies (ex_rail_link, Some ex_trip_row2) ex_w_ivt"
  "\<not> weight_applies (ex_rail_link, Some ex_trip_row2) ex_w_wait"
  by (simp_all add: weight_applies_def ex_rail_link_def ex_w_ivt_def ex_w_wait_def)

lemma ex_link_weight_rows3:
  "link_weight_rows (ex_globals [ex_w_ivt, ex_w_wait]) 0
      [ex_bus_link 0 None, ex_rail_link] [ex_trip_row, ex_trip_row2]
     = Inr [ex_cost_row (ex_bus_link 0 None) ex_w_ivt None,
            ex_cost_row (ex_bus_link 0 None) ex_w_wait None]"
  by (simp add: link_weight_rows_def ex_merge_trip3 ex_demand_mode ex_demand_mode_rail
      merge_inner_def ex_applies ex_not_applies_rail ex_globals_def new_cost_row_def
      ex_cost_row_def)
     (simp add: ex_trip_row_def ex_w_ivt_def ex_w_wait_def)

lemma ex_rail_key: "link_key ex_rail_link = (2, 0, 1)"
  by (simp add: link_key_def ex_rail_link_def)

lemma ex_cost_tables3:
  "cost_tables (ex_globals [ex_w_ivt, ex_w_wait]) 0
      (Fresh paths (ex_links [ex_bus_link 0 None, ex_rail_link])) [ex_trip_row, ex_trip_row2]
      no_transfers no_access no_access
     = Inr ([], [ex_trip_cost_row (ex_bus_link 0 None) ex_w_ivt (Some 20),
                 ex_trip_cost_row (ex_bus_link 0 None) ex_w_wait (Some 5)], [])"
proof -
  have rows: "link_rows (ex_links [ex_bus_link 0 None, ex_rail_link])
                = [ex_bus_link 0 None, ex_rail_link]"
    by (simp add: ex_links_def)
  show ?thesis
    unfolding cost_tables_def drop_cost_columns.simps prod.case rows ex_link_weight_rows3
      sum.case Let_def
    by (simp add: ex_linkmode state_modes_distinct ex_accegr_none ex_transfer_none ex_trip_costs)
qed

lemma ex_calculate_cost3:
  "calculate_cost (ex_globals [ex_w_ivt, ex_w_wait]) 1 0 1
      (Fresh [ex_path 0, ex_path2] (ex_links [ex_bus_link 0 None, ex_rail_link]))
      [ex_trip_row, ex_trip_row2] no_transfers no_access no_access
     = Inr ([ex_path_out (ex_path 0) (Some 30) (Float (exp (- 30))) (Float (exp (- 30))) (Float 1),
             ex_path_out ex_path2 None NaN NaN NaN],
            ex_links [ex_link_out (ex_bus_link 0 None) (Some 30), ex_link_out ex_rail_link None])"
proof -
  have rows: "link_rows (ex_links [ex_bus_link 0 None, ex_rail_link])
                = [ex_bus_link 0 None, ex_rail_link]"
    by (simp add: ex_links_def)
  have cols: "veh_msa_overcap_col (ex_links [ex_bus_link 0 None, ex_rail_link]) = False"
    "pax_bumpstop_boarded_col (ex_links [ex_bus_link 0 None, ex_rail_link]) = False"
    by (simp_all add: ex_links_def)
  have links: "links_with_cost [ex_bus_link 0 None, ex_rail_link] [((1, 0, 1), Some (20 + 10))]
                 = [ex_link_out (ex_bus_link 0 None) (Some 30), ex_link_out ex_rail_link None]"
    by (simp add: links_with_cost_def merge_left_def ex_link_fields ex_rail_key merged_sum_def
        ex_link_out_def)
  have paths: "paths_with_cost [ex_path 0, ex_path2] [((1, 0), Some (20 + 10))]
                 = [(ex_path 0, Some 30), (ex_path2, None)]"
    by (simp add: paths_with_cost_def merge_left_def path_key_def ex_path_def ex_path2_def
        merged_sum_def)
  have probs: "path_probabilities 1 [(ex_path 0, Some 30), (ex_path2, None)]
     = [ex_path_out (ex_path 0) (Some 30) (Float (exp (- 30))) (Float (exp (- 30))) (Float 1),
        ex_path_out ex_path2 None NaN NaN NaN]"
    by (simp add: path_probabilities_eq logsum_component_of_def ex_exp sum_float64_one
        sum_float64_NaN ex_path_out_def ex_path_def ex_path2_def)
  show ?thesis
    unfolding calculate_cost_def drop_cost_columns.simps prod.case ex_cost_tables3 sum.case
      ex_missing Let_def ex_cost_df_plain ex_cost_link_df ex_cost_path_df rows cols
      links paths probs
    by (simp add: ex_links_def)
qed

lemma ex_path_out_fields:
  "p_trip_list_id_num (ex_path_out p c lc ls pr) = p_trip_list_id_num p"
  "p_sim_cost (ex_path_out p c lc ls pr) = c"
  "p_logsum_component (ex_path_out p c lc ls pr) = lc"
  "p_logsum (ex_path_out p c lc ls pr) = ls"
  "p_probability (ex_path_out p c lc ls pr) = pr"
  by (simp_all add: ex_path_out_def path_row.defs path_cost_row.defs)

lemma ex_path_ids:
  "p_trip_list_id_num (ex_path p) = 1" "p_trip_list_id_num ex_path2 = 2"
  by (simp_all add: ex_path_def ex_path2_def)

lemma ex_link_out_fields:
  "link_key (ex_link_out l c) = link_key l"
  "l_missed_xfer (ex_link_out l c) = l_missed_xfer l"
  "l_sim_cost (ex_link_out l c) = c"
  by (simp_all add: ex_link_out_def link_cost_row_fields)

lemma ex_accegr_fields:
  "c_link (ex_accegr_row v) = ex_egress_link"
  "c_weight (ex_accegr_row v) = ex_w_delay"
  "var_value (ex_accegr_row v) = v"
  "c_time_target (ex_accegr_row v) = Some ''arrival''"
  "c_arrival_time (ex_accegr_row v) = Some 32400000000000"
  "c_departure_time (ex_accegr_row v) = Some 25200000000000"
  by (simp_all add: ex_accegr_row_def ex_cost_row_def cost_row.defs accegr_cost_row.defs)

lemma ex_egress_fields:
  "l_linkmode ex_egress_link = ''egress''"
  "l_pf_B_time ex_egress_link = Some 31800000000000"
  "weight_name ex_w_delay = ''preferred_delay_min''"
  by (simp_all add: ex_egress_link_def ex_w_delay_def)

lemma ex_transfer_fields:
  "c_link (ex_transfer_row w v) = ex_transfer_link"
  "c_weight (ex_transfer_row w v) = w"
  "var_value (ex_transfer_row w v) = v"
  "c_transfer (ex_transfer_row w v) = None"
  by (simp_all add: ex_transfer_row_def ex_cost_row_def cost_row.defs transfer_cost_row.defs)

lemma ex_applies_cap:
  "weight_applies (ex_bus_link p m, Some ex_trip_row) ex_w_cap"
  "weight_applies (ex_bus_link p m, Some ex_trip_row) ex_w_over"
  by (simp_all add: weight_applies_def ex_demand_mode)
     (simp_all add: ex_bus_link_def ex_trip_row_def ex_w_cap_def ex_w_over_def)

lemma ex_link_weight_rows_cap:
  "link_weight_rows (ex_globals [ex_w_cap, ex_w_over]) 0 [ex_bus_link p m] [ex_trip_row]
     = Inr [ex_cost_row (ex_bus_link p m) ex_w_cap None, ex_cost_row (ex_bus_link p m) ex_w_over None]"
  by (simp add: link_weight_rows_def ex_merge_trip ex_demand_mode merge_inner_def ex_applies_cap
      ex_globals_def new_cost_row_def ex_cost_row_def)
     (simp add: ex_trip_row_def ex_w_cap_def ex_w_over_def)

lemma ex_trip_cap:
  "trip_costs (ex_globals W) (ex_links ls) [ex_cost_row (ex_bus_link p m) ex_w_cap None]
     = [ex_trip_cost_row (ex_bus_link p m) ex_w_cap (Some 0)]"
  by (simp add: trip_costs_def loc_var_value_def loc_row_def set_at_capacity_def Let_def
      ex_cost_row_def ex_trip_cost_row_def ex_w_cap_def cost_row.defs trip_cost_row.defs
      overcap_col_def ex_globals_def ex_links_def ge0_def lt0_def minutes_def
      timedelta_minutes_def ex_bus_link_def)

lemma ex_trip_over:
  "trip_costs (ex_globals W) (ex_links ls) [ex_cost_row (ex_bus_link p m) ex_w_over None]
     = [ex_trip_cost_row (ex_bus_link p m) ex_w_over (Some 0)]"
  by (simp add: trip_costs_def loc_var_value_def loc_row_def set_at_capacity_def Let_def
      ex_cost_row_def ex_trip_cost_row_def ex_w_over_def cost_row.defs trip_cost_row.defs
      overcap_col_def ex_globals_def ex_links_def ge0_def lt0_def minutes_def
      timedelta_minutes_def ex_bus_link_def)

lemma ex_cost_tables_cap:
  "cost_tables (ex_globals [ex_w_cap, ex_w_over]) 0
      (Fresh paths (ex_links [ex_bus_link p m])) [ex_trip_row] no_transfers no_access no_access
     = Inr ([], [ex_trip_cost_row (ex_bus_link p m) ex_w_cap (Some 0),
                 ex_trip_cost_row (ex_bus_link p m) ex_w_over (Some 0)], [])"
proof -
  have rows: "link_rows (ex_links [ex_bus_link p m]) = [ex_bus_link p m]"
    by (simp add: ex_links_def)
  have trips: "trip_costs (ex_globals [ex_w_cap, ex_w_over]) (ex_links [ex_bus_link p m])
     [ex_cost_row (ex_bus_link p m) ex_w_cap None, ex_cost_row (ex_bus_link p m) ex_w_over None]
     = [ex_trip_cost_row (ex_bus_link p m) ex_w_cap (Some 0),
        ex_trip_cost_row (ex_bus_link p m) ex_w_over (Some 0)]"
    using trip_costs_append [of "ex_globals [ex_w_cap, ex_w_over]" "ex_links [ex_bus_link p m]"
      "[ex_cost_row (ex_bus_link p m) ex_w_cap None]"
      "[ex_cost_row (ex_bus_link p m) ex_w_over None]"]
    by (simp add: ex_trip_cap ex_trip_over)
  show ?thesis
    unfolding cost_tables_def drop_cost_columns.simps prod.case rows ex_link_weight_rows_cap
      sum.case Let_def
    by (simp add: ex_linkmode state_modes_distinct ex_accegr_none ex_transfer_none trips)
qed

lemma ex_trip_cost_fields:
  "c_link (ex_trip_cost_row l w v) = l"
  "c_weight (ex_trip_cost_row l w v) = w"
  "var_value (ex_trip_cost_row l w v) = v"
  by (simp_all add: ex_trip_cost_row_def ex_cost_row_def cost_row.defs trip_cost_row.defs)

lemma ex_bus_times:
  "minutes (l_alight_time (ex_bus_link p m)) (l_board_time (ex_bus_link p m)) = Some 20"
  "minutes (l_board_time (ex_bus_link p m)) (l_pf_A_time (ex_bus_link p m)) = Some 5"
  "l_overcap (ex_bus_link p m) = Some (- 5)"
  by (simp_all add: ex_bus_link_def minutes_def timedelta_minutes_def)

section \<open>The claims\<close>

subsection \<open>C1: capacity weights\<close>

text \<open>
  C1: with \<^verbatim>\<open>capacity_constraint\<close> true, a weight table that already has a row named
  \<^verbatim>\<open>at_capacity\<close> makes \<^verbatim>\<open>verify_weight_config\<close> exit with status 2. Otherwise the weight
  table the call goes on with (\<^verbatim>\<open>PathSet.WEIGHTS_DF\<close> when the call exits for a missing
  combination, the argument of \<^verbatim>\<open>add_numeric_mode_id\<close> when it does not) is sorted by (user
  class, demand mode type, demand mode, supply mode, weight name); it keeps the rows it had;
  every \<^verbatim>\<open>at_capacity\<close> row in it is a transit row of value 9999; and for every triple (user
  class, demand mode, supply mode) it has exactly one \<^verbatim>\<open>at_capacity\<close> row if some transit
  row of the table has the triple, and none if not.
\<close>

theorem verify_weight_config_capacity:
  "((\<exists>w \<in> set W. weight_name w = ''at_capacity'') \<longrightarrow>
      (\<exists>errs W'. verify_weight_config modes_df routes True W = SysExit 2 errs W'))
   \<and> (\<not> (\<exists>w \<in> set W. weight_name w = ''at_capacity'') \<longrightarrow>
      (\<exists>W1. (verify_weight_config modes_df routes True W
                = SysExit 2 (missing_demand_modes modes_df W @ missing_implicit_modes modes_df W) W1
              \<or> (\<exists>file. verify_weight_config modes_df routes True W = Completed (routes W1) file))
           \<and> sorted (map weights_sort_key W1)
           \<and> mset (filter (\<lambda>r. weight_name r \<noteq> ''at_capacity'') W1) = mset W
           \<and> (\<forall>r \<in> set W1. weight_name r = ''at_capacity'' \<longrightarrow>
                 weight_value r = 9999 \<and> demand_mode_type r = ''transit'')
           \<and> (\<forall>t. length (filter (\<lambda>r. weight_name r = ''at_capacity''
                                  \<and> (user_class r, demand_mode r, supply_mode r) = t) W1)
                  = (if \<exists>w \<in> set W. demand_mode_type w = ''transit''
                          \<and> (user_class w, demand_mode w, supply_mode w) = t
                     then 1 else 0))))"
proof (intro conjI impI)
  assume "\<exists>w \<in> set W. weight_name w = ''at_capacity''"
  then show "\<exists>errs W'. verify_weight_config modes_df routes True W = SysExit 2 errs W'"
    by (simp add: verify_weight_config_def capacity_weights_preset Let_def)
next
  assume fresh: "\<not> (\<exists>w \<in> set W. weight_name w = ''at_capacity'')"
  let ?new = "transit_weights_df W"
  let ?W1 = "sort_key weights_sort_key (W @ ?new)"
  have old: "filter (\<lambda>r. weight_name r \<noteq> ''at_capacity'') W = W"
    using fresh by (simp add: filter_id_conv)
  have old0: "filter (\<lambda>r. weight_name r = ''at_capacity'' \<and> P r) W = []" for P
    using fresh by (auto simp: filter_empty_conv)
  have new0: "filter (\<lambda>r. weight_name r \<noteq> ''at_capacity'') ?new = []"
    by (auto simp: filter_empty_conv dest: transit_weights_df_rows)
  have new1: "filter (\<lambda>r. weight_name r = ''at_capacity'' \<and> P r) ?new = filter P ?new" for P
    by (rule filter_cong) (auto dest: transit_weights_df_rows)
  have run: "verify_weight_config modes_df routes True W
                = SysExit 2 (missing_demand_modes modes_df W @ missing_implicit_modes modes_df W) ?W1
              \<or> (\<exists>file. verify_weight_config modes_df routes True W = Completed (routes ?W1) file)"
    using fresh by (simp add: verify_weight_config_def capacity_weights_fresh Let_def)
  have srt: "sorted (map weights_sort_key ?W1)"
    by simp
  have "mset (filter (\<lambda>r. weight_name r \<noteq> ''at_capacity'') ?W1)
          = mset (filter (\<lambda>r. weight_name r \<noteq> ''at_capacity'') (W @ ?new))"
    by simp
  also have "\<dots> = mset W"
    unfolding filter_append old new0 by simp
  finally have keep: "mset (filter (\<lambda>r. weight_name r \<noteq> ''at_capacity'') ?W1) = mset W" .
  have vals: "\<forall>r \<in> set ?W1. weight_name r = ''at_capacity'' \<longrightarrow>
                 weight_value r = 9999 \<and> demand_mode_type r = ''transit''"
    using fresh transit_weights_df_rows [of _ W] by auto
  have cnt: "\<forall>t. length (filter (\<lambda>r. weight_name r = ''at_capacity''
                                  \<and> (user_class r, demand_mode r, supply_mode r) = t) ?W1)
                  = (if \<exists>w \<in> set W. demand_mode_type w = ''transit''
                          \<and> (user_class w, demand_mode w, supply_mode w) = t
                     then 1 else 0)"
  proof
    fix t
    have "length (filter (\<lambda>r. weight_name r = ''at_capacity''
                                  \<and> (user_class r, demand_mode r, supply_mode r) = t) ?W1)
       = length (filter (\<lambda>r. (user_class r, demand_mode r, supply_mode r) = t) ?new)"
      unfolding length_filter_sort_key filter_append old0 new1 by simp
    also have "\<dots> = (if t \<in> transit_triples W then 1 else 0)"
      by (rule transit_weights_df_count)
    also have "t \<in> transit_triples W \<longleftrightarrow> (\<exists>w \<in> set W. demand_mode_type w = ''transit''
                          \<and> (user_class w, demand_mode w, supply_mode w) = t)"
      by (auto simp: transit_triples_def STATE_MODE_TRIP_def)
    finally show "length (filter (\<lambda>r. weight_name r = ''at_capacity''
                                  \<and> (user_class r, demand_mode r, supply_mode r) = t) ?W1)
                  = (if \<exists>w \<in> set W. demand_mode_type w = ''transit''
                          \<and> (user_class w, demand_mode w, supply_mode w) = t
                     then 1 else 0)" .
  qed
  show "\<exists>W1. (verify_weight_config modes_df routes True W
                = SysExit 2 (missing_demand_modes modes_df W @ missing_implicit_modes modes_df W) W1
              \<or> (\<exists>file. verify_weight_config modes_df routes True W = Completed (routes W1) file))
           \<and> sorted (map weights_sort_key W1)
           \<and> mset (filter (\<lambda>r. weight_name r \<noteq> ''at_capacity'') W1) = mset W
           \<and> (\<forall>r \<in> set W1. weight_name r = ''at_capacity'' \<longrightarrow>
                 weight_value r = 9999 \<and> demand_mode_type r = ''transit'')
           \<and> (\<forall>t. length (filter (\<lambda>r. weight_name r = ''at_capacity''
                                  \<and> (user_class r, demand_mode r, supply_mode r) = t) W1)
                  = (if \<exists>w \<in> set W. demand_mode_type w = ''transit''
                          \<and> (user_class w, demand_mode w, supply_mode w) = t
                     then 1 else 0))"
    apply (rule exI [of _ ?W1])
    apply (intro conjI)
        apply (rule run)
       apply (rule srt)
      apply (rule keep)
     apply (rule vals)
    apply (rule cnt)
    done
qed

text \<open>
  The theorem at a table holding an \<^verbatim>\<open>at_capacity\<close> row, and at the table of the two
  transit rows of rail and bus.
\<close>

theorem verify_weight_config_capacity_witness:
  "(\<exists>w \<in> set [ex_bus_cap]. weight_name w = ''at_capacity'')
   \<and> (\<exists>errs W'. verify_weight_config [] ex_routes True [ex_bus_cap] = SysExit 2 errs W')
   \<and> \<not> (\<exists>w \<in> set [ex_rail_ivt, ex_bus_ivt]. weight_name w = ''at_capacity'')
   \<and> capacity_weights [ex_rail_ivt, ex_bus_ivt]
        = ([], [ex_bus_cap, ex_bus_ivt, ex_rail_cap, ex_rail_ivt])
   \<and> (\<exists>W1. (verify_weight_config [] ex_routes True [ex_rail_ivt, ex_bus_ivt]
                = SysExit 2 (missing_demand_modes [] [ex_rail_ivt, ex_bus_ivt]
                             @ missing_implicit_modes [] [ex_rail_ivt, ex_bus_ivt]) W1
              \<or> (\<exists>file. verify_weight_config [] ex_routes True [ex_rail_ivt, ex_bus_ivt]
                           = Completed (ex_routes W1) file))
           \<and> sorted (map weights_sort_key W1)
           \<and> mset (filter (\<lambda>r. weight_name r \<noteq> ''at_capacity'') W1)
               = mset [ex_rail_ivt, ex_bus_ivt]
           \<and> (\<forall>r \<in> set W1. weight_name r = ''at_capacity'' \<longrightarrow>
                 weight_value r = 9999 \<and> demand_mode_type r = ''transit'')
           \<and> (\<forall>t. length (filter (\<lambda>r. weight_name r = ''at_capacity''
                                  \<and> (user_class r, demand_mode r, supply_mode r) = t) W1)
                  = (if \<exists>w \<in> set [ex_rail_ivt, ex_bus_ivt]. demand_mode_type w = ''transit''
                          \<and> (user_class w, demand_mode w, supply_mode w) = t
                     then 1 else 0)))"
proof -
  have preset: "\<exists>w \<in> set [ex_bus_cap]. weight_name w = ''at_capacity''"
    by (simp add: ex_bus_cap_def)
  have fresh: "\<not> (\<exists>w \<in> set [ex_rail_ivt, ex_bus_ivt]. weight_name w = ''at_capacity'')"
    by (simp add: ex_rail_ivt_def ex_bus_ivt_def)
  note exits = verify_weight_config_capacity
    [where W = "[ex_bus_cap]" and modes_df = "[]" and routes = ex_routes,
      THEN conjunct1, THEN mp, OF preset]
  note adds = verify_weight_config_capacity
    [where W = "[ex_rail_ivt, ex_bus_ivt]" and modes_df = "[]" and routes = ex_routes,
      THEN conjunct2, THEN mp, OF fresh]
  show ?thesis
    apply (intro conjI)
        apply (rule preset)
       apply (rule exits)
      apply (rule fresh)
     apply (rule ex_capacity)
    apply (rule adds)
    done
qed

subsection \<open>C2: preferred delay\<close>

text \<open>
  C2, as stated, fails for the arrival target: the egress value is the preferred arrival
  time minus the time the link arrives, not the reverse. A trip wants to arrive at 09:00
  and its egress link arrives at 08:50: the value is 10 minutes, where the scheduled
  arrival minus the preferred arrival is -10.
\<close>

theorem preferred_delay_counterexample:
  "cost_tables (ex_globals [ex_w_delay]) 0 (Fresh [ex_path 0] (ex_links [ex_egress_link]))
      [ex_trip_row] no_transfers no_access no_access
     = Inr ([ex_accegr_row (Some 10)], [], [])
   \<and> weight_name (c_weight (ex_accegr_row (Some 10))) = ''preferred_delay_min''
   \<and> l_linkmode (c_link (ex_accegr_row (Some 10))) = ''egress''
   \<and> c_time_target (ex_accegr_row (Some 10)) = Some ''arrival''
   \<and> l_pf_B_time (c_link (ex_accegr_row (Some 10))) = Some 31800000000000
   \<and> c_arrival_time (ex_accegr_row (Some 10)) = Some 32400000000000
   \<and> minutes (l_pf_B_time (c_link (ex_accegr_row (Some 10))))
              (c_arrival_time (ex_accegr_row (Some 10))) = Some (- 10)
   \<and> var_value (ex_accegr_row (Some 10)) = Some 10"
  by (simp add: ex_cost_tables_egress ex_accegr_fields ex_egress_fields minutes_def
      timedelta_minutes_def)

text \<open>
  C2, amended: in the access and egress table of \<^verbatim>\<open>calculate_cost\<close>, a row whose weight is
  named \<^verbatim>\<open>preferred_delay_min\<close> has, for the time target \<^verbatim>\<open>arrival\<close>, the value preferred
  arrival time minus arrival time of the link in minutes on an egress link and 0 on an
  access link; for the time target \<^verbatim>\<open>departure\<close>, the value departure time of the link
  minus preferred departure time in minutes on an access link and 0 on an egress link. The
  target and the two preferred times are those of a trip of the trip list with the person
  and the trip number of the link.
\<close>

theorem preferred_delay_values:
  assumes tables: "cost_tables g simulation_iteration tabs trip_list_df transfers_df walk_df drive_df
             = Inr (cost_accegr_df, cost_trip_df, cost_transfer_df)"
    and row: "r \<in> set cost_accegr_df"
    and name: "weight_name (c_weight r) = ''preferred_delay_min''"
  shows "(c_time_target r = Some ''arrival'' \<and> l_linkmode (c_link r) = STATE_MODE_EGRESS \<longrightarrow>
            var_value r = minutes (c_arrival_time r) (l_pf_B_time (c_link r)))
       \<and> (c_time_target r = Some ''arrival'' \<and> l_linkmode (c_link r) = STATE_MODE_ACCESS \<longrightarrow>
            var_value r = Some 0)
       \<and> (c_time_target r = Some ''departure'' \<and> l_linkmode (c_link r) = STATE_MODE_ACCESS \<longrightarrow>
            var_value r = minutes (l_pf_A_time (c_link r)) (c_departure_time r))
       \<and> (c_time_target r = Some ''departure'' \<and> l_linkmode (c_link r) = STATE_MODE_EGRESS \<longrightarrow>
            var_value r = Some 0)
       \<and> (\<forall>target. c_time_target r = Some target \<longrightarrow>
            (\<exists>t \<in> set trip_list_df. same_trip (c_link r) t \<and> t_time_target t = target
                \<and> c_arrival_time r = t_arrival_time t
                \<and> c_departure_time r = t_departure_time t))"
proof -
  from cost_tables_accegr [OF tables] obtain df where
    acc: "cost_accegr_df
            = preferred_delay (map with_trip_times (merge_left same_trip_cost df trip_list_df))" ..
  note pd = preferred_delay_row [OF row [unfolded acc] name]
  from pd obtain ct where ct: "ct \<in> set (merge_left same_trip_cost df trip_list_df)"
    and same: "c_link r = c_link (with_trip_times ct)"
      "c_time_target r = c_time_target (with_trip_times ct)"
      "c_arrival_time r = c_arrival_time (with_trip_times ct)"
      "c_departure_time r = c_departure_time (with_trip_times ct)"
    by auto
  have trip: "\<exists>t \<in> set trip_list_df. same_trip (c_link r) t \<and> t_time_target t = target
                \<and> c_arrival_time r = t_arrival_time t
                \<and> c_departure_time r = t_departure_time t"
    if "c_time_target r = Some target" for target
  proof -
    obtain c m where cm: "ct = (c, m)" by (cases ct)
    from that obtain t where m: "m = Some t" and tt: "t_time_target t = target"
      unfolding same with_trip_times_fields cm by auto
    from merge_left_mem [OF ct [unfolded cm]] m
    have "t \<in> set trip_list_df" and "same_trip_cost c t" by simp_all
    then show ?thesis
      using tt unfolding same with_trip_times_fields cm m
      by (auto simp: same_trip_cost_def)
  qed
  from pd trip show ?thesis
    by blast
qed

text \<open>The theorem at the egress link of the example: the value is 10 minutes.\<close>

theorem preferred_delay_values_witness:
  "cost_tables (ex_globals [ex_w_delay]) 0 (Fresh [ex_path 0] (ex_links [ex_egress_link]))
      [ex_trip_row] no_transfers no_access no_access
     = Inr ([ex_accegr_row (Some 10)], [], [])
   \<and> weight_name (c_weight (ex_accegr_row (Some 10))) = ''preferred_delay_min''
   \<and> c_time_target (ex_accegr_row (Some 10)) = Some ''arrival''
   \<and> l_linkmode (c_link (ex_accegr_row (Some 10))) = STATE_MODE_EGRESS
   \<and> var_value (ex_accegr_row (Some 10))
        = minutes (c_arrival_time (ex_accegr_row (Some 10)))
                  (l_pf_B_time (c_link (ex_accegr_row (Some 10))))
   \<and> minutes (c_arrival_time (ex_accegr_row (Some 10)))
              (l_pf_B_time (c_link (ex_accegr_row (Some 10)))) = Some 10"
proof -
  let ?r = "ex_accegr_row (Some 10)"
  have mem: "?r \<in> set [?r]" by simp
  have name: "weight_name (c_weight ?r) = ''preferred_delay_min''"
    by (simp add: ex_accegr_fields ex_egress_fields)
  have target: "c_time_target ?r = Some ''arrival''"
    by (simp add: ex_accegr_fields)
  have mode: "l_linkmode (c_link ?r) = STATE_MODE_EGRESS"
    by (simp add: ex_accegr_fields ex_egress_fields STATE_MODE_EGRESS_def)
  from preferred_delay_values [OF ex_cost_tables_egress mem name] target mode
  have "var_value ?r = minutes (c_arrival_time ?r) (l_pf_B_time (c_link ?r))"
    by blast
  moreover have "minutes (c_arrival_time ?r) (l_pf_B_time (c_link ?r)) = Some 10"
    by (simp add: ex_accegr_fields ex_egress_fields minutes_def timedelta_minutes_def)
  ultimately show ?thesis
    using ex_cost_tables_egress name target mode by (intro conjI) simp_all
qed

subsection \<open>C3: penalty of a missed transfer or a bump\<close>

text \<open>
  C3, as stated, fails: the penalty is set on each row of the cost table and the rows of a
  link are then summed. A bus link with a missed transfer and two weights costs 19998, not
  9999.
\<close>

theorem penalty_link_cost_counterexample:
  "calculate_cost (ex_globals [ex_w_ivt, ex_w_wait]) 1 0 1
      (Fresh [ex_path 0] (ex_links [ex_bus_link 0 (Some 1)])) [ex_trip_row]
      no_transfers no_access no_access
     = Inr ([ex_path_out (ex_path 0) (Some 19998) (Float 0) (Float 0) NaN],
            ex_links [ex_link_out (ex_bus_link 0 (Some 1)) (Some 19998)])
   \<and> l_missed_xfer (ex_link_out (ex_bus_link 0 (Some 1)) (Some 19998)) = Some 1
   \<and> l_sim_cost (ex_link_out (ex_bus_link 0 (Some 1)) (Some 19998)) = Some 19998
   \<and> l_sim_cost (ex_link_out (ex_bus_link 0 (Some 1)) (Some 19998)) \<noteq> Some HUGE_COST"
  by (simp add: ex_calculate_cost ex_link_out_fields ex_link_fields HUGE_COST_def)

text \<open>
  C3, amended: when the three numbers (trip, path, link) identify the links of the link
  table, a link whose missed-transfer flag is 1, or whose bump iteration is at least 0 in
  a call with \<^verbatim>\<open>simulation_iteration\<close> other than 0 (in iteration 0 the cost table sets the
  bump iteration of every link to -1), has the cost 9999 in each of its rows of the cost
  table, whatever value times weight is there; its cost in the link table returned is the
  sum of these, 9999 times the number of its rows, and NaN when it has no row.
\<close>

theorem penalty_link_cost:
  assumes run: "calculate_cost g iteration simulation_iteration STOCH_DISPERSION tabs trip_list_df
             transfers_df walk_df drive_df = Inr (pathset_paths_df, pathset_links_df)"
    and link: "l \<in> set (link_rows pathset_links_df)"
    and keys: "distinct (map link_key (link_rows pathset_links_df))"
    and flag: "l_missed_xfer l = Some 1 \<or> (simulation_iteration \<noteq> 0 \<and> bumped (l_bump_iter l))"
  shows "\<exists>tbls. cost_tables g simulation_iteration tabs trip_list_df transfers_df walk_df drive_df
                  = Inr tbls
          \<and> (\<forall>r \<in> set (cost_df_of tbls).
                link_key (c_link r) = link_key l \<longrightarrow> sim_cost r = Some HUGE_COST)
          \<and> l_sim_cost l
              = (if length (filter (\<lambda>r. link_key (c_link r) = link_key l) (cost_df_of tbls)) = 0
                 then None
                 else Some (real (length (filter (\<lambda>r. link_key (c_link r) = link_key l)
                                            (cost_df_of tbls))) * 9999))"
proof -
  let ?links = "link_rows (snd (drop_cost_columns tabs))"
  from calculate_cost_links [OF run] obtain tbls where
    tables: "cost_tables g simulation_iteration tabs trip_list_df transfers_df walk_df drive_df
               = Inr tbls"
    and L: "link_rows pathset_links_df = links_with_cost ?links (cost_link_df_of (cost_df_of tbls))"
    by blast
  let ?rows = "\<lambda>k. filter (\<lambda>r. link_key (c_link r) = k) (cost_df_of tbls)"
  let ?out = "\<lambda>l0. link_row.extend l0 (link_cost_row.fields
              (sum_skipna (map sim_cost (?rows (link_key l0)))))"
  have L': "link_rows pathset_links_df = map ?out ?links"
    unfolding L links_with_cost_eq ..
  from link obtain l0 where l0: "l0 \<in> set ?links" and l: "l = ?out l0"
    unfolding L' by auto
  have key: "link_key l = link_key l0"
    by (simp add: l link_cost_row_fields)
  have flag0: "l_missed_xfer l0 = Some 1 \<or> (simulation_iteration \<noteq> 0 \<and> bumped (l_bump_iter l0))"
    using flag by (simp add: l link_cost_row_fields)
  have "map link_key (link_rows pathset_links_df) = map link_key ?links"
    unfolding L' by (simp add: comp_def link_cost_row_fields)
  with keys have inj: "distinct (map link_key ?links)" by simp
  have huge: "sim_cost r = Some HUGE_COST"
    if r: "r \<in> set (cost_df_of tbls)" and k: "link_key (c_link r) = link_key l" for r
  proof -
    from cost_df_of_row [OF tables r]
    have tr: "traced simulation_iteration ?links r"
      and pen: "bumped (c_bump_iter r) \<or> l_missed_xfer (c_link r) = Some 1 \<longrightarrow>
            sim_cost r = Some HUGE_COST"
      by simp_all
    from tr have mem: "c_link r \<in> set ?links"
      and bump: "c_bump_iter r = (if simulation_iteration = 0 then Some (- 1)
                                  else l_bump_iter (c_link r))"
      by (simp_all add: traced_def)
    from inj mem l0 k have "c_link r = l0"
      unfolding key by (auto simp: distinct_map dest: inj_onD)
    with flag0 bump pen show ?thesis
      by auto
  qed
  have "l_sim_cost l = sum_skipna (map sim_cost (?rows (link_key l)))"
    unfolding key by (simp add: l link_cost_row_fields)
  also have "\<dots> = (if length (?rows (link_key l)) = 0 then None
                    else Some (real (length (?rows (link_key l))) * HUGE_COST))"
    by (rule sum_skipna_const) (simp add: huge)
  finally have "l_sim_cost l
              = (if length (?rows (link_key l)) = 0 then None
                 else Some (real (length (?rows (link_key l))) * 9999))"
    by (simp add: HUGE_COST_def)
  with tables huge show ?thesis
    by blast
qed

text \<open>The theorem at the bus link with a missed transfer.\<close>

theorem penalty_link_cost_witness:
  "calculate_cost (ex_globals [ex_w_ivt, ex_w_wait]) 1 0 1
      (Fresh [ex_path 0] (ex_links [ex_bus_link 0 (Some 1)])) [ex_trip_row]
      no_transfers no_access no_access
     = Inr ([ex_path_out (ex_path 0) (Some 19998) (Float 0) (Float 0) NaN],
            ex_links [ex_link_out (ex_bus_link 0 (Some 1)) (Some 19998)])
   \<and> l_missed_xfer (ex_link_out (ex_bus_link 0 (Some 1)) (Some 19998)) = Some 1
   \<and> (\<exists>tbls. cost_tables (ex_globals [ex_w_ivt, ex_w_wait]) 0
                  (Fresh [ex_path 0] (ex_links [ex_bus_link 0 (Some 1)])) [ex_trip_row]
                  no_transfers no_access no_access = Inr tbls
          \<and> (\<forall>r \<in> set (cost_df_of tbls).
                link_key (c_link r) = link_key (ex_link_out (ex_bus_link 0 (Some 1)) (Some 19998))
                \<longrightarrow> sim_cost r = Some HUGE_COST)
          \<and> l_sim_cost (ex_link_out (ex_bus_link 0 (Some 1)) (Some 19998))
              = (if length (filter (\<lambda>r. link_key (c_link r)
                                       = link_key (ex_link_out (ex_bus_link 0 (Some 1)) (Some 19998)))
                              (cost_df_of tbls)) = 0
                 then None
                 else Some (real (length (filter (\<lambda>r. link_key (c_link r)
                                       = link_key (ex_link_out (ex_bus_link 0 (Some 1)) (Some 19998)))
                                            (cost_df_of tbls))) * 9999)))"
proof -
  let ?l = "ex_link_out (ex_bus_link 0 (Some 1)) (Some 19998)"
  have rows: "link_rows (ex_links [?l]) = [?l]"
    by (simp add: ex_links_def)
  have mem: "?l \<in> set (link_rows (ex_links [?l]))"
    unfolding rows by simp
  have keys: "distinct (map link_key (link_rows (ex_links [?l])))"
    unfolding rows by simp
  have missed: "l_missed_xfer ?l = Some 1"
    by (simp add: ex_link_out_fields ex_link_fields)
  then have flag: "l_missed_xfer ?l = Some 1 \<or> ((0::int) \<noteq> 0 \<and> bumped (l_bump_iter ?l))"
    by simp
  note concl = penalty_link_cost [OF ex_calculate_cost mem keys flag]
  show ?thesis
    by (rule conjI [OF ex_calculate_cost conjI [OF missed concl]])
qed

subsection \<open>C4: zero-length transfers\<close>

text \<open>
  C4: in the transfer table of \<^verbatim>\<open>calculate_cost\<close>, a row of a link from a stop to the same
  stop has the value 0 unless its weight is named \<^verbatim>\<open>transfer_penalty\<close>; under that name it
  has the value of the column \<^verbatim>\<open>transfer_penalty\<close> of the transfer table when the table has
  that numeric column, a row for the two stops and a number in it, and 1 otherwise.
\<close>

theorem zero_length_transfer_values:
  assumes tables: "cost_tables g simulation_iteration tabs trip_list_df transfers_df walk_df drive_df
             = Inr (cost_accegr_df, cost_trip_df, cost_transfer_df)"
    and row: "r \<in> set cost_transfer_df"
    and zero: "l_A_id_num (c_link r) = l_B_id_num (c_link r)"
  shows "l_linkmode (c_link r) = STATE_MODE_TRANSFER
       \<and> (weight_name (c_weight r) \<noteq> ''transfer_penalty'' \<longrightarrow> var_value r = Some 0)
       \<and> (weight_name (c_weight r) = ''transfer_penalty'' \<longrightarrow>
            var_value r
              = (case (if ''transfer_penalty'' \<in> set (x_numeric_columns transfers_df)
                       then transfer_column ''transfer_penalty'' r else None) of
                   None \<Rightarrow> Some 1
                 | Some v \<Rightarrow> Some v))"
proof -
  from cost_tables_transfer [OF tables] obtain df where
    x: "cost_transfer_df = transfer_costs transfers_df df"
    and df: "\<forall>c \<in> set df. var_value c = None \<and> l_linkmode (c_link c) = STATE_MODE_TRANSFER"
    by blast
  from transfer_costs_row [OF row [unfolded x]] df zero show ?thesis
    by auto
qed

text \<open>
  The theorem at the transfer from stop 20 to stop 20: the penalty defaults to 1, and the
  walk time of one minute counts as 0.
\<close>

theorem zero_length_transfer_values_witness:
  "cost_tables (ex_globals [ex_w_penalty, ex_w_walk]) 0
      (Fresh [ex_path 0] (ex_links [ex_transfer_link])) [ex_trip_row]
      no_transfers no_access no_access
     = Inr ([], [], [ex_transfer_row ex_w_penalty (Some 1), ex_transfer_row ex_w_walk (Some 0)])
   \<and> l_A_id_num ex_transfer_link = l_B_id_num ex_transfer_link
   \<and> l_pf_linktime ex_transfer_link = Some 60000000000
   \<and> weight_name (c_weight (ex_transfer_row ex_w_penalty (Some 1))) = ''transfer_penalty''
   \<and> var_value (ex_transfer_row ex_w_penalty (Some 1)) = Some 1
   \<and> weight_name (c_weight (ex_transfer_row ex_w_walk (Some 0))) = ''walk_time_min''
   \<and> var_value (ex_transfer_row ex_w_walk (Some 0)) = Some 0"
proof -
  let ?p = "ex_transfer_row ex_w_penalty (Some 1)"
  let ?w = "ex_transfer_row ex_w_walk (Some 0)"
  have memp: "?p \<in> set [?p, ?w]" and memw: "?w \<in> set [?p, ?w]"
    by simp_all
  have zero: "l_A_id_num ex_transfer_link = l_B_id_num ex_transfer_link"
    and time: "l_pf_linktime ex_transfer_link = Some 60000000000"
    by (simp_all add: ex_transfer_link_def)
  have zerop: "l_A_id_num (c_link ?p) = l_B_id_num (c_link ?p)"
    and zerow: "l_A_id_num (c_link ?w) = l_B_id_num (c_link ?w)"
    by (simp_all add: ex_transfer_fields zero)
  have namep: "weight_name (c_weight ?p) = ''transfer_penalty''"
    and namew: "weight_name (c_weight ?w) = ''walk_time_min''"
    by (simp_all add: ex_transfer_fields ex_w_penalty_def ex_w_walk_def)
  from zero_length_transfer_values [OF ex_cost_tables_transfer memp zerop] namep
  have vp: "var_value ?p = Some 1"
    by (simp add: no_transfers_def)
  from zero_length_transfer_values [OF ex_cost_tables_transfer memw zerow] namew
  have vw: "var_value ?w = Some 0"
    by simp
  from ex_cost_tables_transfer zero time namep vp namew vw show ?thesis
    by (intro conjI)
qed

subsection \<open>C5: a trip with a single path\<close>

text \<open>
  C5, as stated, fails in two ways. The only path of a trip is a bus link with a missed
  transfer and two weights: its cost is 19998, \<^verbatim>\<open>numpy.exp(-19998)\<close> underflows to 0.0, the
  logsum is 0.0, and the probability, 0.0/0.0, is NaN. And where the single path has no
  cost: the inner join with the weights drops a link whose supply mode has no weight row,
  the left merges leave the cost of the link and of the path NaN, and so is the
  probability. Trip 2 has one path, a rail link, and the weights are those of the bus.
\<close>

theorem single_path_counterexample:
  "calculate_cost (ex_globals [ex_w_ivt, ex_w_wait]) 1 0 1
      (Fresh [ex_path 0] (ex_links [ex_bus_link 0 (Some 1)])) [ex_trip_row]
      no_transfers no_access no_access
     = Inr ([ex_path_out (ex_path 0) (Some 19998) (Float 0) (Float 0) NaN],
            ex_links [ex_link_out (ex_bus_link 0 (Some 1)) (Some 19998)])
   \<and> p_sim_cost (ex_path_out (ex_path 0) (Some 19998) (Float 0) (Float 0) NaN) = Some 19998
   \<and> p_logsum (ex_path_out (ex_path 0) (Some 19998) (Float 0) (Float 0) NaN) = Float 0
   \<and> p_probability (ex_path_out (ex_path 0) (Some 19998) (Float 0) (Float 0) NaN) = NaN
   \<and> p_probability (ex_path_out (ex_path 0) (Some 19998) (Float 0) (Float 0) NaN) \<noteq> Float 1
   \<and> calculate_cost (ex_globals [ex_w_ivt, ex_w_wait]) 1 0 1
      (Fresh [ex_path 0, ex_path2] (ex_links [ex_bus_link 0 None, ex_rail_link]))
      [ex_trip_row, ex_trip_row2] no_transfers no_access no_access
     = Inr ([ex_path_out (ex_path 0) (Some 30) (Float (exp (- 30))) (Float (exp (- 30))) (Float 1),
             ex_path_out ex_path2 None NaN NaN NaN],
            ex_links [ex_link_out (ex_bus_link 0 None) (Some 30), ex_link_out ex_rail_link None])
   \<and> map p_trip_list_id_num
        [ex_path_out (ex_path 0) (Some 30) (Float (exp (- 30))) (Float (exp (- 30))) (Float 1),
         ex_path_out ex_path2 None NaN NaN NaN] = [1, 2]
   \<and> p_sim_cost (ex_path_out ex_path2 None NaN NaN NaN) = None
   \<and> p_probability (ex_path_out ex_path2 None NaN NaN NaN) = NaN
   \<and> p_probability (ex_path_out ex_path2 None NaN NaN NaN) \<noteq> Float 1"
  by (simp add: ex_calculate_cost ex_calculate_cost3 ex_path_out_fields ex_path_ids)

text \<open>
  C5, amended: in the path table \<^verbatim>\<open>calculate_cost\<close> returns, a path that is the only one
  of its trip, where the logsum of the trip is a number other than 0 (neither NaN nor inf),
  has probability 1; it has a cost \<open>c\<close>, and the logsum is exp(- dispersion * c).
\<close>

theorem single_path_probability:
  assumes run: "calculate_cost g iteration simulation_iteration STOCH_DISPERSION tabs trip_list_df
             transfers_df walk_df drive_df = Inr (pathset_paths_df, pathset_links_df)"
    and single: "filter (\<lambda>q. p_trip_list_id_num q = p_trip_list_id_num p) pathset_paths_df = [p]"
    and logsum: "p_logsum p = Float s"
    and nonzero: "s \<noteq> 0"
  shows "p_probability p = Float 1
       \<and> (\<exists>c. p_sim_cost p = Some c \<and> s = exp (- (STOCH_DISPERSION * c)))"
proof -
  from calculate_cost_probabilities [OF run] obtain df
    where P: "pathset_paths_df = path_probabilities STOCH_DISPERSION df" ..
  have "p \<in> set (filter (\<lambda>q. p_trip_list_id_num q = p_trip_list_id_num p) pathset_paths_df)"
    unfolding single by simp
  then have mem: "p \<in> set (path_probabilities STOCH_DISPERSION df)"
    unfolding P by simp
  note row = path_probabilities_row [OF mem, folded P, unfolded single]
  have "sum_float64 [p_logsum_component p] = Float s"
    using row logsum by simp
  then have comp: "p_logsum_component p = Float s"
    by (rule sum_float64_one_Float)
  have "p_probability p = Float 1"
    using row comp logsum nonzero by simp
  moreover have "logsum_component_of STOCH_DISPERSION (p_sim_cost p) = Float s"
    using row comp by simp
  from logsum_component_of_Float [OF this nonzero]
  have "\<exists>c. p_sim_cost p = Some c \<and> s = exp (- (STOCH_DISPERSION * c))" .
  ultimately show ?thesis ..
qed

text \<open>
  The theorem at trip 1 of the second run above, whose only path is a bus link of cost 30:
  the logsum is exp(-30).
\<close>

theorem single_path_probability_witness:
  "calculate_cost (ex_globals [ex_w_ivt, ex_w_wait]) 1 0 1
      (Fresh [ex_path 0, ex_path2] (ex_links [ex_bus_link 0 None, ex_rail_link]))
      [ex_trip_row, ex_trip_row2] no_transfers no_access no_access
     = Inr ([ex_path_out (ex_path 0) (Some 30) (Float (exp (- 30))) (Float (exp (- 30))) (Float 1),
             ex_path_out ex_path2 None NaN NaN NaN],
            ex_links [ex_link_out (ex_bus_link 0 None) (Some 30), ex_link_out ex_rail_link None])
   \<and> filter (\<lambda>q. p_trip_list_id_num q
                   = p_trip_list_id_num (ex_path_out (ex_path 0) (Some 30) (Float (exp (- 30))) (Float (exp (- 30))) (Float 1)))
        [ex_path_out (ex_path 0) (Some 30) (Float (exp (- 30))) (Float (exp (- 30))) (Float 1),
         ex_path_out ex_path2 None NaN NaN NaN]
     = [ex_path_out (ex_path 0) (Some 30) (Float (exp (- 30))) (Float (exp (- 30))) (Float 1)]
   \<and> p_logsum (ex_path_out (ex_path 0) (Some 30) (Float (exp (- 30))) (Float (exp (- 30))) (Float 1)) = Float (exp (- 30))
   \<and> exp (- 30) \<noteq> (0::real)
   \<and> p_probability (ex_path_out (ex_path 0) (Some 30) (Float (exp (- 30))) (Float (exp (- 30))) (Float 1)) = Float 1
   \<and> (\<exists>c. p_sim_cost (ex_path_out (ex_path 0) (Some 30) (Float (exp (- 30))) (Float (exp (- 30))) (Float 1)) = Some c
          \<and> exp (- 30) = exp (- (1 * c)))"
proof -
  let ?p = "ex_path_out (ex_path 0) (Some 30) (Float (exp (- 30))) (Float (exp (- 30))) (Float 1)"
  let ?q = "ex_path_out ex_path2 None NaN NaN NaN"
  have single: "filter (\<lambda>q. p_trip_list_id_num q = p_trip_list_id_num ?p) [?p, ?q] = [?p]"
    by (simp add: ex_path_out_fields ex_path_ids)
  have logsum: "p_logsum ?p = Float (exp (- 30))"
    by (simp add: ex_path_out_fields)
  have nonzero: "exp (- 30) \<noteq> (0::real)"
    by simp
  note concl = single_path_probability [OF ex_calculate_cost3 single logsum nonzero]
  show ?thesis
    by (rule conjI [OF ex_calculate_cost3 conjI [OF single conjI [OF logsum
          conjI [OF nonzero concl]]]])
qed

subsection \<open>C6: a trip with two paths\<close>




subsection \<open>C7: running calculate_cost twice\<close>

text \<open>
  C7: when \<^verbatim>\<open>calculate_cost\<close> returns a path table and a link table, a second call on these
  two tables, with the other arguments and the weights unchanged, returns the same two
  tables: the columns of the first call are dropped before anything is computed.
\<close>

theorem calculate_cost_idempotent:
  assumes "calculate_cost g iteration simulation_iteration STOCH_DISPERSION tabs trip_list_df
             transfers_df walk_df drive_df = Inr (pathset_paths_df, pathset_links_df)"
  shows "calculate_cost g iteration simulation_iteration STOCH_DISPERSION
             (Costed pathset_paths_df pathset_links_df) trip_list_df transfers_df walk_df drive_df
           = Inr (pathset_paths_df, pathset_links_df)"
  using calculate_cost_cong [OF drop_cost_columns_result [OF assms]] assms by simp

text \<open>The theorem at the trip with two paths: the second call returns what the first did.\<close>

theorem calculate_cost_idempotent_witness:
  "calculate_cost (ex_globals [ex_w_ivt, ex_w_wait]) 1 0 1
      (Fresh [ex_path 0, ex_path 1] (ex_links [ex_bus_link 0 None, ex_bus_link 1 (Some 1)]))
      [ex_trip_row] no_transfers no_access no_access
     = Inr ([ex_path_out (ex_path 0) (Some 30) (Float (exp (- 30))) (Float (exp (- 30))) (Float 1),
             ex_path_out (ex_path 1) (Some 19998) (Float 0) (Float (exp (- 30))) (Float 0)],
            ex_links [ex_link_out (ex_bus_link 0 None) (Some 30),
                      ex_link_out (ex_bus_link 1 (Some 1)) (Some 19998)])
   \<and> calculate_cost (ex_globals [ex_w_ivt, ex_w_wait]) 1 0 1
         (Costed
            [ex_path_out (ex_path 0) (Some 30) (Float (exp (- 30))) (Float (exp (- 30))) (Float 1),
             ex_path_out (ex_path 1) (Some 19998) (Float 0) (Float (exp (- 30))) (Float 0)]
            (ex_links [ex_link_out (ex_bus_link 0 None) (Some 30),
                       ex_link_out (ex_bus_link 1 (Some 1)) (Some 19998)]))
         [ex_trip_row] no_transfers no_access no_access
     = Inr ([ex_path_out (ex_path 0) (Some 30) (Float (exp (- 30))) (Float (exp (- 30))) (Float 1),
             ex_path_out (ex_path 1) (Some 19998) (Float 0) (Float (exp (- 30))) (Float 0)],
            ex_links [ex_link_out (ex_bus_link 0 None) (Some 30),
                      ex_link_out (ex_bus_link 1 (Some 1)) (Some 19998)])"
  by (rule conjI [OF ex_calculate_cost2 calculate_cost_idempotent [OF ex_calculate_cost2]])

subsection \<open>C8: values of a transit link\<close>

text \<open>
  C8: in the transit table of \<^verbatim>\<open>calculate_cost\<close> every row is a transit link with one of
  its weights. Under the weight name \<^verbatim>\<open>in_vehicle_time_min\<close> its value is alight time minus
  board time in minutes; under \<^verbatim>\<open>wait_time_min\<close>, board time minus the time of arrival at
  the stop in minutes; under \<^verbatim>\<open>at_capacity\<close>, 1 if the overcap of the vehicle is at least 0
  and the traveler is not recorded as a lucky boarder, and 0 if not; under \<^verbatim>\<open>overcap\<close>, the
  overcap of the vehicle, and 0 where that is negative. The overcap is the column
  \<^verbatim>\<open>Trip.SIM_COL_VEH_MSA_OVERCAP\<close> when \<^verbatim>\<open>Assignment.MSA_RESULTS\<close> is set and the link table
  has it, \<^verbatim>\<open>Trip.SIM_COL_VEH_OVERCAP\<close> otherwise.
\<close>

theorem transit_link_values:
  assumes tables: "cost_tables g simulation_iteration tabs trip_list_df transfers_df walk_df drive_df
             = Inr (cost_accegr_df, cost_trip_df, cost_transfer_df)"
    and row: "r \<in> set cost_trip_df"
  shows "l_linkmode (c_link r) = STATE_MODE_TRIP
       \<and> (weight_name (c_weight r) = ''in_vehicle_time_min'' \<longrightarrow>
            var_value r = minutes (l_alight_time (c_link r)) (l_board_time (c_link r)))
       \<and> (weight_name (c_weight r) = ''wait_time_min'' \<longrightarrow>
            var_value r = minutes (l_board_time (c_link r)) (l_pf_A_time (c_link r)))
       \<and> (weight_name (c_weight r) = ''at_capacity'' \<longrightarrow>
            var_value r
              = Some (if ge0 (overcap_col g (snd (drop_cost_columns tabs)) r)
                         \<and> \<not> lucky_boarder (snd (drop_cost_columns tabs)) r
                      then 1 else 0))
       \<and> (weight_name (c_weight r) = ''overcap'' \<longrightarrow>
            var_value r = map_option (max 0) (overcap_col g (snd (drop_cost_columns tabs)) r))"
proof -
  from cost_tables_trip [OF tables] obtain df where
    x: "cost_trip_df = trip_costs g (snd (drop_cost_columns tabs)) df"
    and df: "\<forall>c \<in> set df. l_linkmode (c_link c) = STATE_MODE_TRIP"
    by blast
  note tr = trip_costs_row [OF row [unfolded x]]
  from tr df have "l_linkmode (c_link r) = STATE_MODE_TRIP"
    by auto
  with tr show ?thesis
    by simp
qed

text \<open>
  The theorem at the bus link, under each of the four weight names: 20 minutes in the
  vehicle, 5 minutes of waiting, and 0 twice for a vehicle 5 under its capacity.
\<close>

theorem transit_link_values_witness:
  "cost_tables (ex_globals [ex_w_ivt, ex_w_wait]) 0
      (Fresh [ex_path 0] (ex_links [ex_bus_link 0 None])) [ex_trip_row]
      no_transfers no_access no_access
     = Inr ([], [ex_trip_cost_row (ex_bus_link 0 None) ex_w_ivt (Some 20),
                 ex_trip_cost_row (ex_bus_link 0 None) ex_w_wait (Some 5)], [])
   \<and> var_value (ex_trip_cost_row (ex_bus_link 0 None) ex_w_ivt (Some 20))
        = minutes (l_alight_time (ex_bus_link 0 None)) (l_board_time (ex_bus_link 0 None))
   \<and> var_value (ex_trip_cost_row (ex_bus_link 0 None) ex_w_wait (Some 5))
        = minutes (l_board_time (ex_bus_link 0 None)) (l_pf_A_time (ex_bus_link 0 None))
   \<and> cost_tables (ex_globals [ex_w_cap, ex_w_over]) 0
      (Fresh [ex_path 0] (ex_links [ex_bus_link 0 None])) [ex_trip_row]
      no_transfers no_access no_access
     = Inr ([], [ex_trip_cost_row (ex_bus_link 0 None) ex_w_cap (Some 0),
                 ex_trip_cost_row (ex_bus_link 0 None) ex_w_over (Some 0)], [])
   \<and> l_overcap (ex_bus_link 0 None) = Some (- 5)
   \<and> var_value (ex_trip_cost_row (ex_bus_link 0 None) ex_w_cap (Some 0)) = Some 0
   \<and> var_value (ex_trip_cost_row (ex_bus_link 0 None) ex_w_over (Some 0)) = Some 0"
proof -
  let ?l = "ex_bus_link 0 None"
  let ?links = "ex_links [?l]"
  have ivt: "weight_name (c_weight (ex_trip_cost_row ?l ex_w_ivt (Some 20))) = ''in_vehicle_time_min''"
    and wait: "weight_name (c_weight (ex_trip_cost_row ?l ex_w_wait (Some 5))) = ''wait_time_min''"
    and cap: "weight_name (c_weight (ex_trip_cost_row ?l ex_w_cap (Some 0))) = ''at_capacity''"
    and over: "weight_name (c_weight (ex_trip_cost_row ?l ex_w_over (Some 0))) = ''overcap''"
    by (simp_all add: ex_trip_cost_fields ex_w_ivt_def ex_w_wait_def ex_w_cap_def ex_w_over_def)
  have oc: "overcap_col g ?links (ex_trip_cost_row ?l w v) = Some (- 5)" for g w v
    by (simp add: overcap_col_def ex_links_def ex_trip_cost_fields ex_bus_times)
  have a: "var_value (ex_trip_cost_row ?l ex_w_ivt (Some 20))
        = minutes (l_alight_time ?l) (l_board_time ?l)"
    using transit_link_values [OF ex_cost_tables [where paths = "[ex_path 0]" and p = 0 and m = None],
        where r = "ex_trip_cost_row ?l ex_w_ivt (Some 20)"] ivt
    by (simp add: ex_trip_cost_fields)
  have b: "var_value (ex_trip_cost_row ?l ex_w_wait (Some 5))
        = minutes (l_board_time ?l) (l_pf_A_time ?l)"
    using transit_link_values [OF ex_cost_tables [where paths = "[ex_path 0]" and p = 0 and m = None],
        where r = "ex_trip_cost_row ?l ex_w_wait (Some 5)"] wait
    by (simp add: ex_trip_cost_fields)
  have c: "var_value (ex_trip_cost_row ?l ex_w_cap (Some 0)) = Some 0"
    using transit_link_values [OF ex_cost_tables_cap [where paths = "[ex_path 0]" and p = 0 and m = None],
        where r = "ex_trip_cost_row ?l ex_w_cap (Some 0)"] cap
    by (simp add: oc ge0_def)
  have d: "var_value (ex_trip_cost_row ?l ex_w_over (Some 0)) = Some 0"
    using transit_link_values [OF ex_cost_tables_cap [where paths = "[ex_path 0]" and p = 0 and m = None],
        where r = "ex_trip_cost_row ?l ex_w_over (Some 0)"] over
    by (simp add: oc)
  from ex_cost_tables [where paths = "[ex_path 0]" and p = 0 and m = None] a b
    ex_cost_tables_cap [where paths = "[ex_path 0]" and p = 0 and m = None]
    ex_bus_times(3) [where p = 0 and m = None] c d
  show ?thesis
    by (intro conjI)
qed

subsection \<open>C9: the weight file of the path finder\<close>

text \<open>
  C9, as stated, fails: the file written for the path finder starts with a header line,
  and its rows follow the supply mode names, not their numbers. Here rail has number 1 and
  bus number 2, and the bus rows come first.
\<close>

theorem derived_weight_file_counterexample:
  "verify_weight_config [] ex_routes True [ex_rail_ivt, ex_bus_ivt]
     = Completed (ex_routes [ex_bus_cap, ex_bus_ivt, ex_rail_cap, ex_rail_ivt])
         \<lparr>csv_sep = CHR '' '',
          csv_header = Some [''user_class'', ''demand_mode_type'', ''demand_mode'',
                             ''supply_mode_num'', ''weight_name'', ''weight_value''],
          csv_rows = [[CStr ''all'', CStr ''transit'', CStr ''transit'', CInt 2, CStr ''at_capacity'', CFloat 9999],
                      [CStr ''all'', CStr ''transit'', CStr ''transit'', CInt 2, CStr ''in_vehicle_time_min'', CFloat 1],
                      [CStr ''all'', CStr ''transit'', CStr ''transit'', CInt 1, CStr ''at_capacity'', CFloat 9999],
                      [CStr ''all'', CStr ''transit'', CStr ''transit'', CInt 1, CStr ''in_vehicle_time_min'', CFloat 1]]\<rparr>
   \<and> \<not> sorted (map weights_file_sort_key (ex_routes [ex_bus_cap, ex_bus_ivt, ex_rail_cap, ex_rail_ivt]))"
  unfolding ex_verify
  by (simp add: to_csv_def ex_routes_def ex_rail_ivt_def ex_bus_ivt_def ex_rail_cap_def ex_bus_cap_def
      weights_file_sort_key_def)

text \<open>
  C9, amended: the file is delimited by spaces, its first line names the six columns
  (\<^verbatim>\<open>supply_mode_num\<close> in the place of \<^verbatim>\<open>supply_mode\<close>), and its data lines are the rows of
  the final weight table in the order of that table: what \<^verbatim>\<open>add_numeric_mode_id\<close> returns
  for the table as it was, or, with \<^verbatim>\<open>capacity_constraint\<close>, for the table with the
  \<^verbatim>\<open>at_capacity\<close> rows sorted by (user class, demand mode type, demand mode, supply mode
  name, weight name).
\<close>

theorem derived_weight_file:
  assumes "verify_weight_config modes_df add_numeric_mode_id capacity_constraint W = Completed W' file"
  shows "csv_sep file = CHR '' ''
     \<and> csv_header file = Some [''user_class'', ''demand_mode_type'', ''demand_mode'',
                             ''supply_mode_num'', ''weight_name'', ''weight_value'']
     \<and> csv_rows file = map (\<lambda>w. [CStr (user_class w), CStr (demand_mode_type w), CStr (demand_mode w),
                                  CInt (supply_mode_num w), CStr (weight_name w), CFloat (weight_value w)]) W'
     \<and> W' = add_numeric_mode_id
              (if capacity_constraint then sort_key weights_sort_key (W @ transit_weights_df W) else W)"
  using assms
  by (auto simp: verify_weight_config_def Let_def to_csv_def capacity_weights_def
      split: if_splits prod.splits)

text \<open>The theorem at the table of the two transit rows of rail and bus.\<close>

theorem derived_weight_file_witness:
  "verify_weight_config [] ex_routes True [ex_rail_ivt, ex_bus_ivt]
     = Completed (ex_routes [ex_bus_cap, ex_bus_ivt, ex_rail_cap, ex_rail_ivt])
        (to_csv [WEIGHTS_COLUMN_USER_CLASS, WEIGHTS_COLUMN_DEMAND_MODE_TYPE,
                 WEIGHTS_COLUMN_DEMAND_MODE, WEIGHTS_COLUMN_SUPPLY_MODE_NUM,
                 WEIGHTS_COLUMN_WEIGHT_NAME, WEIGHTS_COLUMN_WEIGHT_VALUE]
                (CHR '' '') True (ex_routes [ex_bus_cap, ex_bus_ivt, ex_rail_cap, ex_rail_ivt]))
   \<and> csv_header (to_csv [WEIGHTS_COLUMN_USER_CLASS, WEIGHTS_COLUMN_DEMAND_MODE_TYPE,
                 WEIGHTS_COLUMN_DEMAND_MODE, WEIGHTS_COLUMN_SUPPLY_MODE_NUM,
                 WEIGHTS_COLUMN_WEIGHT_NAME, WEIGHTS_COLUMN_WEIGHT_VALUE]
                (CHR '' '') True (ex_routes [ex_bus_cap, ex_bus_ivt, ex_rail_cap, ex_rail_ivt]))
       = Some [''user_class'', ''demand_mode_type'', ''demand_mode'',
               ''supply_mode_num'', ''weight_name'', ''weight_value'']"
  by (rule conjI [OF ex_verify derived_weight_file [OF ex_verify, THEN conjunct2, THEN conjunct1]])

subsection \<open>C10: reset\<close>

text \<open>
  C10: \<^verbatim>\<open>reset\<close> keeps the object and every attribute but \<^verbatim>\<open>pathdict\<close>, which becomes the
  empty list (not the empty dict of the constructor); after it \<^verbatim>\<open>path_found\<close> is false and
  \<^verbatim>\<open>num_paths\<close> is 0, which is what both return on every freshly constructed PathSet.
\<close>

theorem reset_keeps_record:
  fixes self :: "'p PathSet"
  shows "trip_attrs (reset self) = trip_attrs self
     \<and> direction (reset self) = direction self
     \<and> pref_time (reset self) = pref_time self
     \<and> pref_time_min (reset self) = pref_time_min self
     \<and> pathdict (reset self) = PyList []
     \<and> pathdict (reset self) \<noteq> PyDict Mapping.empty
     \<and> \<not> path_found (reset self)
     \<and> num_paths (reset self) = 0
     \<and> (\<forall>d fresh. PathSet_init d = Inr (fresh :: 'p PathSet) \<longrightarrow>
            pathdict fresh = PyDict Mapping.empty
          \<and> path_found fresh = path_found (reset self)
          \<and> num_paths fresh = num_paths (reset self))"
  by (auto simp: reset_def path_found_def num_paths_def len_def PathSet_init_def init_with_def
      split: sum.splits if_splits)

text \<open>The theorem at a PathSet with one path, and at the PathSet built from the example trip.\<close>

theorem reset_keeps_record_witness:
  "PathSet_init ex_trip
     = Inr \<lparr>trip_attrs = ex_trip, direction = 1, pref_time = 3600000000000,
            pref_time_min = Num 60, pathdict = PyDict (Mapping.empty :: (int, nat) mapping)\<rparr>
   \<and> num_paths \<lparr>trip_attrs = ex_trip, direction = 1, pref_time = 3600000000000,
                pref_time_min = Num 60,
                pathdict = PyDict (Mapping.update 1 (7::nat) Mapping.empty)\<rparr> = 1
   \<and> num_paths (reset \<lparr>trip_attrs = ex_trip, direction = 1, pref_time = 3600000000000,
                pref_time_min = Num 60,
                pathdict = PyDict (Mapping.update 1 (7::nat) Mapping.empty)\<rparr>) = 0
   \<and> num_paths \<lparr>trip_attrs = ex_trip, direction = 1, pref_time = 3600000000000,
                pref_time_min = Num 60,
                pathdict = PyDict (Mapping.empty :: (int, nat) mapping)\<rparr> = 0"
  using reset_keeps_record [of "\<lparr>trip_attrs = ex_trip, direction = 1, pref_time = 3600000000000,
                pref_time_min = Num 60,
                pathdict = PyDict (Mapping.update 1 (7::nat) Mapping.empty)\<rparr>"]
    ex_init
  by (simp add: num_paths_def len_def Mapping.size_def)

end
